theory Spec2Isabelle
  imports Complex_Main
begin

section \<open>Python values\<close>

text \<open>
  A Python \<open>str\<close> is a sequence of Unicode code points; it is modelled as the list of
  these code points, so that \<open>len\<close> is \<open>length\<close>, Chinese message texts can be written
  down, and lone surrogates (which \<open>encode('utf-8')\<close> rejects) exist. \<open>asc\<close> turns an
  ASCII literal into such a list.
\<close>

type_synonym pystr = "nat list"

definition asc :: "string \<Rightarrow> pystr" where
  "asc s = map of_char s"

text \<open>Exceptions: the class decides which \<open>except\<close> clause catches, \<open>str(e)\<close> is the message.\<close>

datatype exn_class =
  Exception | ValueError | TypeError | OverflowError | KeyError | IndexError
  | AttributeError | OSError

datatype pyexn = PyExn (exn_cls: exn_class) (exn_msg: pystr)

text \<open>
  A Python \<open>float\<close>: the finite values by the rational number they denote (the sign of
  zero is not modelled), the infinities and NaN.
\<close>

datatype pyfloat = Finite rat | PosInf | NegInf | NaN

datatype pydate = Date nat nat nat

datatype pydatetime = DateTime nat nat nat nat nat nat nat

text \<open>
  The values a row of the MySQL driver holds (\<open>None\<close>, \<open>int\<close>, \<open>float\<close>, \<open>str\<close>, \<open>bytes\<close>,
  \<open>date\<close>, \<open>datetime\<close>, \<open>timedelta\<close> in microseconds, \<open>Decimal\<close> by its text), and \<open>bool\<close>,
  which the converter tests for.
\<close>

datatype pyval =
  PyNone
  | PyBool bool
  | PyInt int
  | PyFloat pyfloat
  | PyStr pystr
  | PyBytes "nat list"
  | PyDate pydate
  | PyDateTime pydatetime
  | PyTimeDelta int
  | PyDecimal pystr

text \<open>
  The builtins of Python whose results the code only passes on: Unicode case mapping,
  \<open>float(s)\<close>, \<open>float(i)\<close>, \<open>datetime.strptime(s, fmt)\<close> and \<open>str(v)\<close>. Every theorem
  holds for whatever these compute; \<open>Inl\<close> is the exception they raise.
\<close>

record pylib =
  str_upper :: "pystr \<Rightarrow> pystr"
  str_lower :: "pystr \<Rightarrow> pystr"
  float_of_str :: "pystr \<Rightarrow> pyexn + pyfloat"
  float_of_int :: "int \<Rightarrow> pyexn + pyfloat"
  strptime :: "pystr \<Rightarrow> pystr \<Rightarrow> pyexn + pydatetime"
  str_of :: "pyval \<Rightarrow> pystr"

subsection \<open>String operations\<close>

text \<open>\<open>s.startswith(p)\<close>.\<close>

definition startswith :: "pystr \<Rightarrow> pystr \<Rightarrow> bool" where
  "startswith s p = (take (length p) s = p)"

text \<open>\<open>sub in s\<close> for strings.\<close>

fun contains :: "pystr \<Rightarrow> pystr \<Rightarrow> bool" where
  "contains [] sub = (sub = [])"
| "contains (c # cs) sub = (startswith (c # cs) sub \<or> contains cs sub)"

text \<open>\<open>s.split(sep)\<close> for a separator of one character: never the empty list.\<close>

fun py_split :: "pystr \<Rightarrow> nat \<Rightarrow> pystr list" where
  "py_split [] sep = [[]]"
| "py_split (c # cs) sep =
     (if c = sep then [] # py_split cs sep
      else (case py_split cs sep of [] \<Rightarrow> [[c]] | p # ps \<Rightarrow> (c # p) # ps))"

text \<open>The characters \<open>str.isspace\<close> accepts, which \<open>strip()\<close> removes at both ends.\<close>

definition isspace :: "nat \<Rightarrow> bool" where
  "isspace c =
     ((9 \<le> c \<and> c \<le> 13) \<or> (28 \<le> c \<and> c \<le> 32) \<or> c = 133 \<or> c = 160 \<or> c = 5760
      \<or> (8192 \<le> c \<and> c \<le> 8202) \<or> c = 8232 \<or> c = 8233 \<or> c = 8239 \<or> c = 8287
      \<or> c = 12288)"

definition strip :: "pystr \<Rightarrow> pystr" where
  "strip s = rev (dropWhile isspace (rev (dropWhile isspace s)))"

text \<open>\<open>s.find(c)\<close> for one character: the first index, or -1.\<close>

fun find_from :: "pystr \<Rightarrow> nat \<Rightarrow> nat \<Rightarrow> int" where
  "find_from [] c i = -1"
| "find_from (x # xs) c i = (if x = c then int i else find_from xs c (Suc i))"

definition py_find :: "pystr \<Rightarrow> nat \<Rightarrow> int" where
  "py_find s c = find_from s c 0"

text \<open>\<open>s[a:b]\<close>: a negative bound counts from the end, both are clipped to the string.\<close>

definition slice_bound :: "nat \<Rightarrow> int \<Rightarrow> nat" where
  "slice_bound n i = (if i < 0 then nat (max 0 (int n + i)) else min n (nat i))"

definition py_slice :: "pystr \<Rightarrow> int \<Rightarrow> int \<Rightarrow> pystr" where
  "py_slice s a b =
     (let lo = slice_bound (length s) a; hi = slice_bound (length s) b
      in take (hi - lo) (drop lo s))"

section \<open>TypeMapper\<close>

definition TYPE_MAPPING :: "(pystr \<times> pystr) list" where
  "TYPE_MAPPING =
    [(asc ''TINYINT'', asc ''Int8''),
     (asc ''TINYINT UNSIGNED'', asc ''UInt8''),
     (asc ''SMALLINT'', asc ''Int16''),
     (asc ''SMALLINT UNSIGNED'', asc ''UInt16''),
     (asc ''MEDIUMINT'', asc ''Int32''),
     (asc ''MEDIUMINT UNSIGNED'', asc ''UInt32''),
     (asc ''INT'', asc ''Int32''),
     (asc ''INTEGER'', asc ''Int32''),
     (asc ''INT UNSIGNED'', asc ''UInt32''),
     (asc ''INTEGER UNSIGNED'', asc ''UInt32''),
     (asc ''BIGINT'', asc ''Int64''),
     (asc ''BIGINT UNSIGNED'', asc ''UInt64''),
     (asc ''YEAR'', asc ''Int16''),
     (asc ''FLOAT'', asc ''Float32''),
     (asc ''DOUBLE'', asc ''Float64''),
     (asc ''DECIMAL'', asc ''Decimal''),
     (asc ''CHAR'', asc ''String''),
     (asc ''VARCHAR'', asc ''String''),
     (asc ''TINYTEXT'', asc ''String''),
     (asc ''TEXT'', asc ''String''),
     (asc ''MEDIUMTEXT'', asc ''String''),
     (asc ''LONGTEXT'', asc ''String''),
     (asc ''BINARY'', asc ''String''),
     (asc ''VARBINARY'', asc ''String''),
     (asc ''TINYBLOB'', asc ''String''),
     (asc ''BLOB'', asc ''String''),
     (asc ''MEDIUMBLOB'', asc ''String''),
     (asc ''LONGBLOB'', asc ''String''),
     (asc ''DATE'', asc ''Date32''),
     (asc ''TIME'', asc ''DateTime64(6)''),
     (asc ''DATETIME'', asc ''DateTime64(6)''),
     (asc ''TIMESTAMP'', asc ''DateTime64(6)''),
     (asc ''ENUM'', asc ''LowCardinality(String)''),
     (asc ''SET'', asc ''String''),
     (asc ''JSON'', asc ''String''),
     (asc ''GEOMETRY'', asc ''String''),
     (asc ''POINT'', asc ''String''),
     (asc ''LINESTRING'', asc ''String''),
     (asc ''POLYGON'', asc ''String''),
     (asc ''VECTOR'', asc ''Array(Float32)'')]"

text \<open>\<open>d.get(k, default)\<close>.\<close>

definition dict_get :: "(pystr \<times> pystr) list \<Rightarrow> pystr \<Rightarrow> pystr \<Rightarrow> pystr" where
  "dict_get d k dflt = (case map_of d k of None \<Rightarrow> dflt | Some v \<Rightarrow> v)"

definition map_mysql_type_to_clickhouse :: "pylib \<Rightarrow> pystr \<Rightarrow> pystr" where
  "map_mysql_type_to_clickhouse L mysql_type =
     (let base_type = strip (py_split (str_upper L mysql_type) 40 ! 0)
      in if startswith (str_upper L mysql_type) (asc ''TINYINT(1)'') then asc ''Bool''
         else if base_type = asc ''DECIMAL'' \<and> 40 \<in> set mysql_type then
           (let precision_part =
                  py_slice mysql_type (py_find mysql_type 40 + 1) (py_find mysql_type 41)
            in asc ''Decimal('' @ precision_part @ asc '')'')
         else dict_get TYPE_MAPPING base_type (asc ''String''))"

text \<open>\<open>upper()\<close> and \<open>lower()\<close> on the ASCII letters, and the numeral \<open>str(n)\<close> prints.\<close>

definition ascii_upper :: "pystr \<Rightarrow> pystr" where
  "ascii_upper s = map (\<lambda>c. if 97 \<le> c \<and> c \<le> 122 then c - 32 else c) s"

definition ascii_lower :: "pystr \<Rightarrow> pystr" where
  "ascii_lower s = map (\<lambda>c. if 65 \<le> c \<and> c \<le> 90 then c + 32 else c) s"

fun decimal_str :: "nat \<Rightarrow> pystr" where
  "decimal_str n = (if n < 10 then [48 + n] else decimal_str (n div 10) @ [48 + n mod 10])"

declare decimal_str.simps [simp del]


section \<open>ValueCoercer: the defaults and conversions of ClickHouseClientV3\<close>

text \<open>
  The methods \<open>_get_default_value_for_type\<close>, \<open>_convert_value_for_clickhouse\<close> and
  \<open>_clean_string_value\<close> are written here without their leading underscore. Console
  output is not modelled.
\<close>

text \<open>\<open>any(t in field_type_lower for t in names)\<close>.\<close>

definition any_in :: "pystr list \<Rightarrow> pystr \<Rightarrow> bool" where
  "any_in names field_type_lower = list_ex (\<lambda>t. contains field_type_lower t) names"

definition default_date :: pyval where
  "default_date = PyDate (Date 2000 1 1)"

definition default_datetime :: pyval where
  "default_datetime = PyDateTime (DateTime 2000 1 1 0 0 0 0)"

definition get_default_value_for_type :: "pylib \<Rightarrow> pystr \<Rightarrow> pyval" where
  "get_default_value_for_type L field_type =
     (let field_type_lower = str_lower L field_type
      in if any_in [asc ''int'', asc ''uint''] field_type_lower then PyInt 0
         else if any_in [asc ''float'', asc ''double''] field_type_lower then PyFloat (Finite 0)
         else if contains field_type_lower (asc ''decimal'') then PyInt 0
         else if field_type_lower = asc ''date32'' then default_date
         else if contains field_type_lower (asc ''datetime'') then default_datetime
         else if field_type_lower = asc ''bool'' then PyBool False
         else PyStr [])"

subsection \<open>String sanitization\<close>

text \<open>\<open>s.replace(c, '')\<close> for each control character the source lists, in its order.\<close>

definition replaced_chars :: "nat list" where
  "replaced_chars =
     [0, 1, 2, 3, 4, 5, 6, 7, 8, 11, 12, 14, 15, 16, 17, 18, 19, 20, 21, 22, 23, 24, 25, 26,
      27, 28, 29, 30, 31]"

definition remove_char :: "nat \<Rightarrow> pystr \<Rightarrow> pystr" where
  "remove_char c s = filter (\<lambda>x. x \<noteq> c) s"

text \<open>\<open>s.encode('utf-8')\<close> raises exactly when the string holds a surrogate code point.\<close>

definition utf8_encodable :: "pystr \<Rightarrow> bool" where
  "utf8_encodable s = list_all (\<lambda>c. \<not> (55296 \<le> c \<and> c \<le> 57343)) s"

definition keep_char :: "nat \<Rightarrow> bool" where
  "keep_char c = (32 \<le> c \<or> c \<in> set [9, 10, 13])"

definition clean_string_value :: "pystr \<Rightarrow> pystr" where
  "clean_string_value v =
     (if v = [] then []
      else
        (let cleaned = filter keep_char v;
             cleaned = fold remove_char replaced_chars cleaned
         in if \<not> utf8_encodable cleaned then []
            else if length cleaned > 1000 then take 1000 cleaned
            else cleaned))"

subsection \<open>Conversion\<close>

text \<open>\<open>hasattr(value, 'strftime')\<close>: dates and datetimes.\<close>

fun has_strftime :: "pyval \<Rightarrow> bool" where
  "has_strftime (PyDate _) = True"
| "has_strftime (PyDateTime _) = True"
| "has_strftime _ = False"

text \<open>\<open>hasattr(value, 'date')\<close>: a \<open>datetime\<close> has the method, a \<open>date\<close> has not.\<close>

fun has_date :: "pyval \<Rightarrow> bool" where
  "has_date (PyDateTime _) = True"
| "has_date _ = False"

fun date_of :: "pydatetime \<Rightarrow> pydate" where
  "date_of (DateTime y m d _ _ _ _) = Date y m d"

text \<open>\<open>value.date()\<close>, called only where \<open>has_date\<close> holds.\<close>

fun call_date :: "pyval \<Rightarrow> pyval" where
  "call_date (PyDateTime d) = PyDate (date_of d)"
| "call_date v = v"

text \<open>\<open>isinstance(value, (int, float))\<close>; \<open>bool\<close> is a subclass of \<open>int\<close>.\<close>

fun is_int_or_float :: "pyval \<Rightarrow> bool" where
  "is_int_or_float (PyBool _) = True"
| "is_int_or_float (PyInt _) = True"
| "is_int_or_float (PyFloat _) = True"
| "is_int_or_float _ = False"

text \<open>\<open>int(f)\<close> truncates towards zero and raises on the infinities and NaN.\<close>

fun int_of_float :: "pyfloat \<Rightarrow> pyexn + int" where
  "int_of_float (Finite r) = Inr (if 0 \<le> r then \<lfloor>r\<rfloor> else \<lceil>r\<rceil>)"
| "int_of_float NaN = Inl (PyExn ValueError (asc ''cannot convert float NaN to integer''))"
| "int_of_float _ = Inl (PyExn OverflowError (asc ''cannot convert float infinity to integer''))"

text \<open>\<open>int(value)\<close>, \<open>float(value)\<close> and \<open>bool(value)\<close> of an \<open>int\<close> or \<open>float\<close>.\<close>

fun py_int :: "pyval \<Rightarrow> pyexn + int" where
  "py_int (PyBool b) = Inr (if b then 1 else 0)"
| "py_int (PyInt i) = Inr i"
| "py_int (PyFloat f) = int_of_float f"
| "py_int _ = Inl (PyExn TypeError (asc ''int() argument must be a string or a real number''))"

fun py_float :: "pylib \<Rightarrow> pyval \<Rightarrow> pyexn + pyfloat" where
  "py_float L (PyBool b) = float_of_int L (if b then 1 else 0)"
| "py_float L (PyInt i) = float_of_int L i"
| "py_float L (PyFloat f) = Inr f"
| "py_float L _ = Inl (PyExn TypeError (asc ''float() argument must be a string or a real number''))"

fun py_bool :: "pyval \<Rightarrow> bool" where
  "py_bool (PyBool b) = b"
| "py_bool (PyInt i) = (i \<noteq> 0)"
| "py_bool (PyFloat f) = (f \<noteq> Finite 0)"
| "py_bool _ = True"

text \<open>
  The loop over the accepted formats: a \<open>ValueError\<close> of \<open>strptime\<close> goes on to the next
  format, any other exception leaves the loop, the first match returns.
\<close>

fun parse_formats :: "pylib \<Rightarrow> pystr \<Rightarrow> pystr list \<Rightarrow> pyexn + pydatetime option" where
  "parse_formats L s [] = Inr None"
| "parse_formats L s (fmt # fmts) =
     (case strptime L s fmt of
        Inr d \<Rightarrow> Inr (Some d)
      | Inl e \<Rightarrow> if exn_cls e = ValueError then parse_formats L s fmts else Inl e)"

definition datetime_formats :: "pystr list" where
  "datetime_formats = [asc ''%Y-%m-%d %H:%M:%S'', asc ''%Y-%m-%d %H:%M:%S.%f'', asc ''%Y-%m-%d'']"

definition date_formats :: "pystr list" where
  "date_formats = [asc ''%Y-%m-%d'', asc ''%Y-%m-%d %H:%M:%S'']"

definition true_words :: "pystr list" where
  "true_words = [asc ''true'', asc ''1'', asc ''yes'', asc ''on'']"

text \<open>
  The body of the outer \<open>try\<close> of \<open>_convert_value_for_clickhouse\<close> for a value that is not
  \<open>None\<close>: \<open>Inl\<close> is an exception no inner handler caught.
\<close>

definition convert_body :: "pylib \<Rightarrow> pyval \<Rightarrow> pystr \<Rightarrow> pyexn + pyval" where
  "convert_body L v field_type =
     (let field_type_lower = str_lower L field_type
      in if contains field_type_lower (asc ''datetime'')
            \<or> contains field_type_lower (asc ''timestamp'') then
           (if has_strftime v then Inr v
            else case v of
              PyStr s \<Rightarrow>
                (case parse_formats L s datetime_formats of
                   Inr (Some d) \<Rightarrow> Inr (PyDateTime d)
                 | Inr None \<Rightarrow> Inr default_datetime
                 | Inl e \<Rightarrow> Inr default_datetime)
            | _ \<Rightarrow> Inr default_datetime)
         else if field_type_lower = asc ''date32'' then
           (if has_date v then Inr (call_date v)
            else case v of
              PyStr s \<Rightarrow>
                (case parse_formats L s date_formats of
                   Inr (Some d) \<Rightarrow> Inr (PyDate (date_of d))
                 | Inr None \<Rightarrow> Inr default_date
                 | Inl e \<Rightarrow> Inr default_date)
            | _ \<Rightarrow> Inr default_date)
         else if any_in [asc ''int'', asc ''uint''] field_type_lower then
           (if is_int_or_float v then
              (case py_int v of Inl e \<Rightarrow> Inl e | Inr i \<Rightarrow> Inr (PyInt i))
            else case v of
              PyStr s \<Rightarrow>
                (if strip s \<noteq> [] then
                   (case float_of_str L s of
                      Inl e \<Rightarrow>
                        if exn_cls e = ValueError \<or> exn_cls e = TypeError then Inr (PyInt 0)
                        else Inl e
                    | Inr f \<Rightarrow>
                        (case int_of_float f of
                           Inl e \<Rightarrow>
                             if exn_cls e = ValueError \<or> exn_cls e = TypeError
                             then Inr (PyInt 0) else Inl e
                         | Inr i \<Rightarrow> Inr (PyInt i)))
                 else Inr (PyInt 0))
            | _ \<Rightarrow> Inr (PyInt 0))
         else if any_in [asc ''float'', asc ''double'', asc ''decimal''] field_type_lower then
           (if is_int_or_float v then
              (case py_float L v of Inl e \<Rightarrow> Inl e | Inr f \<Rightarrow> Inr (PyFloat f))
            else case v of
              PyStr s \<Rightarrow>
                (if strip s \<noteq> [] then
                   (case float_of_str L s of
                      Inl e \<Rightarrow>
                        if exn_cls e = ValueError \<or> exn_cls e = TypeError
                        then Inr (PyFloat (Finite 0)) else Inl e
                    | Inr f \<Rightarrow> Inr (PyFloat f))
                 else Inr (PyFloat (Finite 0)))
            | _ \<Rightarrow> Inr (PyFloat (Finite 0)))
         else if field_type_lower = asc ''bool'' then
           (case v of
              PyBool b \<Rightarrow> Inr (PyBool b)
            | PyStr s \<Rightarrow> Inr (PyBool (str_lower L s \<in> set true_words))
            | _ \<Rightarrow> if is_int_or_float v then Inr (PyBool (py_bool v)) else Inr (PyBool False))
         else
           (case v of
              PyStr s \<Rightarrow> Inr (PyStr (clean_string_value s))
            | _ \<Rightarrow> Inr (PyStr (str_of L v))))"

text \<open>
  The whole method: \<open>None\<close> gets the default, and the outer \<open>except Exception\<close> turns
  every exception of the body into the default of the type.
\<close>

definition convert_value_for_clickhouse ::
  "pylib \<Rightarrow> pyval \<Rightarrow> pystr \<Rightarrow> pystr \<Rightarrow> pyexn + pyval" where
  "convert_value_for_clickhouse L v field_type field_name =
     (if v = PyNone then Inr (get_default_value_for_type L field_type)
      else case convert_body L v field_type of
        Inl e \<Rightarrow> Inr (get_default_value_for_type L field_type)
      | Inr w \<Rightarrow> Inr w)"


subsection \<open>The default table of the specification\<close>

text \<open>
  The family of a target type is the branch of the converter that handles it, in the
  order the converter tests them.
\<close>

datatype type_family = TimestampT | DateT | IntegerT | FloatT | BooleanT | StringT

definition family_of :: "pylib \<Rightarrow> pystr \<Rightarrow> type_family" where
  "family_of L field_type =
     (let field_type_lower = str_lower L field_type
      in if contains field_type_lower (asc ''datetime'')
            \<or> contains field_type_lower (asc ''timestamp'') then TimestampT
         else if field_type_lower = asc ''date32'' then DateT
         else if any_in [asc ''int'', asc ''uint''] field_type_lower then IntegerT
         else if any_in [asc ''float'', asc ''double'', asc ''decimal''] field_type_lower
           then FloatT
         else if field_type_lower = asc ''bool'' then BooleanT
         else StringT)"

text \<open>The default of each family, as the table of the specification gives it.\<close>

fun documented_default :: "type_family \<Rightarrow> pyval" where
  "documented_default IntegerT = PyInt 0"
| "documented_default FloatT = PyFloat (Finite 0)"
| "documented_default DateT = PyDate (Date 2000 1 1)"
| "documented_default TimestampT = PyDateTime (DateTime 2000 1 1 0 0 0 0)"
| "documented_default BooleanT = PyBool False"
| "documented_default StringT = PyStr []"

text \<open>No format of the list parses the string.\<close>

definition no_format_parses :: "pylib \<Rightarrow> pystr \<Rightarrow> pystr list \<Rightarrow> bool" where
  "no_format_parses L s fmts = list_all (\<lambda>fmt. isl (strptime L s fmt)) fmts"

text \<open>
  An input that is not \<open>None\<close> and cannot be converted to the family: for a number, a
  value that is neither a number nor a string, a blank string, a string that \<open>float\<close>
  rejects with \<open>ValueError\<close>, and for an integer also a value with no integer part
  (infinity, NaN); for a date or a timestamp, a value that is neither a date, a datetime
  nor a string, and a string that no accepted format parses; for a boolean, a value that
  is none of \<open>bool\<close>, \<open>int\<close>, \<open>float\<close>, \<open>str\<close>; for a string, a text that \<open>utf-8\<close> cannot
  encode.
\<close>

definition unparseable :: "pylib \<Rightarrow> type_family \<Rightarrow> pyval \<Rightarrow> bool" where
  "unparseable L fam v =
     (v \<noteq> PyNone \<and>
      (case fam of
         IntegerT \<Rightarrow>
           (if is_int_or_float v then isl (py_int v)
            else case v of
              PyStr s \<Rightarrow>
                strip s = []
                \<or> (case float_of_str L s of
                      Inl e \<Rightarrow> exn_cls e = ValueError
                    | Inr f \<Rightarrow> isl (int_of_float f))
            | _ \<Rightarrow> True)
       | FloatT \<Rightarrow>
           (if is_int_or_float v then False
            else case v of
              PyStr s \<Rightarrow>
                strip s = []
                \<or> (case float_of_str L s of Inl e \<Rightarrow> exn_cls e = ValueError | Inr f \<Rightarrow> False)
            | _ \<Rightarrow> True)
       | DateT \<Rightarrow>
           (case v of
              PyStr s \<Rightarrow> no_format_parses L s date_formats
            | PyDate d \<Rightarrow> False
            | PyDateTime d \<Rightarrow> False
            | _ \<Rightarrow> True)
       | TimestampT \<Rightarrow>
           (case v of
              PyStr s \<Rightarrow> no_format_parses L s datetime_formats
            | PyDate d \<Rightarrow> False
            | PyDateTime d \<Rightarrow> False
            | _ \<Rightarrow> True)
       | BooleanT \<Rightarrow>
           (case v of PyStr s \<Rightarrow> False | _ \<Rightarrow> \<not> is_int_or_float v)
       | StringT \<Rightarrow>
           (case v of PyStr s \<Rightarrow> \<not> utf8_encodable s | _ \<Rightarrow> False)))"

text \<open>
  A decimal type: the converter treats it as a float type, and its name holds neither
  \<open>float\<close> nor \<open>double\<close>.
\<close>

definition decimal_type :: "pylib \<Rightarrow> pystr \<Rightarrow> bool" where
  "decimal_type L field_type =
     (family_of L field_type = FloatT
      \<and> \<not> any_in [asc ''float'', asc ''double''] (str_lower L field_type))"

text \<open>
  The type names on which the default for \<open>None\<close> and the converter agree about the
  family: every integer, date, boolean and string type, the float types named \<open>float\<close>
  or \<open>double\<close>, and the timestamp types whose name holds \<open>datetime\<close> and none of \<open>int\<close>,
  \<open>float\<close>, \<open>double\<close>, \<open>decimal\<close>.
\<close>

definition plain_type :: "pylib \<Rightarrow> pystr \<Rightarrow> bool" where
  "plain_type L field_type =
     (let field_type_lower = str_lower L field_type
      in case family_of L field_type of
           TimestampT \<Rightarrow>
             contains field_type_lower (asc ''datetime'')
             \<and> \<not> any_in [asc ''int'', asc ''uint'', asc ''float'', asc ''double'', asc ''decimal'']
                   field_type_lower
         | FloatT \<Rightarrow> any_in [asc ''float'', asc ''double''] field_type_lower
         | _ \<Rightarrow> True)"

text \<open>The control characters: Unicode's category Cc, U+0000 to U+001F and U+007F to U+009F.\<close>

definition is_control :: "nat \<Rightarrow> bool" where
  "is_control c = (c < 32 \<or> (127 \<le> c \<and> c \<le> 159))"

section \<open>A library to run the model\<close>

text \<open>
  A stand-in for the builtins, to evaluate the model on concrete inputs: case mapping
  of the ASCII letters; \<open>float\<close> of a signed decimal numeral with an optional fraction
  and of an integer, without rounding to a double; \<open>strptime\<close> for the formats \<open>%Y-%m-%d\<close> and \<open>%Y-%m-%d %H:%M:%S\<close> on
  fields separated as in the format; \<open>str\<close> of integers, booleans and decimals. On the
  inputs evaluated below it returns what CPython returns.
\<close>

definition is_digit :: "nat \<Rightarrow> bool" where
  "is_digit c = (48 \<le> c \<and> c \<le> 57)"

definition digits_val :: "pystr \<Rightarrow> nat" where
  "digits_val s = foldl (\<lambda>a c. 10 * a + (c - 48)) 0 s"

definition num_field :: "pystr \<Rightarrow> nat option" where
  "num_field s = (if s \<noteq> [] \<and> list_all is_digit s then Some (digits_val s) else None)"

definition value_error :: "string \<Rightarrow> pyexn + 'a" where
  "value_error m = Inl (PyExn ValueError (asc m))"

definition ascii_float_of_str :: "pystr \<Rightarrow> pyexn + pyfloat" where
  "ascii_float_of_str s =
     (let t = strip s;
          neg = (t \<noteq> [] \<and> hd t = 45);
          u = (if t \<noteq> [] \<and> (hd t = 45 \<or> hd t = 43) then tl t else t);
          ip = takeWhile is_digit u;
          rest = dropWhile is_digit u;
          fp = (if rest \<noteq> [] \<and> hd rest = 46 then tl rest else [])
      in if (ip = [] \<and> fp = []) \<or> \<not> list_all is_digit fp \<or> (rest \<noteq> [] \<and> hd rest \<noteq> 46)
         then value_error ''could not convert string to float''
         else Inr (Finite ((if neg then -1 else 1)
                * (of_nat (digits_val ip) + of_nat (digits_val fp) / 10 ^ length fp))))"

definition ascii_float_of_int :: "int \<Rightarrow> pyexn + pyfloat" where
  "ascii_float_of_int i =
     (if \<bar>i\<bar> < 2 ^ 1024 then Inr (Finite (of_int i))
      else Inl (PyExn OverflowError (asc ''int too large to convert to float'')))"

definition days_in_month :: "nat \<Rightarrow> nat \<Rightarrow> nat" where
  "days_in_month y m =
     (if m = 2 then (if y mod 4 = 0 \<and> (y mod 100 \<noteq> 0 \<or> y mod 400 = 0) then 29 else 28)
      else if m \<in> set [4, 6, 9, 11] then 30 else 31)"

definition parse_ymd :: "pystr \<Rightarrow> (nat \<times> nat \<times> nat) option" where
  "parse_ymd s =
     (case map num_field (py_split s 45) of
        [Some y, Some m, Some d] \<Rightarrow>
          if 1 \<le> y \<and> 1 \<le> m \<and> m \<le> 12 \<and> 1 \<le> d \<and> d \<le> days_in_month y m
          then Some (y, m, d) else None
      | _ \<Rightarrow> None)"

definition parse_hms :: "pystr \<Rightarrow> (nat \<times> nat \<times> nat) option" where
  "parse_hms s =
     (case map num_field (py_split s 58) of
        [Some h, Some m, Some sec] \<Rightarrow>
          if h \<le> 23 \<and> m \<le> 59 \<and> sec \<le> 59 then Some (h, m, sec) else None
      | _ \<Rightarrow> None)"

definition ascii_strptime :: "pystr \<Rightarrow> pystr \<Rightarrow> pyexn + pydatetime" where
  "ascii_strptime s fmt =
     (if fmt = asc ''%Y-%m-%d'' then
        (case parse_ymd s of
           Some (y, m, d) \<Rightarrow> Inr (DateTime y m d 0 0 0 0)
         | None \<Rightarrow> value_error ''time data does not match format'')
      else if fmt = asc ''%Y-%m-%d %H:%M:%S'' then
        (case py_split s 32 of
           [a, b] \<Rightarrow>
             (case (parse_ymd a, parse_hms b) of
                (Some (y, m, d), Some (h, mi, sec)) \<Rightarrow> Inr (DateTime y m d h mi sec 0)
              | _ \<Rightarrow> value_error ''time data does not match format'')
         | _ \<Rightarrow> value_error ''time data does not match format'')
      else value_error ''time data does not match format'')"

fun ascii_str_of :: "pyval \<Rightarrow> pystr" where
  "ascii_str_of PyNone = asc ''None''"
| "ascii_str_of (PyBool b) = (if b then asc ''True'' else asc ''False'')"
| "ascii_str_of (PyInt i) = (if i < 0 then 45 # decimal_str (nat (- i)) else decimal_str (nat i))"
| "ascii_str_of (PyStr s) = s"
| "ascii_str_of (PyDecimal s) = s"
| "ascii_str_of _ = asc ''<object>''"

definition ascii_lib :: pylib where
  "ascii_lib =
     \<lparr>str_upper = ascii_upper, str_lower = ascii_lower, float_of_str = ascii_float_of_str,
      float_of_int = ascii_float_of_int, strptime = ascii_strptime, str_of = ascii_str_of\<rparr>"

section \<open>The source: MySQLClient\<close>

type_synonym row = "pyval list"

text \<open>
  What the MySQL server answers to the four queries of \<open>MySQLClient\<close>, for a table
  name: the count of \<open>SELECT COUNT(*)\<close>, the comment of the table (\<open>None\<close> when the query
  returns no row), the columns as name, type and comment in their declared order, and the
  rows of \<open>SELECT *\<close>. \<open>Inl\<close> is the exception the driver raises instead.
\<close>

record mysql_server =
  count_rows :: "pystr \<Rightarrow> pyexn + int"
  comment_row :: "pystr \<Rightarrow> pyexn + pystr option"
  column_rows :: "pystr \<Rightarrow> pyexn + (pystr \<times> pystr \<times> pystr) list"
  select_rows :: "pystr \<Rightarrow> pyexn + row list"

definition msg_structure_failed :: pystr where
  "msg_structure_failed = [33719, 21462, 34920, 32467, 26500, 22833, 36133, 58, 32]"

definition msg_read_failed :: pystr where
  "msg_read_failed = [35835, 21462, 34920, 25968, 25454, 22833, 36133, 58, 32]"

definition get_table_comment :: "mysql_server \<Rightarrow> pystr \<Rightarrow> pystr" where
  "get_table_comment M table_name =
     (case comment_row M table_name of
        Inl e \<Rightarrow> []
      | Inr None \<Rightarrow> []
      | Inr (Some c) \<Rightarrow> c)"

definition mysql_get_table_structure ::
  "mysql_server \<Rightarrow> pystr \<Rightarrow> pyexn + (pystr \<times> pystr \<times> pystr) list" where
  "mysql_get_table_structure M table_name =
     (case column_rows M table_name of
        Inl e \<Rightarrow> Inl (PyExn Exception (msg_structure_failed @ exn_msg e))
      | Inr cols \<Rightarrow> Inr cols)"

text \<open>\<open>MySQLClient.get_table_row_count\<close>: the handler prints the exception and returns 0.\<close>

definition mysql_get_table_row_count :: "mysql_server \<Rightarrow> pystr \<Rightarrow> pyexn + int" where
  "mysql_get_table_row_count M table_name =
     (case count_rows M table_name of
        Inl e \<Rightarrow> Inr 0
      | Inr n \<Rightarrow> Inr n)"

text \<open>
  The loop of \<open>get_table_data\<close> over the buffered cursor of the driver:
  \<open>fetchmany(size)\<close> hands out the next \<open>size\<close> rows (one row when \<open>size\<close> is 0), and the
  loop ends at the first empty batch.
\<close>

definition fetch_size :: "nat \<Rightarrow> nat" where
  "fetch_size n = (if n = 0 then 1 else n)"

function fetch_batches :: "nat \<Rightarrow> row list \<Rightarrow> row list list" where
  "fetch_batches n rows =
     (if take (fetch_size n) rows = [] then []
      else take (fetch_size n) rows # fetch_batches n (drop (fetch_size n) rows))"
  by pat_completeness auto
termination
  by (relation "measure (\<lambda>(n, rows). length rows)") (auto simp: fetch_size_def)

declare fetch_batches.simps [simp del]

text \<open>
  \<open>get_table_data\<close>: the batches the generator yields, and the exception it raises in
  the end, if any. Both queries run before the first batch.
\<close>

definition get_table_data :: "mysql_server \<Rightarrow> pystr \<Rightarrow> nat \<Rightarrow> row list list \<times> pyexn option" where
  "get_table_data M table_name n =
     (case count_rows M table_name of
        Inl e \<Rightarrow> ([], Some (PyExn Exception (msg_read_failed @ exn_msg e)))
      | Inr total_rows \<Rightarrow>
          (case select_rows M table_name of
             Inl e \<Rightarrow> ([], Some (PyExn Exception (msg_read_failed @ exn_msg e)))
           | Inr rows \<Rightarrow> (fetch_batches n rows, None)))"

section \<open>The mapping files: CSVMappingLoader\<close>

record TableMapping =
  mysql_table :: pystr
  clickhouse_table :: pystr
  field_mappings :: "(pystr \<times> pystr \<times> pystr) list"

text \<open>
  The file system: the names \<open>os.listdir\<close> returns, and the rows \<open>csv.DictReader\<close>
  yields for a file, each a dictionary from the header names to the cells (\<open>None\<close> for a
  cell the line lacks).
\<close>

record filesystem =
  listdir :: "pystr \<Rightarrow> pyexn + pystr list"
  read_csv :: "pystr \<Rightarrow> pyexn + (pystr \<rightharpoonup> pystr option) list"

definition msg_load_failed :: pystr where
  "msg_load_failed = [21152, 36733, 67, 83, 86, 26144, 23556, 25991, 20214, 22833, 36133, 32]"

definition msg_bad_filename :: pystr where
  "msg_bad_filename = [67, 83, 86, 25991, 20214, 21517, 26684, 24335, 19981, 27491, 30830, 58, 32]"

text \<open>\<open>os.path.basename\<close> and \<open>os.path.join\<close> of two parts, on POSIX paths.\<close>

definition basename :: "pystr \<Rightarrow> pystr" where
  "basename p = rev (takeWhile (\<lambda>c. c \<noteq> 47) (rev p))"

definition path_join :: "pystr \<Rightarrow> pystr \<Rightarrow> pystr" where
  "path_join a b =
     (if startswith b [47] then b
      else if a = [] \<or> last a = 47 then a @ b
      else a @ [47] @ b)"

text \<open>\<open>s.replace(p, '')\<close> for a pattern that is not empty, and \<open>s.endswith(p)\<close>.\<close>

function py_remove :: "pystr \<Rightarrow> pystr \<Rightarrow> pystr" where
  "py_remove [] p = []"
| "py_remove (c # cs) p =
     (if p \<noteq> [] \<and> startswith (c # cs) p then py_remove (drop (length p) (c # cs)) p
      else c # py_remove cs p)"
  by pat_completeness auto
termination
  by (relation "measure (\<lambda>(s, p). length s)") auto

definition endswith :: "pystr \<Rightarrow> pystr \<Rightarrow> bool" where
  "endswith s p = (length p \<le> length s \<and> drop (length s - length p) s = p)"

text \<open>\<open>xs[i]\<close> on a list or tuple, \<open>d[k] = v\<close> and \<open>k in d\<close> on a dictionary that keeps its order.\<close>

definition index_error :: "string \<Rightarrow> pyexn" where
  "index_error kind = PyExn IndexError (asc kind @ asc '' index out of range'')"

definition py_index :: "string \<Rightarrow> 'a list \<Rightarrow> nat \<Rightarrow> pyexn + 'a" where
  "py_index kind xs i = (if i < length xs then Inr (xs ! i) else Inl (index_error kind))"

fun dict_set :: "('k \<times> 'v) list \<Rightarrow> 'k \<Rightarrow> 'v \<Rightarrow> ('k \<times> 'v) list" where
  "dict_set [] k v = [(k, v)]"
| "dict_set ((k', v') # d) k v = (if k' = k then (k, v) # d else (k', v') # dict_set d k v)"

definition dict_has :: "('k \<times> 'v) list \<Rightarrow> 'k \<Rightarrow> bool" where
  "dict_has d k = (map_of d k \<noteq> None)"

text \<open>\<open>row[name].strip()\<close>: \<open>KeyError\<close> without the column, \<open>AttributeError\<close> on \<open>None\<close>.\<close>

definition csv_cell :: "(pystr \<rightharpoonup> pystr option) \<Rightarrow> pystr \<Rightarrow> pyexn + pystr" where
  "csv_cell r name =
     (case r name of
        None \<Rightarrow> Inl (PyExn KeyError ([39] @ name @ [39]))
      | Some None \<Rightarrow>
          Inl (PyExn AttributeError
                 ([39] @ asc ''NoneType'' @ [39] @ asc '' object has no attribute ''
                   @ [39] @ asc ''strip'' @ [39]))
      | Some (Some cell) \<Rightarrow> Inr (strip cell))"

text \<open>The loop over the rows of the file, building \<open>field_mappings\<close>.\<close>

fun read_mappings ::
  "(pystr \<rightharpoonup> pystr option) list \<Rightarrow> (pystr \<times> pystr \<times> pystr) list
    \<Rightarrow> pyexn + (pystr \<times> pystr \<times> pystr) list" where
  "read_mappings [] fm = Inr fm"
| "read_mappings (r # rs) fm =
     (case csv_cell r (asc ''mysql'') of
        Inl e \<Rightarrow> Inl e
      | Inr mysql_field \<Rightarrow>
          (case csv_cell r (asc ''clickhouse'') of
             Inl e \<Rightarrow> Inl e
           | Inr clickhouse_field \<Rightarrow>
               read_mappings rs (dict_set fm mysql_field (clickhouse_field, asc ''String''))))"

text \<open>The body of the \<open>try\<close> of \<open>load_csv_mapping\<close>.\<close>

definition load_body :: "filesystem \<Rightarrow> pystr \<Rightarrow> pyexn + TableMapping" where
  "load_body FS csv_file =
     (let filename = basename csv_file
      in if 45 \<in> set filename then
           (let parts = py_split (py_remove filename (asc ''.csv'')) 45
            in case py_index ''list'' parts 0 of
                 Inl e \<Rightarrow> Inl e
               | Inr mysql_tab \<Rightarrow>
                   (case py_index ''list'' parts 1 of
                      Inl e \<Rightarrow> Inl e
                    | Inr clickhouse_tab \<Rightarrow>
                        (case read_csv FS csv_file of
                           Inl e \<Rightarrow> Inl e
                         | Inr rows \<Rightarrow>
                             (case read_mappings rows [] of
                                Inl e \<Rightarrow> Inl e
                              | Inr fm \<Rightarrow>
                                  Inr \<lparr>mysql_table = mysql_tab,
                                       clickhouse_table = clickhouse_tab,
                                       field_mappings = fm\<rparr>))))
         else Inl (PyExn ValueError (msg_bad_filename @ filename)))"

definition load_csv_mapping :: "filesystem \<Rightarrow> pystr \<Rightarrow> pyexn + TableMapping" where
  "load_csv_mapping FS csv_file =
     (case load_body FS csv_file of
        Inl e \<Rightarrow>
          Inl (PyExn Exception (msg_load_failed @ csv_file @ [58, 32] @ exn_msg e))
      | Inr tm \<Rightarrow> Inr tm)"

section \<open>The target: ClickHouseClientV3\<close>

text \<open>
  The statements the client sends. A create statement keeps the parts the client
  renders into its text: the table, the column definitions, the column after
  \<open>ORDER BY\<close> and the comment of the table.
\<close>

record create_statement =
  cs_table :: pystr
  cs_field_definitions :: "pystr list"
  cs_order_by :: pystr
  cs_table_comment :: pystr

datatype ch_stmt =
  DropTable pystr
  | CreateTable create_statement
  | InsertRows pystr "pystr list" "row list"
  | CountRows pystr
  | ExistsTable pystr

text \<open>Lines of the console that report the single-row inserts: the row number and the error.\<close>

datatype diag = RowInserted nat | RowRejected nat pyexn row

text \<open>
  The ClickHouse server as the client sees it: the rows of each table, the statements
  sent so far, the console of the client, and the faults of the server, which may reject
  any statement, depending on all that was sent before. A statement that is not rejected
  has the plain meaning: creating a table that exists and reading or writing a table that
  does not are errors, an insert appends its rows.
\<close>

record clickhouse =
  ch_tables :: "pystr \<rightharpoonup> row list"
  ch_log :: "ch_stmt list"
  ch_console :: "diag list"
  ch_fault :: "ch_stmt list \<Rightarrow> ch_stmt \<Rightarrow> pyexn option"

definition server_error :: "string \<Rightarrow> pyexn" where
  "server_error m = PyExn Exception (asc m)"

definition run_stmt :: "(pystr \<rightharpoonup> row list) \<Rightarrow> ch_stmt \<Rightarrow> pyexn + int \<times> (pystr \<rightharpoonup> row list)" where
  "run_stmt tabs stmt =
     (case stmt of
        DropTable t \<Rightarrow> Inr (0, tabs(t := None))
      | CreateTable cs \<Rightarrow>
          (case tabs (cs_table cs) of
             Some rows \<Rightarrow> Inl (server_error ''Table already exists'')
           | None \<Rightarrow> Inr (0, tabs(cs_table cs \<mapsto> [])))
      | InsertRows t flds rows \<Rightarrow>
          (case tabs t of
             None \<Rightarrow> Inl (server_error ''Table does not exist'')
           | Some old \<Rightarrow> Inr (0, tabs(t \<mapsto> old @ rows)))
      | CountRows t \<Rightarrow>
          (case tabs t of
             None \<Rightarrow> Inl (server_error ''Table does not exist'')
           | Some rows \<Rightarrow> Inr (int (length rows), tabs))
      | ExistsTable t \<Rightarrow> Inr (if tabs t = None then 0 else 1, tabs))"

text \<open>\<open>self.client.execute\<close>: the statement is logged, then rejected or run.\<close>

definition execute :: "clickhouse \<Rightarrow> ch_stmt \<Rightarrow> (pyexn + int) \<times> clickhouse" where
  "execute C stmt =
     (let C' = C\<lparr>ch_log := ch_log C @ [stmt]\<rparr>
      in case ch_fault C (ch_log C) stmt of
           Some e \<Rightarrow> (Inl e, C')
         | None \<Rightarrow>
             (case run_stmt (ch_tables C) stmt of
                Inl e \<Rightarrow> (Inl e, C')
              | Inr (n, tabs) \<Rightarrow> (Inr n, C'\<lparr>ch_tables := tabs\<rparr>)))"

definition msg_no_fields :: pystr where
  "msg_no_fields = [34920, 24517, 39035, 33267, 23569, 21253, 21547, 19968, 20010, 23383, 27573]"

definition msg_create_failed :: pystr where
  "msg_create_failed = [21019, 24314, 34920, 22833, 36133, 58, 32]"

definition msg_insert_failed :: pystr where
  "msg_insert_failed = [25209, 37327, 25554, 20837, 25968, 25454, 22833, 36133, 58, 32]"

definition drop_table_if_exists :: "clickhouse \<Rightarrow> pystr \<Rightarrow> clickhouse" where
  "drop_table_if_exists C table_name = snd (execute C (DropTable table_name))"

definition table_exists :: "clickhouse \<Rightarrow> pystr \<Rightarrow> bool \<times> clickhouse" where
  "table_exists C table_name =
     (case execute C (ExistsTable table_name) of
        (Inl e, C') \<Rightarrow> (False, C')
      | (Inr n, C') \<Rightarrow> (n = 1, C'))"

definition ch_get_table_row_count :: "clickhouse \<Rightarrow> pystr \<Rightarrow> int \<times> clickhouse" where
  "ch_get_table_row_count C table_name =
     (case execute C (CountRows table_name) of
        (Inl e, C') \<Rightarrow> (0, C')
      | (Inr n, C') \<Rightarrow> (n, C'))"

text \<open>The loop of \<open>create_table\<close> over the fields: one step, on the definitions and the key.\<close>

definition field_definition :: "pystr \<times> pystr \<times> pystr \<Rightarrow> pystr" where
  "field_definition f =
     (case f of (field_name, field_type, comment) \<Rightarrow>
        if comment \<noteq> [] then
          [96] @ field_name @ [96, 32] @ field_type @ asc '' COMMENT '' @ [39] @ comment @ [39]
        else [96] @ field_name @ [96, 32] @ field_type)"

definition create_step ::
  "pystr \<times> pystr \<times> pystr \<Rightarrow> pystr list \<times> pystr option \<Rightarrow> pystr list \<times> pystr option" where
  "create_step f acc =
     (case acc of (field_definitions, primary_key_field) \<Rightarrow>
        (field_definitions @ [field_definition f],
         if primary_key_field = None then Some (fst f) else primary_key_field))"

definition create_table ::
  "clickhouse \<Rightarrow> pystr \<Rightarrow> (pystr \<times> pystr \<times> pystr) list \<Rightarrow> pystr \<Rightarrow> (pyexn + unit) \<times> clickhouse" where
  "create_table C table_name flds table_comment =
     (case fold create_step flds ([], None) of
        (field_definitions, None) \<Rightarrow>
          (Inl (PyExn Exception (msg_create_failed @ msg_no_fields)), C)
      | (field_definitions, Some primary_key_field) \<Rightarrow>
          (case execute C (CreateTable
                  \<lparr>cs_table = table_name, cs_field_definitions = field_definitions,
                   cs_order_by = primary_key_field, cs_table_comment = table_comment\<rparr>) of
             (Inl e, C') \<Rightarrow> (Inl (PyExn Exception (msg_create_failed @ exn_msg e)), C')
           | (Inr n, C') \<Rightarrow> (Inr (), C')))"

text \<open>
  \<open>insert_batch\<close>. One cell: the type of the column, \<open>String\<close> when \<open>field_types\<close> is
  \<open>None\<close>, empty or too short (the empty list stands for \<open>None\<close> too); \<open>None\<close> gets the
  default, any other value is converted, and an exception of the conversion gives the
  default.
\<close>

definition field_type_at :: "pystr list \<Rightarrow> nat \<Rightarrow> pystr" where
  "field_type_at field_types j =
     (if field_types \<noteq> [] \<and> j < length field_types then field_types ! j else asc ''String'')"

definition field_name_at :: "pystr list \<Rightarrow> nat \<Rightarrow> pystr" where
  "field_name_at field_names j =
     (if j < length field_names then field_names ! j else asc ''field_'' @ decimal_str j)"

definition process_cell :: "pylib \<Rightarrow> pystr list \<Rightarrow> pystr list \<Rightarrow> nat \<times> pyval \<Rightarrow> pyval" where
  "process_cell L field_names field_types jv =
     (case jv of (j, v) \<Rightarrow>
        if v = PyNone then get_default_value_for_type L (field_type_at field_types j)
        else
          (case convert_value_for_clickhouse L v (field_type_at field_types j)
                  (field_name_at field_names j) of
             Inl e \<Rightarrow> get_default_value_for_type L (field_type_at field_types j)
           | Inr w \<Rightarrow> w))"

definition process_rows :: "pylib \<Rightarrow> pystr list \<Rightarrow> pystr list \<Rightarrow> row list \<Rightarrow> row list" where
  "process_rows L field_names field_types data_batch =
     map (\<lambda>r. map (process_cell L field_names field_types) (enumerate 0 r)) data_batch"

text \<open>
  The loop that inserts rows one at a time after a rejected batch: it reports each row
  and stops at the first row the server rejects.
\<close>

fun retry_rows :: "clickhouse \<Rightarrow> pystr \<Rightarrow> pystr list \<Rightarrow> nat \<Rightarrow> row list \<Rightarrow> clickhouse" where
  "retry_rows C table_name flds i [] = C"
| "retry_rows C table_name flds i (r # rs) =
     (case execute C (InsertRows table_name flds [r]) of
        (Inr n, C') \<Rightarrow>
          retry_rows (C'\<lparr>ch_console := ch_console C' @ [RowInserted (i + 1)]\<rparr>)
            table_name flds (i + 1) rs
      | (Inl row_error, C') \<Rightarrow>
          C'\<lparr>ch_console := ch_console C' @ [RowRejected (i + 1) row_error r]\<rparr>)"

definition insert_batch ::
  "pylib \<Rightarrow> clickhouse \<Rightarrow> pystr \<Rightarrow> pystr list \<Rightarrow> row list \<Rightarrow> pystr list
    \<Rightarrow> (pyexn + unit) \<times> clickhouse" where
  "insert_batch L C table_name field_names data_batch field_types =
     (let processed_data = process_rows L field_names field_types data_batch
      in case execute C (InsertRows table_name field_names processed_data) of
           (Inr n, C') \<Rightarrow> (Inr (), C')
         | (Inl insert_error, C') \<Rightarrow>
             (let C'' = retry_rows C' table_name field_names 0 (take 5 processed_data);
                  inner = PyExn Exception (msg_insert_failed @ exn_msg insert_error)
              in (Inl (PyExn Exception (msg_insert_failed @ exn_msg inner)), C'')))"

section \<open>The orchestrator: DataMigrator\<close>

text \<open>The result of one table; the processing time, a wall-clock reading, is left out.\<close>

record MigrationResult =
  table_mapping :: "TableMapping option"
  success :: bool
  mysql_rows :: int
  clickhouse_rows :: int
  error_message :: pystr

text \<open>The migrator: the library, its two read-only collaborators and its settings.\<close>

record DataMigrator =
  lib :: pylib
  mysql_client :: mysql_server
  csv_loader :: filesystem
  batch_size :: nat
  auto_recreate :: bool
  skip_existing :: bool

definition msg_absent_or_empty :: pystr where
  "msg_absent_or_empty = [77, 121, 83, 81, 76, 34920, 19981, 23384, 22312, 25110, 20026, 31354]"

text \<open>
  The loop over the source columns that builds \<open>clickhouse_fields\<close> and
  \<open>final_field_mappings\<close>: one step.
\<close>

definition field_step ::
  "pylib \<Rightarrow> (pystr \<times> pystr \<times> pystr) list \<Rightarrow> pystr \<times> pystr \<times> pystr
    \<Rightarrow> (pystr \<times> pystr \<times> pystr) list \<times> (pystr \<times> pystr \<times> pystr) list
    \<Rightarrow> (pystr \<times> pystr \<times> pystr) list \<times> (pystr \<times> pystr \<times> pystr) list" where
  "field_step L fm col acc =
     (case (col, acc) of ((mysql_field, mysql_type, mysql_comment), (clickhouse_fields, final)) \<Rightarrow>
        (case map_of fm mysql_field of
           None \<Rightarrow> (clickhouse_fields, final)
         | Some (clickhouse_field, t) \<Rightarrow>
             (let clickhouse_type = map_mysql_type_to_clickhouse L mysql_type
              in (clickhouse_fields @ [(clickhouse_field, clickhouse_type, mysql_comment)],
                  dict_set final mysql_field (clickhouse_field, clickhouse_type)))))"

definition build_fields ::
  "pylib \<Rightarrow> (pystr \<times> pystr \<times> pystr) list \<Rightarrow> (pystr \<times> pystr \<times> pystr) list
    \<Rightarrow> (pystr \<times> pystr \<times> pystr) list \<times> (pystr \<times> pystr \<times> pystr) list" where
  "build_fields L fm mysql_structure = fold (field_step L fm) mysql_structure ([], [])"

text \<open>One row of a batch: the cells of the mapped columns, \<open>IndexError\<close> on a short row.\<close>

fun map_row ::
  "(pystr \<times> pystr \<times> pystr) list \<Rightarrow> (nat \<times> pystr \<times> pystr \<times> pystr) list \<Rightarrow> row \<Rightarrow> pyexn + row" where
  "map_row final [] r = Inr []"
| "map_row final ((i, mysql_field, mysql_type, c) # cols) r =
     (if dict_has final mysql_field then
        (case py_index ''tuple'' r i of
           Inl e \<Rightarrow> Inl e
         | Inr v \<Rightarrow> (case map_row final cols r of Inl e \<Rightarrow> Inl e | Inr vs \<Rightarrow> Inr (v # vs)))
      else map_row final cols r)"

fun map_rows ::
  "(pystr \<times> pystr \<times> pystr) list \<Rightarrow> (pystr \<times> pystr \<times> pystr) list \<Rightarrow> row list
    \<Rightarrow> pyexn + row list" where
  "map_rows final mysql_structure [] = Inr []"
| "map_rows final mysql_structure (r # rs) =
     (case map_row final (enumerate 0 mysql_structure) r of
        Inl e \<Rightarrow> Inl e
      | Inr mapped_row \<Rightarrow>
          (case map_rows final mysql_structure rs of
             Inl e \<Rightarrow> Inl e
           | Inr mapped \<Rightarrow> Inr (mapped_row # mapped)))"

definition mapped_names :: "(pystr \<times> pystr \<times> pystr) list \<Rightarrow> (pystr \<times> pystr \<times> pystr) list \<Rightarrow> pystr list" where
  "mapped_names final mysql_structure =
     concat (map (\<lambda>col. case map_of final (fst col) of None \<Rightarrow> [] | Some (n, t) \<Rightarrow> [n])
       mysql_structure)"

definition mapped_types :: "(pystr \<times> pystr \<times> pystr) list \<Rightarrow> (pystr \<times> pystr \<times> pystr) list \<Rightarrow> pystr list" where
  "mapped_types final mysql_structure =
     concat (map (\<lambda>col. case map_of final (fst col) of None \<Rightarrow> [] | Some (n, t) \<Rightarrow> [t])
       mysql_structure)"

text \<open>
  The loop over the batches: each is mapped and inserted before the next; the first
  exception leaves the loop. The count is \<open>total_migrated\<close>.
\<close>

fun migrate_batches ::
  "DataMigrator \<Rightarrow> clickhouse \<Rightarrow> TableMapping \<Rightarrow> (pystr \<times> pystr \<times> pystr) list
    \<Rightarrow> (pystr \<times> pystr \<times> pystr) list \<Rightarrow> nat \<Rightarrow> row list list \<Rightarrow> (pyexn + nat) \<times> clickhouse" where
  "migrate_batches D C tm mysql_structure final total_migrated [] = (Inr total_migrated, C)"
| "migrate_batches D C tm mysql_structure final total_migrated (batch_data # batches) =
     (case map_rows final mysql_structure batch_data of
        Inl e \<Rightarrow> (Inl e, C)
      | Inr mapped_data \<Rightarrow>
          (case insert_batch (lib D) C (clickhouse_table tm)
                  (mapped_names final mysql_structure) mapped_data
                  (mapped_types final mysql_structure) of
             (Inl e, C') \<Rightarrow> (Inl e, C')
           | (Inr u, C') \<Rightarrow>
               migrate_batches D C' tm mysql_structure final
                 (total_migrated + length mapped_data) batches))"

definition stream_table ::
  "DataMigrator \<Rightarrow> clickhouse \<Rightarrow> TableMapping \<Rightarrow> (pystr \<times> pystr \<times> pystr) list
    \<Rightarrow> (pystr \<times> pystr \<times> pystr) list \<Rightarrow> (pyexn + nat) \<times> clickhouse" where
  "stream_table D C tm mysql_structure final =
     (case get_table_data (mysql_client D) (mysql_table tm) (batch_size D) of
        (batches, err) \<Rightarrow>
          (case migrate_batches D C tm mysql_structure final 0 batches of
             (Inl e, C') \<Rightarrow> (Inl e, C')
           | (Inr migrated, C') \<Rightarrow>
               (case err of Some e \<Rightarrow> (Inl e, C') | None \<Rightarrow> (Inr migrated, C'))))"

text \<open>
  \<open>migrate_table\<close> in three parts: from the structure of the source table to the
  verification, the part before it from the row count on, and the \<open>try\<close> with its handler.
\<close>

definition migrate_prepared ::
  "DataMigrator \<Rightarrow> clickhouse \<Rightarrow> TableMapping \<Rightarrow> int \<Rightarrow> (pyexn + MigrationResult) \<times> clickhouse" where
  "migrate_prepared D C tm mysql_row_count =
     (case mysql_get_table_structure (mysql_client D) (mysql_table tm) of
        Inl e \<Rightarrow> (Inl e, C)
      | Inr mysql_structure \<Rightarrow>
          (let table_comment = get_table_comment (mysql_client D) (mysql_table tm)
           in case build_fields (lib D) (field_mappings tm) mysql_structure of
                (clickhouse_fields, final) \<Rightarrow>
                  (case create_table C (clickhouse_table tm) clickhouse_fields table_comment of
                     (Inl e, C1) \<Rightarrow> (Inl e, C1)
                   | (Inr u, C1) \<Rightarrow>
                       (case stream_table D C1 tm mysql_structure final of
                          (Inl e, C2) \<Rightarrow> (Inl e, C2)
                        | (Inr migrated, C2) \<Rightarrow>
                            (case ch_get_table_row_count C2 (clickhouse_table tm) of
                               (clickhouse_row_count, C3) \<Rightarrow>
                                 (Inr \<lparr>table_mapping = Some tm, success = True,
                                       mysql_rows = mysql_row_count,
                                       clickhouse_rows = clickhouse_row_count,
                                       error_message = []\<rparr>, C3))))))"

definition migrate_loaded ::
  "DataMigrator \<Rightarrow> clickhouse \<Rightarrow> TableMapping \<Rightarrow> (pyexn + MigrationResult) \<times> clickhouse" where
  "migrate_loaded D C tm =
     (case mysql_get_table_row_count (mysql_client D) (mysql_table tm) of
        Inl e \<Rightarrow> (Inl e, C)
      | Inr mysql_row_count \<Rightarrow>
          if mysql_row_count = 0 then
            (Inr \<lparr>table_mapping = Some tm, success = False, mysql_rows = 0,
                  clickhouse_rows = 0, error_message = msg_absent_or_empty\<rparr>, C)
          else
            (case table_exists C (clickhouse_table tm) of
               (present, C1) \<Rightarrow>
                 if present \<and> skip_existing D then
                   (case ch_get_table_row_count C1 (clickhouse_table tm) of
                      (n, C2) \<Rightarrow>
                        (Inr \<lparr>table_mapping = Some tm, success = True,
                              mysql_rows = mysql_row_count, clickhouse_rows = n,
                              error_message = []\<rparr>, C2))
                 else if present \<and> auto_recreate D then
                   migrate_prepared D (drop_table_if_exists C1 (clickhouse_table tm)) tm
                     mysql_row_count
                 else migrate_prepared D C1 tm mysql_row_count))"

definition failed_result :: "TableMapping option \<Rightarrow> pyexn \<Rightarrow> MigrationResult" where
  "failed_result tm e =
     \<lparr>table_mapping = tm, success = False, mysql_rows = 0, clickhouse_rows = 0,
      error_message = exn_msg e\<rparr>"

definition migrate_table :: "DataMigrator \<Rightarrow> clickhouse \<Rightarrow> pystr \<Rightarrow> MigrationResult \<times> clickhouse" where
  "migrate_table D C csv_file =
     (case load_csv_mapping (csv_loader D) csv_file of
        Inl e \<Rightarrow> (failed_result None e, C)
      | Inr tm \<Rightarrow>
          (case migrate_loaded D C tm of
             (Inl e, C') \<Rightarrow> (failed_result (Some tm) e, C')
           | (Inr r, C') \<Rightarrow> (r, C')))"

text \<open>The loop of \<open>migrate_all_tables\<close> over the mapping files, and the method.\<close>

fun migrate_files ::
  "DataMigrator \<Rightarrow> clickhouse \<Rightarrow> pystr \<Rightarrow> pystr list \<Rightarrow> MigrationResult list \<times> clickhouse" where
  "migrate_files D C csv_directory [] = ([], C)"
| "migrate_files D C csv_directory (csv_file # fs) =
     (case migrate_table D C (path_join csv_directory csv_file) of
        (r, C') \<Rightarrow>
          (case migrate_files D C' csv_directory fs of (rs, C'') \<Rightarrow> (r # rs, C'')))"

definition migrate_all_tables ::
  "DataMigrator \<Rightarrow> clickhouse \<Rightarrow> pystr \<Rightarrow> (pyexn + MigrationResult list) \<times> clickhouse" where
  "migrate_all_tables D C csv_directory =
     (case listdir (csv_loader D) csv_directory of
        Inl e \<Rightarrow> (Inl e, C)
      | Inr names \<Rightarrow>
          (let csv_files = filter (\<lambda>f. endswith f (asc ''.csv'')) names
           in if csv_files = [] then (Inr [], C)
              else (case migrate_files D C csv_directory csv_files of
                      (results, C') \<Rightarrow> (Inr results, C'))))"

text \<open>
  The target as \<open>migrate_table\<close> has prepared it when it does not skip the table: after
  the existence check, and after the drop of a table that exists when
  \<open>auto_recreate\<close> is set.
\<close>

definition prepared_state :: "DataMigrator \<Rightarrow> clickhouse \<Rightarrow> TableMapping \<Rightarrow> clickhouse" where
  "prepared_state D C tm =
     (case table_exists C (clickhouse_table tm) of
        (present, C1) \<Rightarrow>
          if present \<and> auto_recreate D then drop_table_if_exists C1 (clickhouse_table tm)
          else C1)"

text \<open>
  The target during the single-row inserts of \<open>insert_batch\<close>: after the server has
  rejected the bulk insert of the rows \<open>P\<close> into the table \<open>t\<close> and accepted the
  single-row inserts of the first \<open>k\<close> of them, each reported on the console. And the
  target the loop leaves behind after \<open>a\<close> accepted rows: as it is when no row was
  rejected, and with the rejected statement and its report when the server rejected the
  row after them.
\<close>

definition after_retries :: "clickhouse \<Rightarrow> pystr \<Rightarrow> pystr list \<Rightarrow> row list \<Rightarrow> nat \<Rightarrow> clickhouse" where
  "after_retries C t names P k =
     C\<lparr>ch_tables :=
         (case ch_tables C t of
            None \<Rightarrow> ch_tables C
          | Some old \<Rightarrow> (ch_tables C)(t \<mapsto> old @ take k P)),
       ch_log := ch_log C @ InsertRows t names P # map (\<lambda>r. InsertRows t names [r]) (take k P),
       ch_console := ch_console C @ map (\<lambda>j. RowInserted (1 + j)) [0..<k]\<rparr>"

definition retry_outcome ::
  "clickhouse \<Rightarrow> pystr \<Rightarrow> pystr list \<Rightarrow> row list \<Rightarrow> nat \<Rightarrow> pyexn option \<Rightarrow> clickhouse" where
  "retry_outcome C t names P a rejection =
     (case rejection of
        None \<Rightarrow> after_retries C t names P a
      | Some row_error \<Rightarrow>
          (after_retries C t names P a)
            \<lparr>ch_log := ch_log (after_retries C t names P a) @ [InsertRows t names [P ! a]],
             ch_console := ch_console (after_retries C t names P a)
               @ [RowRejected (a + 1) row_error (P ! a)]\<rparr>)"

section \<open>A scenario to run the model\<close>

text \<open>
  The table \<open>users\<close> with the columns \<open>id INT\<close>, \<open>name VARCHAR\<close> and \<open>created TIMESTAMP\<close>
  and three rows, one with no name; the mapping file \<open>maps/users-users.csv\<close> that maps the
  three fields unchanged; a ClickHouse server with no table and no fault.
\<close>

definition demo_rows :: "row list" where
  "demo_rows =
     [[PyInt 1, PyStr (asc ''ann''), PyDateTime (DateTime 2024 1 2 3 4 5 0)],
      [PyInt 2, PyNone, PyDateTime (DateTime 2024 1 3 0 0 0 0)],
      [PyInt 3, PyStr (asc ''bob''), PyDateTime (DateTime 2024 1 4 0 0 0 0)]]"

definition demo_cols :: "(pystr \<times> pystr \<times> pystr) list" where
  "demo_cols =
     [(asc ''id'', asc ''int'', []), (asc ''name'', asc ''varchar'', asc ''user name''),
      (asc ''created'', asc ''timestamp'', [])]"

definition demo_mysql :: mysql_server where
  "demo_mysql =
     \<lparr>count_rows = (\<lambda>t. if t = asc ''users'' then Inr 3 else Inl (server_error ''no such table'')),
      comment_row = (\<lambda>t. if t = asc ''users'' then Inr (Some (asc ''accounts'')) else Inr None),
      column_rows = (\<lambda>t. if t = asc ''users'' then Inr demo_cols else Inr []),
      select_rows = (\<lambda>t. if t = asc ''users'' then Inr demo_rows
         else Inl (server_error ''no such table''))\<rparr>"

definition demo_csv :: "(pystr \<rightharpoonup> pystr option) list" where
  "demo_csv =
     [[asc ''mysql'' \<mapsto> Some (asc ''id''), asc ''clickhouse'' \<mapsto> Some (asc ''id'')],
      [asc ''mysql'' \<mapsto> Some (asc ''name''), asc ''clickhouse'' \<mapsto> Some (asc '' name'')],
      [asc ''mysql'' \<mapsto> Some (asc ''created''), asc ''clickhouse'' \<mapsto> Some (asc ''created'')]]"

definition demo_files :: filesystem where
  "demo_files =
     \<lparr>listdir = (\<lambda>d. if d = asc ''maps'' then Inr [asc ''users-users.csv'', asc ''notes.txt'']
         else Inl (PyExn OSError (asc ''No such file or directory''))),
      read_csv = (\<lambda>f. if f = asc ''maps/users-users.csv'' then Inr demo_csv
         else Inl (PyExn OSError (asc ''No such file or directory'')))\<rparr>"

definition demo_migrator :: DataMigrator where
  "demo_migrator =
     \<lparr>lib = ascii_lib, mysql_client = demo_mysql, csv_loader = demo_files, batch_size = 2,
      auto_recreate = True, skip_existing = False\<rparr>"

definition empty_clickhouse :: clickhouse where
  "empty_clickhouse =
     \<lparr>ch_tables = Map.empty, ch_log = [], ch_console = [], ch_fault = (\<lambda>sent stmt. None)\<rparr>"

definition demo_mapping :: TableMapping where
  "demo_mapping =
     \<lparr>mysql_table = asc ''users'', clickhouse_table = asc ''users'',
      field_mappings =
        [(asc ''id'', asc ''id'', asc ''String''), (asc ''name'', asc ''name'', asc ''String''),
         (asc ''created'', asc ''created'', asc ''String'')]\<rparr>"

text \<open>
  The fields, the final mapping, the names and the types of the target table \<open>users\<close>,
  and the rows of the source as the converter hands them to the target.
\<close>

definition demo_fields :: "(pystr \<times> pystr \<times> pystr) list" where
  "demo_fields =
     [(asc ''id'', asc ''Int32'', []), (asc ''name'', asc ''String'', asc ''user name''),
      (asc ''created'', asc ''DateTime64(6)'', [])]"

definition demo_final :: "(pystr \<times> pystr \<times> pystr) list" where
  "demo_final =
     [(asc ''id'', asc ''id'', asc ''Int32''), (asc ''name'', asc ''name'', asc ''String''),
      (asc ''created'', asc ''created'', asc ''DateTime64(6)'')]"

definition demo_names :: "pystr list" where
  "demo_names = [asc ''id'', asc ''name'', asc ''created'']"

definition demo_types :: "pystr list" where
  "demo_types = [asc ''Int32'', asc ''String'', asc ''DateTime64(6)'']"

definition demo_processed :: "row list" where
  "demo_processed =
     [[PyInt 1, PyStr (asc ''ann''), PyDateTime (DateTime 2024 1 2 3 4 5 0)],
      [PyInt 2, PyStr [], PyDateTime (DateTime 2024 1 3 0 0 0 0)],
      [PyInt 3, PyStr (asc ''bob''), PyDateTime (DateTime 2024 1 4 0 0 0 0)]]"

definition demo_create :: ch_stmt where
  "demo_create =
     CreateTable
       \<lparr>cs_table = asc ''users'', cs_field_definitions = map field_definition demo_fields,
        cs_order_by = asc ''id'', cs_table_comment = asc ''accounts''\<rparr>"

text \<open>
  A server that rejects every insert holding the row \<open>bad\<close>, and one that rejects every
  create statement.
\<close>

definition rejects_create :: "ch_stmt list \<Rightarrow> ch_stmt \<Rightarrow> pyexn option" where
  "rejects_create sent stmt =
     (case stmt of
        CreateTable cs \<Rightarrow> Some (server_error ''Unknown data type'')
      | _ \<Rightarrow> None)"


definition rejects_row :: "row \<Rightarrow> ch_stmt list \<Rightarrow> ch_stmt \<Rightarrow> pyexn option" where
  "rejects_row bad sent stmt =
     (case stmt of
        InsertRows t flds rows \<Rightarrow>
          if bad \<in> set rows then Some (server_error ''Cannot parse input'') else None
      | _ \<Rightarrow> None)"

section \<open>Verification of the type mapper\<close>

lemma py_split_nonempty: "py_split s sep \<noteq> []"
  by (induction s) (auto split: list.splits)

lemma py_split_hd: "py_split s sep ! 0 = takeWhile (\<lambda>c. c \<noteq> sep) s"
  using py_split_nonempty by (induction s) (auto split: list.splits)

lemma decimal_str_digits: "\<forall>c \<in> set (decimal_str n). 48 \<le> c \<and> c \<le> 57"
proof (induction n rule: decimal_str.induct)
  case (1 n)
  show ?case
  proof (cases "n < 10")
    case True then show ?thesis by (simp add: decimal_str.simps [of n])
  next
    case False
    have "n mod 10 < 10" by simp
    then have "48 + n mod 10 \<le> 57" by linarith
    with False 1 show ?thesis by (simp add: decimal_str.simps [of n])
  qed
qed

lemma decimal_str_nonempty: "decimal_str n \<noteq> []"
  by (subst decimal_str.simps) simp

lemma decimal_str_one: "decimal_str n = [49] \<longleftrightarrow> n = 1"
proof (cases "n < 10")
  case True then show ?thesis by (subst decimal_str.simps) auto
next
  case False
  then show ?thesis using decimal_str_nonempty [of "n div 10"]
    by (subst decimal_str.simps) auto
qed

lemma asc_tinyint_paren: "asc ''TINYINT('' = [84, 73, 78, 89, 73, 78, 84, 40]"
  by (simp add: asc_def)

lemma startswith_append: "startswith (p @ r) (p @ q) = startswith r q"
  by (simp add: startswith_def)

lemma digits_prefix_one:
  assumes "\<forall>c \<in> set d. 48 \<le> c \<and> c \<le> (57::nat)" "d \<noteq> []"
  shows "startswith (d @ [41]) [49, 41] \<longleftrightarrow> d = [49]"
proof (cases d)
  case Nil with assms show ?thesis by simp
next
  case (Cons x xs)
  show ?thesis
  proof (cases xs)
    case Nil with Cons show ?thesis by (simp add: startswith_def)
  next
    case (Cons y ys)
    with \<open>d = x # xs\<close> assms have "y \<noteq> 41" by auto
    with Cons \<open>d = x # xs\<close> show ?thesis by (simp add: startswith_def)
  qed
qed

lemma tinyint_base:
  "strip (py_split (asc ''TINYINT('' @ r) 40 ! 0) = asc ''TINYINT''"
  by (simp add: py_split_hd asc_def strip_def isspace_def)

lemma tinyint_lookup: "dict_get TYPE_MAPPING (asc ''TINYINT'') dflt = asc ''Int8''"
  by (simp add: dict_get_def TYPE_MAPPING_def asc_def)

text \<open>
  Claim C1. A type string that reads \<open>TINYINT(n)\<close> once upper-cased, with \<open>n\<close> a decimal
  numeral, is mapped to \<open>Bool\<close> when \<open>n = 1\<close> and to \<open>Int8\<close> for every other \<open>n\<close>.
\<close>

theorem tinyint_mapping:
  assumes "str_upper L s = asc ''TINYINT('' @ decimal_str n @ asc '')''"
  shows "map_mysql_type_to_clickhouse L s = (if n = 1 then asc ''Bool'' else asc ''Int8'')"
proof -
  let ?d = "decimal_str n"
  have sw: "startswith (str_upper L s) (asc ''TINYINT(1)'') \<longleftrightarrow> n = 1"
  proof -
    have "asc ''TINYINT(1)'' = asc ''TINYINT('' @ [49, 41]" and "asc '')'' = [41]"
      by (simp_all add: asc_def)
    then have "startswith (str_upper L s) (asc ''TINYINT(1)'') \<longleftrightarrow> startswith (?d @ [41]) [49, 41]"
      by (simp only: assms startswith_append)
    also have "\<dots> \<longleftrightarrow> ?d = [49]"
      using digits_prefix_one [of ?d] decimal_str_digits [of n] decimal_str_nonempty [of n]
      by blast
    finally show ?thesis by (simp add: decimal_str_one)
  qed
  have base: "strip (py_split (str_upper L s) 40 ! 0) = asc ''TINYINT''"
    by (simp only: assms tinyint_base append_assoc)
  have nd: "asc ''TINYINT'' \<noteq> asc ''DECIMAL''" by (simp add: asc_def)
  show ?thesis
    unfolding map_mysql_type_to_clickhouse_def Let_def base
    using sw nd by (simp add: tinyint_lookup)
qed

theorem tinyint_mapping_witness:
  "str_upper ascii_lib (asc ''tinyint(1)'') = asc ''TINYINT('' @ decimal_str 1 @ asc '')''
   \<and> map_mysql_type_to_clickhouse ascii_lib (asc ''tinyint(1)'') = asc ''Bool''
   \<and> map_mysql_type_to_clickhouse ascii_lib (asc ''TINYINT(2)'') = asc ''Int8''
   \<and> map_mysql_type_to_clickhouse ascii_lib (asc ''TinyInt(10)'') = asc ''Int8''"
proof -
  have h1: "str_upper ascii_lib (asc ''tinyint(1)'') = asc ''TINYINT('' @ decimal_str 1 @ asc '')''"
    and h2: "str_upper ascii_lib (asc ''TINYINT(2)'') = asc ''TINYINT('' @ decimal_str 2 @ asc '')''"
    and h3: "str_upper ascii_lib (asc ''TinyInt(10)'') = asc ''TINYINT('' @ decimal_str 10 @ asc '')''"
    by (simp_all add: ascii_lib_def ascii_upper_def asc_def decimal_str.simps)
  from tinyint_mapping [OF h1] tinyint_mapping [OF h2] tinyint_mapping [OF h3] h1
  show ?thesis by simp
qed

section \<open>Verification of the value conversion\<close>

lemma convert_total: "\<exists>w. convert_value_for_clickhouse L v t n = Inr w"
  by (simp add: convert_value_for_clickhouse_def split: sum.splits)

lemma parse_formats_none:
  "no_format_parses L s fmts \<Longrightarrow> parse_formats L s fmts \<noteq> Inr (Some d)"
  by (induction fmts) (auto simp: no_format_parses_def split: sum.splits)

lemma set_fold_remove_char: "set (fold remove_char cs s) = set s - set cs"
  by (induction cs arbitrary: s) (auto simp: remove_char_def)

lemma clean_unencodable:
  assumes "\<not> utf8_encodable s"
  shows "clean_string_value s = []"
proof -
  from assms obtain c where c: "c \<in> set s" "55296 \<le> c" "c \<le> 57343"
    by (auto simp: utf8_encodable_def list_all_iff)
  then have "c \<in> set (filter keep_char s)" by (simp add: keep_char_def)
  moreover from c have "c \<notin> set replaced_chars" by (auto simp: replaced_chars_def)
  ultimately have "c \<in> set (fold remove_char replaced_chars (filter keep_char s))"
    by (simp add: set_fold_remove_char)
  with c have "\<not> utf8_encodable (fold remove_char replaced_chars (filter keep_char s))"
    by (auto simp: utf8_encodable_def list_all_iff)
  then show ?thesis by (simp add: clean_string_value_def Let_def)
qed

lemma date32_names:
  "\<not> contains (asc ''date32'') (asc ''datetime'')" "\<not> contains (asc ''date32'') (asc ''timestamp'')"
  "\<not> any_in [asc ''int'', asc ''uint''] (asc ''date32'')"
  "\<not> any_in [asc ''float'', asc ''double''] (asc ''date32'')"
  "\<not> contains (asc ''date32'') (asc ''decimal'')"
  by (simp_all add: asc_def startswith_def any_in_def)

lemma bool_names:
  "\<not> contains (asc ''bool'') (asc ''datetime'')" "\<not> contains (asc ''bool'') (asc ''timestamp'')"
  "\<not> any_in [asc ''int'', asc ''uint''] (asc ''bool'')"
  "\<not> any_in [asc ''float'', asc ''double''] (asc ''bool'')"
  "\<not> any_in [asc ''float'', asc ''double'', asc ''decimal''] (asc ''bool'')"
  "\<not> contains (asc ''bool'') (asc ''decimal'')"
  "asc ''bool'' \<noteq> asc ''date32''"
  by (simp_all add: asc_def startswith_def any_in_def)

lemma any_in_simps:
  "any_in [a, b] l \<longleftrightarrow> contains l a \<or> contains l b"
  "any_in [a, b, c] l \<longleftrightarrow> contains l a \<or> contains l b \<or> contains l c"
  "any_in [a, b, c, d, e] l \<longleftrightarrow> contains l a \<or> contains l b \<or> contains l c \<or> contains l d \<or> contains l e"
  by (simp_all add: any_in_def)

lemma null_default_plain:
  assumes "plain_type L t"
  shows "get_default_value_for_type L t = documented_default (family_of L t)"
proof (cases "str_lower L t = asc ''date32''")
  case True
  then show ?thesis
    by (simp add: get_default_value_for_type_def family_of_def date32_names default_date_def)
next
  case nd: False
  show ?thesis
  proof (cases "str_lower L t = asc ''bool''")
    case True
    then show ?thesis
      by (simp add: get_default_value_for_type_def family_of_def bool_names)
  next
    case False
    with nd assms show ?thesis
      by (auto simp: get_default_value_for_type_def family_of_def plain_type_def Let_def
          any_in_simps default_datetime_def split: if_splits)
  qed
qed

lemma null_default_decimal:
  assumes "decimal_type L t"
  shows "get_default_value_for_type L t = PyInt 0"
  using assms
  by (auto simp: get_default_value_for_type_def family_of_def decimal_type_def Let_def
      any_in_simps split: if_splits)

lemma int_default:
  "any_in [asc ''int'', asc ''uint''] (str_lower L t) \<Longrightarrow> get_default_value_for_type L t = PyInt 0"
  by (simp add: get_default_value_for_type_def)

lemma unparseable_default:
  assumes U: "unparseable L (family_of L t) v"
  shows "convert_value_for_clickhouse L v t n = Inr (documented_default (family_of L t))"
proof -
  define l where "l = str_lower L t"
  from U have nn: "v \<noteq> PyNone" by (simp add: unparseable_def)
  consider (ts) "contains l (asc ''datetime'') \<or> contains l (asc ''timestamp'')"
    | (dt) "\<not> (contains l (asc ''datetime'') \<or> contains l (asc ''timestamp''))" "l = asc ''date32''"
    | (int) "\<not> (contains l (asc ''datetime'') \<or> contains l (asc ''timestamp''))" "l \<noteq> asc ''date32''"
        "any_in [asc ''int'', asc ''uint''] l"
    | (flt) "\<not> (contains l (asc ''datetime'') \<or> contains l (asc ''timestamp''))" "l \<noteq> asc ''date32''"
        "\<not> any_in [asc ''int'', asc ''uint''] l"
        "any_in [asc ''float'', asc ''double'', asc ''decimal''] l"
    | (bool) "\<not> (contains l (asc ''datetime'') \<or> contains l (asc ''timestamp''))" "l \<noteq> asc ''date32''"
        "\<not> any_in [asc ''int'', asc ''uint''] l"
        "\<not> any_in [asc ''float'', asc ''double'', asc ''decimal''] l" "l = asc ''bool''"
    | (str) "\<not> (contains l (asc ''datetime'') \<or> contains l (asc ''timestamp''))" "l \<noteq> asc ''date32''"
        "\<not> any_in [asc ''int'', asc ''uint''] l"
        "\<not> any_in [asc ''float'', asc ''double'', asc ''decimal''] l" "l \<noteq> asc ''bool''"
    by blast
  then show ?thesis
  proof cases
    case ts
    then have fam: "family_of L t = TimestampT" by (simp add: family_of_def l_def)
    from ts have body: "convert_body L v t =
           (if has_strftime v then Inr v
            else case v of
              PyStr s \<Rightarrow>
                (case parse_formats L s datetime_formats of
                   Inr (Some d) \<Rightarrow> Inr (PyDateTime d)
                 | Inr None \<Rightarrow> Inr default_datetime
                 | Inl e \<Rightarrow> Inr default_datetime)
            | _ \<Rightarrow> Inr default_datetime)"
      by (simp add: convert_body_def l_def)
    from U fam show ?thesis
      unfolding convert_value_for_clickhouse_def body
      by (cases v) (auto simp: unparseable_def default_datetime_def
          dest: parse_formats_none split: sum.splits option.splits)
  next
    case dt
    then have fam: "family_of L t = DateT" by (simp add: family_of_def l_def)
    from dt have body: "convert_body L v t =
           (if has_date v then Inr (call_date v)
            else case v of
              PyStr s \<Rightarrow>
                (case parse_formats L s date_formats of
                   Inr (Some d) \<Rightarrow> Inr (PyDate (date_of d))
                 | Inr None \<Rightarrow> Inr default_date
                 | Inl e \<Rightarrow> Inr default_date)
            | _ \<Rightarrow> Inr default_date)"
      by (simp add: convert_body_def l_def)
    from U fam show ?thesis
      unfolding convert_value_for_clickhouse_def body
      by (cases v) (auto simp: unparseable_def default_date_def
          dest: parse_formats_none split: sum.splits option.splits)
  next
    case int
    then have fam: "family_of L t = IntegerT" by (simp add: family_of_def l_def)
    from int have dflt: "get_default_value_for_type L t = PyInt 0"
      by (simp add: int_default l_def)
    from int have body: "convert_body L v t =
           (if is_int_or_float v then
              (case py_int v of Inl e \<Rightarrow> Inl e | Inr i \<Rightarrow> Inr (PyInt i))
            else case v of
              PyStr s \<Rightarrow>
                (if strip s \<noteq> [] then
                   (case float_of_str L s of
                      Inl e \<Rightarrow>
                        if exn_cls e = ValueError \<or> exn_cls e = TypeError then Inr (PyInt 0)
                        else Inl e
                    | Inr f \<Rightarrow>
                        (case int_of_float f of
                           Inl e \<Rightarrow>
                             if exn_cls e = ValueError \<or> exn_cls e = TypeError
                             then Inr (PyInt 0) else Inl e
                         | Inr i \<Rightarrow> Inr (PyInt i)))
                 else Inr (PyInt 0))
            | _ \<Rightarrow> Inr (PyInt 0))"
      by (simp add: convert_body_def l_def)
    from U fam show ?thesis
      unfolding convert_value_for_clickhouse_def body dflt
      by (cases v) (auto simp: unparseable_def split: sum.splits)
  next
    case flt
    then have fam: "family_of L t = FloatT" by (simp add: family_of_def l_def)
    from flt have body: "convert_body L v t =
           (if is_int_or_float v then
              (case py_float L v of Inl e \<Rightarrow> Inl e | Inr f \<Rightarrow> Inr (PyFloat f))
            else case v of
              PyStr s \<Rightarrow>
                (if strip s \<noteq> [] then
                   (case float_of_str L s of
                      Inl e \<Rightarrow>
                        if exn_cls e = ValueError \<or> exn_cls e = TypeError
                        then Inr (PyFloat (Finite 0)) else Inl e
                    | Inr f \<Rightarrow> Inr (PyFloat f))
                 else Inr (PyFloat (Finite 0)))
            | _ \<Rightarrow> Inr (PyFloat (Finite 0)))"
      by (simp add: convert_body_def l_def)
    from U fam show ?thesis
      unfolding convert_value_for_clickhouse_def body
      by (cases v) (auto simp: unparseable_def split: sum.splits)
  next
    case bool
    then have fam: "family_of L t = BooleanT" by (simp add: family_of_def l_def)
    from bool have body: "convert_body L v t =
           (case v of
              PyBool b \<Rightarrow> Inr (PyBool b)
            | PyStr s \<Rightarrow> Inr (PyBool (str_lower L s \<in> set true_words))
            | _ \<Rightarrow> if is_int_or_float v then Inr (PyBool (py_bool v)) else Inr (PyBool False))"
      by (simp add: convert_body_def l_def)
    from U fam show ?thesis
      unfolding convert_value_for_clickhouse_def body
      by (cases v) (auto simp: unparseable_def)
  next
    case str
    then have fam: "family_of L t = StringT" by (simp add: family_of_def l_def)
    from str have body: "convert_body L v t =
           (case v of
              PyStr s \<Rightarrow> Inr (PyStr (clean_string_value s))
            | _ \<Rightarrow> Inr (PyStr (str_of L v)))"
      by (simp add: convert_body_def l_def)
    from U fam show ?thesis
      unfolding convert_value_for_clickhouse_def body
      by (cases v) (auto simp: unparseable_def clean_unencodable)
  qed
qed

lemmas ev = unparseable_def family_of_def ascii_lib_def ascii_lower_def asc_def any_in_def startswith_def
  strip_def isspace_def ascii_float_of_str_def is_digit_def value_error_def


text \<open>
  Claim C2, as the code has it. The conversion never raises, for any type string and any
  value. An input that cannot be converted yields the documented default of the family
  of the type, decimal types included (0.0). \<open>None\<close> yields the documented default for
  the plain type names; for a decimal type \<open>None\<close> yields the integer 0, not 0.0.
\<close>

theorem coerce_defaults:
  "(\<exists>w. convert_value_for_clickhouse L v t n = Inr w)
   \<and> (unparseable L (family_of L t) v \<longrightarrow>
        convert_value_for_clickhouse L v t n = Inr (documented_default (family_of L t)))
   \<and> (v = PyNone \<and> plain_type L t \<longrightarrow>
        convert_value_for_clickhouse L v t n = Inr (documented_default (family_of L t)))
   \<and> (v = PyNone \<and> decimal_type L t \<longrightarrow>
        convert_value_for_clickhouse L v t n = Inr (PyInt 0))"
  using convert_total [of L v t n] unparseable_default [of L t v n]
    null_default_plain [of L t] null_default_decimal [of L t]
  by (simp add: convert_value_for_clickhouse_def)

theorem coerce_defaults_witness:
  "convert_value_for_clickhouse ascii_lib (PyStr (asc ''not-a-number'')) (asc ''Int32'') (asc ''qty'')
     = Inr (PyInt 0)
   \<and> convert_value_for_clickhouse ascii_lib (PyStr (asc ''not-a-number'')) (asc ''Float64'') (asc ''w'')
     = Inr (PyFloat (Finite 0))
   \<and> convert_value_for_clickhouse ascii_lib (PyStr (asc ''not-a-number'')) (asc ''Decimal(10,2)'') (asc ''w'')
     = Inr (PyFloat (Finite 0))
   \<and> convert_value_for_clickhouse ascii_lib (PyStr (asc ''soon'')) (asc ''DateTime64(6)'') (asc ''at'')
     = Inr (PyDateTime (DateTime 2000 1 1 0 0 0 0))
   \<and> convert_value_for_clickhouse ascii_lib PyNone (asc ''Date32'') (asc ''day'')
     = Inr (PyDate (Date 2000 1 1))
   \<and> convert_value_for_clickhouse ascii_lib PyNone (asc ''Bool'') (asc ''flag'')
     = Inr (PyBool False)
   \<and> convert_value_for_clickhouse ascii_lib PyNone (asc ''String'') (asc ''name'')
     = Inr (PyStr [])
   \<and> convert_value_for_clickhouse ascii_lib PyNone (asc ''Decimal(10,2)'') (asc ''amount'')
     = Inr (PyInt 0)"
proof -
  have u1: "unparseable ascii_lib (family_of ascii_lib (asc ''Int32'')) (PyStr (asc ''not-a-number''))"
    and f1: "family_of ascii_lib (asc ''Int32'') = IntegerT"
    and u2: "unparseable ascii_lib (family_of ascii_lib (asc ''Float64'')) (PyStr (asc ''not-a-number''))"
    and f2: "family_of ascii_lib (asc ''Float64'') = FloatT"
    and u3: "unparseable ascii_lib (family_of ascii_lib (asc ''Decimal(10,2)'')) (PyStr (asc ''not-a-number''))"
    and f3: "family_of ascii_lib (asc ''Decimal(10,2)'') = FloatT"
    and u4: "unparseable ascii_lib (family_of ascii_lib (asc ''DateTime64(6)'')) (PyStr (asc ''soon''))"
    and f4: "family_of ascii_lib (asc ''DateTime64(6)'') = TimestampT"
    and p5: "plain_type ascii_lib (asc ''Date32'')"
    and f5: "family_of ascii_lib (asc ''Date32'') = DateT"
    and p6: "plain_type ascii_lib (asc ''Bool'')"
    and f6: "family_of ascii_lib (asc ''Bool'') = BooleanT"
    and p7: "plain_type ascii_lib (asc ''String'')"
    and f7: "family_of ascii_lib (asc ''String'') = StringT"
    and d8: "decimal_type ascii_lib (asc ''Decimal(10,2)'')"
    by (simp_all add: ev plain_type_def decimal_type_def no_format_parses_def datetime_formats_def
        ascii_strptime_def parse_ymd_def parse_hms_def num_field_def)
  show ?thesis
    using coerce_defaults [of ascii_lib "PyStr (asc ''not-a-number'')" "asc ''Int32''" "asc ''qty''"]
      coerce_defaults [of ascii_lib "PyStr (asc ''not-a-number'')" "asc ''Float64''" "asc ''w''"]
      coerce_defaults [of ascii_lib "PyStr (asc ''not-a-number'')" "asc ''Decimal(10,2)''" "asc ''w''"]
      coerce_defaults [of ascii_lib "PyStr (asc ''soon'')" "asc ''DateTime64(6)''" "asc ''at''"]
      coerce_defaults [of ascii_lib PyNone "asc ''Date32''" "asc ''day''"]
      coerce_defaults [of ascii_lib PyNone "asc ''Bool''" "asc ''flag''"]
      coerce_defaults [of ascii_lib PyNone "asc ''String''" "asc ''name''"]
      coerce_defaults [of ascii_lib PyNone "asc ''Decimal(10,2)''" "asc ''amount''"]
      u1 u2 u3 u4 p5 p6 p7 d8
    by (simp add: f1 f2 f3 f4 f5 f6 f7)
qed

text \<open>
  The claim as stated fails: for \<open>None\<close> and the type \<open>Decimal(10,2)\<close>, which the type mapper
  emits for \<open>DECIMAL(10,2)\<close>, the result is the integer 0; and for a type named
  \<open>Timestamp\<close> the result for \<open>None\<close> is the empty string.
\<close>

theorem coerce_null_decimal_counterexample:
  "map_mysql_type_to_clickhouse ascii_lib (asc ''DECIMAL(10,2)'') = asc ''Decimal(10,2)''
   \<and> family_of ascii_lib (asc ''Decimal(10,2)'') = FloatT
   \<and> documented_default FloatT = PyFloat (Finite 0)
   \<and> convert_value_for_clickhouse ascii_lib PyNone (asc ''Decimal(10,2)'') (asc ''amount'')
       = Inr (PyInt 0)
   \<and> PyInt 0 \<noteq> PyFloat (Finite 0)
   \<and> family_of ascii_lib (asc ''Timestamp'') = TimestampT
   \<and> convert_value_for_clickhouse ascii_lib PyNone (asc ''Timestamp'') (asc ''at'') = Inr (PyStr [])"
  by (simp add: ev convert_value_for_clickhouse_def get_default_value_for_type_def
      map_mysql_type_to_clickhouse_def ascii_upper_def py_find_def py_slice_def slice_bound_def)

section \<open>Verification of the string sanitization\<close>

lemma fold_remove_char: "fold remove_char cs s = filter (\<lambda>x. x \<notin> set cs) s"
  by (induction cs arbitrary: s) (auto simp: remove_char_def intro: filter_cong)

lemma keep_not_replaced: "keep_char c \<Longrightarrow> c \<notin> set replaced_chars"
  by (auto simp: keep_char_def replaced_chars_def)

lemma replace_chain_noop:
  "fold remove_char replaced_chars (filter keep_char s) = filter keep_char s"
proof -
  have "filter (\<lambda>x. keep_char x \<and> x \<notin> set replaced_chars) s = filter keep_char s"
    by (rule filter_cong) (auto simp: keep_not_replaced)
  then show ?thesis by (simp add: fold_remove_char)
qed

lemma clean_encodable:
  assumes "utf8_encodable s"
  shows "clean_string_value s = take 1000 (filter keep_char s)"
proof -
  from assms have "utf8_encodable (filter keep_char s)"
    by (simp add: utf8_encodable_def list_all_iff)
  then show ?thesis
    by (simp add: clean_string_value_def replace_chain_noop Let_def)
qed

lemma clean_cases:
  "clean_string_value s = (if utf8_encodable s then take 1000 (filter keep_char s) else [])"
  by (simp add: clean_encodable clean_unencodable)

lemma string_family_body:
  assumes "family_of L t = StringT"
  shows "convert_value_for_clickhouse L (PyStr s) t n = Inr (PyStr (clean_string_value s))"
  using assms
  by (simp add: convert_value_for_clickhouse_def convert_body_def family_of_def Let_def
      split: if_splits)

text \<open>
  Claim C7, as the code has it. A string for a string-typed column is passed through
  \<open>clean_string_value\<close>, whose result holds no code point below U+0020 other than tab,
  newline and carriage return, has at most 1000 characters, is empty when the text has no
  \<open>utf-8\<close> encoding, and is otherwise the first 1000 of the characters that are not such
  code points, in their order. The characters U+007F to U+009F are kept.
\<close>

theorem clean_string_value_sanitizes:
  "(family_of L t = StringT \<longrightarrow>
      convert_value_for_clickhouse L (PyStr s) t n = Inr (PyStr (clean_string_value s)))
   \<and> (\<forall>c \<in> set (clean_string_value s). 32 \<le> c \<or> c = 9 \<or> c = 10 \<or> c = 13)
   \<and> length (clean_string_value s) \<le> 1000
   \<and> (\<not> utf8_encodable s \<longrightarrow> clean_string_value s = [])
   \<and> (utf8_encodable s \<longrightarrow>
        clean_string_value s = take 1000 (filter (\<lambda>c. 32 \<le> c \<or> c = 9 \<or> c = 10 \<or> c = 13) s))"
proof -
  have k: "filter keep_char s = filter (\<lambda>c. 32 \<le> c \<or> c = 9 \<or> c = 10 \<or> c = 13) s"
    by (rule filter_cong) (auto simp: keep_char_def)
  have a: "\<forall>c \<in> set (clean_string_value s). 32 \<le> c \<or> c = 9 \<or> c = 10 \<or> c = 13"
    by (auto simp: clean_cases keep_char_def dest!: in_set_takeD)
  have b: "length (clean_string_value s) \<le> 1000"
    by (simp add: clean_cases)
  have c: "utf8_encodable s \<longrightarrow>
        clean_string_value s = take 1000 (filter (\<lambda>c. 32 \<le> c \<or> c = 9 \<or> c = 10 \<or> c = 13) s)"
    by (simp add: clean_cases k)
  have d: "\<not> utf8_encodable s \<longrightarrow> clean_string_value s = []"
    by (simp add: clean_cases)
  from a b c d string_family_body [of L t s n] show ?thesis by blast
qed

theorem clean_string_value_sanitizes_witness:
  "convert_value_for_clickhouse ascii_lib (PyStr (0 # replicate 1200 97)) (asc ''String'') (asc ''note'')
     = Inr (PyStr (replicate 1000 97))
   \<and> clean_string_value (0 # replicate 1200 97) = replicate 1000 97
   \<and> clean_string_value [97, 55296, 98] = []
   \<and> clean_string_value [7, 9, 10, 13, 27, 65] = [9, 10, 13, 65]"
proof -
  have f: "family_of ascii_lib (asc ''String'') = StringT"
    by (simp add: family_of_def ascii_lib_def ascii_lower_def asc_def any_in_def startswith_def)
  have e1: "utf8_encodable (0 # replicate 1200 97)"
    and e2: "\<not> utf8_encodable [97, 55296, 98]"
    and e3: "utf8_encodable [7, 9, 10, 13, 27, 65]"
    by (simp_all add: utf8_encodable_def list_all_iff)
  have r1: "take 1000 (filter (\<lambda>c. 32 \<le> c \<or> c = 9 \<or> c = 10 \<or> c = 13) (0 # replicate 1200 (97::nat)))
      = replicate 1000 97"
    by (simp add: filter_replicate)
  have r3: "take 1000 (filter (\<lambda>c. 32 \<le> c \<or> c = 9 \<or> c = 10 \<or> c = 13) [7, 9, 10, 13, 27, 65::nat])
      = [9, 10, 13, 65]"
    by simp
  note T1 = clean_string_value_sanitizes [of ascii_lib "asc ''String''" "0 # replicate 1200 97" "asc ''note''"]
  note T2 = clean_string_value_sanitizes [of ascii_lib "asc ''String''" "[97, 55296, 98]" "asc ''note''"]
  note T3 = clean_string_value_sanitizes [of ascii_lib "asc ''String''" "[7, 9, 10, 13, 27, 65]" "asc ''note''"]
  from T1 e1 have c1: "clean_string_value (0 # replicate 1200 97) = replicate 1000 97"
    unfolding r1 by blast
  from T1 f have v1: "convert_value_for_clickhouse ascii_lib (PyStr (0 # replicate 1200 97))
      (asc ''String'') (asc ''note'') = Inr (PyStr (clean_string_value (0 # replicate 1200 97)))"
    by blast
  from T2 e2 have c2: "clean_string_value [97, 55296, 98] = []" by blast
  from T3 e3 have c3: "clean_string_value [7, 9, 10, 13, 27, 65] = [9, 10, 13, 65]"
    unfolding r3 by blast
  from v1 c1 c2 c3 show ?thesis by (simp only: simp_thms)
qed

text \<open>The claim as stated fails on the control character DEL (U+007F), which is kept.\<close>

theorem clean_keeps_delete_counterexample:
  "is_control 127 \<and> 127 \<notin> set [9, 10, 13 :: nat] \<and> clean_string_value [127] = [127]
   \<and> convert_value_for_clickhouse ascii_lib (PyStr [127]) (asc ''String'') (asc ''note'')
       = Inr (PyStr [127])"
  by (simp add: is_control_def clean_string_value_def keep_char_def replaced_chars_def
      remove_char_def utf8_encodable_def convert_value_for_clickhouse_def convert_body_def
      ascii_lib_def ascii_lower_def asc_def any_in_def startswith_def)

section \<open>Verification of the clients and the orchestrator\<close>

subsection \<open>create_table\<close>

lemma fold_create_step:
  "fold create_step flds (defs, pk) =
     (defs @ map field_definition flds,
      if pk = None then (case flds of [] \<Rightarrow> None | f # fs \<Rightarrow> Some (fst f)) else pk)"
  by (induction flds arbitrary: defs pk) (auto simp: create_step_def split: list.splits)

lemma create_table_empty:
  "create_table C t [] cm = (Inl (PyExn Exception (msg_create_failed @ msg_no_fields)), C)"
  by (simp add: create_table_def)

lemma create_table_nonempty:
  assumes "flds \<noteq> []"
  shows "create_table C t flds cm =
     (case execute C (CreateTable
             \<lparr>cs_table = t, cs_field_definitions = map field_definition flds,
              cs_order_by = fst (hd flds), cs_table_comment = cm\<rparr>) of
        (Inl e, C') \<Rightarrow> (Inl (PyExn Exception (msg_create_failed @ exn_msg e)), C')
      | (Inr n, C') \<Rightarrow> (Inr (), C'))"
  using assms unfolding create_table_def fold_create_step by (cases flds) simp_all

lemma execute_log: "ch_log (snd (execute C stmt)) = ch_log C @ [stmt]"
  by (simp add: execute_def Let_def split: option.splits sum.splits prod.splits)

lemma create_table_log:
  assumes "flds \<noteq> []"
  shows "ch_log (snd (create_table C t flds cm)) =
     ch_log C @ [CreateTable
             \<lparr>cs_table = t, cs_field_definitions = map field_definition flds,
              cs_order_by = fst (hd flds), cs_table_comment = cm\<rparr>]"
proof -
  let ?s = "CreateTable \<lparr>cs_table = t, cs_field_definitions = map field_definition flds,
              cs_order_by = fst (hd flds), cs_table_comment = cm\<rparr>"
  have "snd (create_table C t flds cm) = snd (execute C ?s)"
    by (simp add: create_table_nonempty [OF assms] split: prod.splits sum.splits)
  then show ?thesis by (simp add: execute_log)
qed

lemma fold_field_step:
  "fst (fold (field_step L fm) cols (acc, final)) =
     acc @ concat (map (\<lambda>col. case map_of fm (fst col) of
                           None \<Rightarrow> []
                         | Some (n, t) \<Rightarrow>
                             [(n, map_mysql_type_to_clickhouse L (fst (snd col)), snd (snd col))])
                    cols)"
  by (induction cols arbitrary: acc final)
    (auto simp: field_step_def Let_def split: option.splits prod.splits)

lemma build_fields_fst:
  "fst (build_fields L fm cols) =
     concat (map (\<lambda>col. case map_of fm (fst col) of
                           None \<Rightarrow> []
                         | Some (n, t) \<Rightarrow>
                             [(n, map_mysql_type_to_clickhouse L (fst (snd col)), snd (snd col))])
                    cols)"
  using fold_field_step [of L fm cols "[]" "[]"] by (simp add: build_fields_def)

subsection \<open>insert_batch\<close>

lemma insert_batch_rejected_eq:
  assumes "fst (execute C (InsertRows t names (process_rows L names types batch))) = Inl e"
  shows "insert_batch L C t names batch types =
     (Inl (PyExn Exception (msg_insert_failed @ msg_insert_failed @ exn_msg e)),
      retry_rows (snd (execute C (InsertRows t names (process_rows L names types batch))))
        t names 0 (take 5 (process_rows L names types batch)))"
proof -
  obtain res C' where ex: "execute C (InsertRows t names (process_rows L names types batch)) = (res, C')"
    by (cases "execute C (InsertRows t names (process_rows L names types batch))")
  with assms have "res = Inl e" by simp
  with ex show ?thesis by (simp add: insert_batch_def Let_def)
qed

subsection \<open>The stages of migrate_table\<close>

lemma load_failure_message:
  "load_body FS f = Inl e \<Longrightarrow>
     load_csv_mapping FS f = Inl (PyExn Exception (msg_load_failed @ f @ [58, 32] @ exn_msg e))"
  by (simp add: load_csv_mapping_def)

lemma migrate_table_load_failed:
  "load_csv_mapping (csv_loader D) f = Inl e \<Longrightarrow> migrate_table D C f = (failed_result None e, C)"
  by (simp add: migrate_table_def)

lemma migrate_table_empty_source:
  assumes "load_csv_mapping (csv_loader D) f = Inr tm"
    and "mysql_get_table_row_count (mysql_client D) (mysql_table tm) = Inr 0"
  shows "migrate_table D C f =
     (\<lparr>table_mapping = Some tm, success = False, mysql_rows = 0, clickhouse_rows = 0,
       error_message = msg_absent_or_empty\<rparr>, C)"
  using assms by (simp add: migrate_table_def migrate_loaded_def)

lemma migrate_table_prepared:
  assumes "load_csv_mapping (csv_loader D) f = Inr tm"
    and "count_rows (mysql_client D) (mysql_table tm) = Inr n" and "n \<noteq> 0"
    and "\<not> (fst (table_exists C (clickhouse_table tm)) \<and> skip_existing D)"
  shows "migrate_table D C f =
     (case migrate_prepared D (prepared_state D C tm) tm n of
        (Inl e, C') \<Rightarrow> (failed_result (Some tm) e, C')
      | (Inr r, C') \<Rightarrow> (r, C'))"
proof -
  obtain present C1 where te: "table_exists C (clickhouse_table tm) = (present, C1)"
    by (cases "table_exists C (clickhouse_table tm)")
  with assms(4) have ns: "\<not> (present \<and> skip_existing D)" by simp
  have ps: "prepared_state D C tm =
      (if present \<and> auto_recreate D then drop_table_if_exists C1 (clickhouse_table tm) else C1)"
    by (simp add: prepared_state_def te)
  have "migrate_loaded D C tm = migrate_prepared D (prepared_state D C tm) tm n"
    using assms(2,3) ns te unfolding ps
    by (auto simp: migrate_loaded_def mysql_get_table_row_count_def)
  with assms(1) show ?thesis by (simp add: migrate_table_def)
qed

lemma migrate_prepared_structure_failed:
  assumes "column_rows (mysql_client D) (mysql_table tm) = Inl e"
  shows "migrate_prepared D C tm n = (Inl (PyExn Exception (msg_structure_failed @ exn_msg e)), C)"
  using assms by (simp add: migrate_prepared_def mysql_get_table_structure_def)

lemma migrate_prepared_create_failed:
  assumes "column_rows (mysql_client D) (mysql_table tm) = Inr cols"
    and "create_table C (clickhouse_table tm)
           (fst (build_fields (lib D) (field_mappings tm) cols))
           (get_table_comment (mysql_client D) (mysql_table tm)) = (Inl e, C1)"
  shows "migrate_prepared D C tm n = (Inl e, C1)"
  using assms
  by (auto simp: migrate_prepared_def mysql_get_table_structure_def Let_def split: prod.splits)

lemma migrate_prepared_stream_failed:
  assumes "column_rows (mysql_client D) (mysql_table tm) = Inr cols"
    and "create_table C (clickhouse_table tm)
           (fst (build_fields (lib D) (field_mappings tm) cols))
           (get_table_comment (mysql_client D) (mysql_table tm)) = (Inr u, C1)"
    and "stream_table D C1 tm cols (snd (build_fields (lib D) (field_mappings tm) cols)) = (Inl e, C2)"
  shows "migrate_prepared D C tm n = (Inl e, C2)"
  using assms
  by (auto simp: migrate_prepared_def mysql_get_table_structure_def Let_def split: prod.splits)

lemma migrate_prepared_streamed:
  assumes "column_rows (mysql_client D) (mysql_table tm) = Inr cols"
    and "create_table C (clickhouse_table tm)
           (fst (build_fields (lib D) (field_mappings tm) cols))
           (get_table_comment (mysql_client D) (mysql_table tm)) = (Inr u, C1)"
    and "stream_table D C1 tm cols (snd (build_fields (lib D) (field_mappings tm) cols)) = (Inr k, C2)"
  shows "migrate_prepared D C tm n =
     (Inr \<lparr>table_mapping = Some tm, success = True, mysql_rows = n,
           clickhouse_rows = fst (ch_get_table_row_count C2 (clickhouse_table tm)),
           error_message = []\<rparr>,
      snd (ch_get_table_row_count C2 (clickhouse_table tm)))"
  using assms
  by (auto simp: migrate_prepared_def mysql_get_table_structure_def Let_def split: prod.splits)

lemma length_migrate_files: "length (fst (migrate_files D C dir fs)) = length fs"
proof (induction fs arbitrary: C)
  case Nil
  show ?case by simp
next
  case (Cons f fs)
  obtain r C' where m: "migrate_table D C (path_join dir f) = (r, C')"
    by (cases "migrate_table D C (path_join dir f)")
  obtain rs C'' where ms: "migrate_files D C' dir fs = (rs, C'')"
    by (cases "migrate_files D C' dir fs")
  from Cons.IH [of C'] ms have "length rs = length fs" by simp
  with m ms show ?case by simp
qed

lemma migrate_batches_rejected:
  assumes "map_rows final cols raw = Inr batch"
    and "fst (execute C (InsertRows (clickhouse_table tm) (mapped_names final cols)
            (process_rows (lib D) (mapped_names final cols) (mapped_types final cols) batch))) = Inl e"
  shows "migrate_batches D C tm cols final k (raw # rest) =
     (Inl (PyExn Exception (msg_insert_failed @ msg_insert_failed @ exn_msg e)),
      snd (insert_batch (lib D) C (clickhouse_table tm) (mapped_names final cols) batch
             (mapped_types final cols)))"
  using assms by (simp add: insert_batch_rejected_eq)

subsection \<open>The statements of a migration extend the log\<close>

lemma retry_rows_log: "\<exists>m. ch_log (retry_rows C t f i rs) = ch_log C @ m"
proof (induction rs arbitrary: C i)
  case Nil
  show ?case by simp
next
  case (Cons r rs)
  obtain res C' where x: "execute C (InsertRows t f [r]) = (res, C')"
    by (cases "execute C (InsertRows t f [r])")
  then have l: "ch_log C' = ch_log C @ [InsertRows t f [r]]"
    using execute_log [of C "InsertRows t f [r]"] by simp
  show ?case
  proof (cases res)
    case (Inl e)
    with x l show ?thesis by simp
  next
    case (Inr n)
    from Cons.IH [of "C'\<lparr>ch_console := ch_console C' @ [RowInserted (i + 1)]\<rparr>" "i + 1"]
    obtain m where "ch_log (retry_rows (C'\<lparr>ch_console := ch_console C' @ [RowInserted (i + 1)]\<rparr>)
        t f (i + 1) rs) = ch_log C' @ m"
      by auto
    with x l Inr show ?thesis by simp
  qed
qed

lemma insert_batch_log: "\<exists>m. ch_log (snd (insert_batch L C t f b ty)) = ch_log C @ m"
proof -
  let ?s = "InsertRows t f (process_rows L f ty b)"
  obtain res C' where x: "execute C ?s = (res, C')" by (cases "execute C ?s")
  then have l: "ch_log C' = ch_log C @ [?s]" using execute_log [of C ?s] by simp
  show ?thesis
  proof (cases res)
    case (Inr n)
    with x l show ?thesis by (simp add: insert_batch_def)
  next
    case (Inl e)
    obtain m where "ch_log (retry_rows C' t f 0 (take 5 (process_rows L f ty b))) = ch_log C' @ m"
      using retry_rows_log by blast
    with x l Inl show ?thesis by (simp add: insert_batch_def Let_def)
  qed
qed

lemma migrate_batches_log:
  "\<exists>m. ch_log (snd (migrate_batches D C tm cols final n bs)) = ch_log C @ m"
proof (induction bs arbitrary: C n)
  case Nil
  show ?case by simp
next
  case (Cons b bs)
  show ?case
  proof (cases "map_rows final cols b")
    case (Inl e)
    then show ?thesis by simp
  next
    case (Inr mapped)
    let ?i = "insert_batch (lib D) C (clickhouse_table tm) (mapped_names final cols) mapped
        (mapped_types final cols)"
    obtain res C' where x: "?i = (res, C')" by (cases ?i)
    obtain m where l: "ch_log C' = ch_log C @ m"
      using insert_batch_log [of "lib D" C "clickhouse_table tm" "mapped_names final cols" mapped
          "mapped_types final cols"] x by auto
    show ?thesis
    proof (cases res)
      case (Inl e)
      with Inr x l show ?thesis by simp
    next
      case (Inr u)
      obtain m' where "ch_log (snd (migrate_batches D C' tm cols final (n + length mapped) bs)) =
          ch_log C' @ m'"
        using Cons.IH by blast
      with \<open>map_rows final cols b = Inr mapped\<close> x l Inr show ?thesis by simp
    qed
  qed
qed

lemma stream_table_log: "\<exists>m. ch_log (snd (stream_table D C tm cols final)) = ch_log C @ m"
proof -
  obtain bs err where g: "get_table_data (mysql_client D) (mysql_table tm) (batch_size D) = (bs, err)"
    by (cases "get_table_data (mysql_client D) (mysql_table tm) (batch_size D)")
  obtain res C' where x: "migrate_batches D C tm cols final 0 bs = (res, C')"
    by (cases "migrate_batches D C tm cols final 0 bs")
  obtain m where "ch_log C' = ch_log C @ m"
    using migrate_batches_log [of D C tm cols final 0 bs] x by auto
  with g x show ?thesis
    by (auto simp: stream_table_def split: sum.splits option.splits)
qed

lemma ch_get_table_row_count_log:
  "ch_log (snd (ch_get_table_row_count C t)) = ch_log C @ [CountRows t]"
  using execute_log [of C "CountRows t"]
  by (auto simp: ch_get_table_row_count_def split: prod.splits sum.splits)

lemma migrate_prepared_log:
  assumes c: "column_rows (mysql_client D) (mysql_table tm) = Inr cols"
    and ne: "fst (build_fields (lib D) (field_mappings tm) cols) \<noteq> []"
  shows "\<exists>m. ch_log (snd (migrate_prepared D C tm k)) =
     ch_log C @ CreateTable
       \<lparr>cs_table = clickhouse_table tm,
        cs_field_definitions = map field_definition (fst (build_fields (lib D) (field_mappings tm) cols)),
        cs_order_by = fst (hd (fst (build_fields (lib D) (field_mappings tm) cols))),
        cs_table_comment = get_table_comment (mysql_client D) (mysql_table tm)\<rparr> # m"
proof -
  let ?F = "build_fields (lib D) (field_mappings tm) cols"
  let ?cm = "get_table_comment (mysql_client D) (mysql_table tm)"
  let ?s = "CreateTable
       \<lparr>cs_table = clickhouse_table tm, cs_field_definitions = map field_definition (fst ?F),
        cs_order_by = fst (hd (fst ?F)), cs_table_comment = ?cm\<rparr>"
  obtain r1 C1 where cr: "create_table C (clickhouse_table tm) (fst ?F) ?cm = (r1, C1)"
    by (cases "create_table C (clickhouse_table tm) (fst ?F) ?cm")
  have l1: "ch_log C1 = ch_log C @ [?s]"
    using create_table_log [OF ne, of C "clickhouse_table tm" ?cm] cr by simp
  show ?thesis
  proof (cases r1)
    case (Inl e)
    with c cr have "migrate_prepared D C tm k = (Inl e, C1)"
      by (intro migrate_prepared_create_failed) simp_all
    with l1 show ?thesis by simp
  next
    case (Inr u)
    obtain r2 C2 where st: "stream_table D C1 tm cols (snd ?F) = (r2, C2)"
      by (cases "stream_table D C1 tm cols (snd ?F)")
    obtain m where l2: "ch_log C2 = ch_log C1 @ m"
      using stream_table_log [of D C1 tm cols "snd ?F"] st by auto
    show ?thesis
    proof (cases r2)
      case (Inl e)
      with c cr Inr st have "migrate_prepared D C tm k = (Inl e, C2)"
        by (intro migrate_prepared_stream_failed) simp_all
      with l1 l2 show ?thesis by simp
    next
      case (Inr n)
      with c cr \<open>r1 = Inr u\<close> st have "migrate_prepared D C tm k =
         (Inr \<lparr>table_mapping = Some tm, success = True, mysql_rows = k,
               clickhouse_rows = fst (ch_get_table_row_count C2 (clickhouse_table tm)),
               error_message = []\<rparr>,
          snd (ch_get_table_row_count C2 (clickhouse_table tm)))"
        by (intro migrate_prepared_streamed) simp_all
      with l1 l2 show ?thesis by (simp add: ch_get_table_row_count_log)
    qed
  qed
qed

subsection \<open>The exact outcome of a rejected batch\<close>

lemma execute_rejected:
  "fst (execute C s) = Inl e \<Longrightarrow> execute C s = (Inl e, C\<lparr>ch_log := ch_log C @ [s]\<rparr>)"
  by (auto simp: execute_def Let_def split: option.splits sum.splits prod.splits)

lemma execute_insert_accepted_state:
  assumes "\<not> isl (fst (execute C (InsertRows t f rows)))"
  shows "\<exists>old. ch_tables C t = Some old
     \<and> execute C (InsertRows t f rows) =
         (Inr 0, C\<lparr>ch_log := ch_log C @ [InsertRows t f rows],
                   ch_tables := (ch_tables C)(t \<mapsto> old @ rows)\<rparr>)"
  using assms
  by (auto simp: execute_def run_stmt_def Let_def split: option.splits sum.splits prod.splits)

lemma after_retries_0:
  "after_retries C t names P 0 = C\<lparr>ch_log := ch_log C @ [InsertRows t names P]\<rparr>"
  by (cases "ch_tables C t") (simp_all add: after_retries_def fun_upd_idem)

lemma after_retries_step:
  assumes k: "k < length P"
    and acc: "\<not> isl (fst (execute (after_retries C t names P k) (InsertRows t names [P ! k])))"
  shows "\<exists>n C'. execute (after_retries C t names P k) (InsertRows t names [P ! k]) = (Inr n, C')
     \<and> C'\<lparr>ch_console := ch_console C' @ [RowInserted (k + 1)]\<rparr> = after_retries C t names P (Suc k)"
proof -
  let ?X = "after_retries C t names P k"
  from execute_insert_accepted_state [OF acc]
  obtain old' where o': "ch_tables ?X t = Some old'"
    and ex: "execute ?X (InsertRows t names [P ! k]) =
         (Inr 0, ?X\<lparr>ch_log := ch_log ?X @ [InsertRows t names [P ! k]],
                   ch_tables := (ch_tables ?X)(t \<mapsto> old' @ [P ! k])\<rparr>)"
    by blast
  from o' obtain old where o: "ch_tables C t = Some old" and oo: "old' = old @ take k P"
    by (auto simp: after_retries_def split: option.splits)
  have "(?X\<lparr>ch_log := ch_log ?X @ [InsertRows t names [P ! k]],
                   ch_tables := (ch_tables ?X)(t \<mapsto> old' @ [P ! k])\<rparr>)
      \<lparr>ch_console := ch_console ?X @ [RowInserted (k + 1)]\<rparr> = after_retries C t names P (Suc k)"
    using k o oo by (simp add: after_retries_def take_Suc_conv_app_nth del: upt_Suc) simp
  with ex show ?thesis by simp
qed

lemma retry_rows_exact:
  assumes "i \<le> a" "a \<le> length (take m P)"
    and "\<forall>k. i \<le> k \<and> k < a \<longrightarrow>
           \<not> isl (fst (execute (after_retries C t names P k) (InsertRows t names [P ! k])))"
    and "a < length (take m P) \<longrightarrow>
           fst (execute (after_retries C t names P a) (InsertRows t names [P ! a])) = Inl e'"
  shows "retry_rows (after_retries C t names P i) t names i (drop i (take m P)) =
     retry_outcome C t names P a (if a < length (take m P) then Some e' else None)"
  using assms
proof (induction "a - i" arbitrary: i)
  case 0
  then have ia: "i = a" by simp
  show ?case
  proof (cases "a < length (take m P)")
    case True
    then have d: "drop a (take m P) = P ! a # drop (Suc a) (take m P)"
      by (simp add: Cons_nth_drop_Suc [symmetric])
    from True 0(5) have r: "fst (execute (after_retries C t names P a) (InsertRows t names [P ! a])) = Inl e'"
      by simp
    show ?thesis
      unfolding ia d using True
      by (simp add: execute_rejected [OF r] retry_outcome_def)
  next
    case False
    with 0(3) have "drop a (take m P) = []" by (auto simp: min_def)
    with False show ?thesis unfolding ia by (simp add: retry_outcome_def)
  qed
next
  case (Suc d)
  then have lt: "i < a" by simp
  with Suc(4) have il: "i < length (take m P)" by simp
  then have ip: "i < length P" by simp
  have dr: "drop i (take m P) = P ! i # drop (Suc i) (take m P)"
    using il by (simp add: Cons_nth_drop_Suc [symmetric])
  from Suc(5) lt
  have acc: "\<not> isl (fst (execute (after_retries C t names P i) (InsertRows t names [P ! i])))"
    by simp
  from after_retries_step [OF ip acc] obtain n C' where
    ex: "execute (after_retries C t names P i) (InsertRows t names [P ! i]) = (Inr n, C')"
    and st: "C'\<lparr>ch_console := ch_console C' @ [RowInserted (i + 1)]\<rparr> = after_retries C t names P (Suc i)"
    by blast
  have step: "retry_rows (after_retries C t names P i) t names i (drop i (take m P)) =
      retry_rows (after_retries C t names P (Suc i)) t names (Suc i) (drop (Suc i) (take m P))"
    unfolding dr using ex st by simp
  have "retry_rows (after_retries C t names P (Suc i)) t names (Suc i) (drop (Suc i) (take m P)) =
     retry_outcome C t names P a (if a < length (take m P) then Some e' else None)"
    using Suc(2) lt Suc(4) Suc(5) Suc(6) by (intro Suc(1)) auto
  with step show ?case by simp
qed

lemma insert_batch_rejected_exact:
  fixes L C t names batch types
  defines "P \<equiv> process_rows L names types batch"
  assumes rej: "fst (execute C (InsertRows t names P)) = Inl e"
    and a: "a \<le> length (take 5 P)"
    and acc: "\<forall>k<a. \<not> isl (fst (execute (after_retries C t names P k) (InsertRows t names [P ! k])))"
    and stop: "a < length (take 5 P) \<longrightarrow>
           fst (execute (after_retries C t names P a) (InsertRows t names [P ! a])) = Inl e'"
  shows "insert_batch L C t names batch types =
     (Inl (PyExn Exception (msg_insert_failed @ msg_insert_failed @ exn_msg e)),
      retry_outcome C t names P a (if a < length (take 5 P) then Some e' else None))"
proof -
  have s: "snd (execute C (InsertRows t names P)) = after_retries C t names P 0"
    by (simp add: execute_rejected [OF rej] after_retries_0)
  have "retry_rows (after_retries C t names P 0) t names 0 (drop 0 (take 5 P)) =
     retry_outcome C t names P a (if a < length (take 5 P) then Some e' else None)"
    using a acc stop by (intro retry_rows_exact) auto
  then show ?thesis
    using rej s unfolding P_def by (simp add: insert_batch_rejected_eq)
qed

lemma first_rejected_exists:
  fixes n :: nat
  shows "\<exists>a\<le>n. (\<forall>k<a. \<not> Q k) \<and> (a < n \<longrightarrow> Q a)"
proof (cases "\<exists>k<n. Q k")
  case True
  then obtain k where k: "k < n" "Q k" by blast
  have "Q (LEAST k. Q k)" by (rule LeastI [of Q, OF k(2)])
  moreover have "(LEAST k. Q k) \<le> k" by (rule Least_le [of Q, OF k(2)])
  moreover have "\<forall>j<(LEAST k. Q k). \<not> Q j" using not_less_Least [of _ Q] by blast
  ultimately obtain a where a: "Q a" "a \<le> k" "\<forall>j<a. \<not> Q j" by blast
  from a(2) k(1) have "a \<le> n" by simp
  with a show ?thesis by blast
next
  case False
  then show ?thesis by (intro exI [of _ n]) auto
qed

subsection \<open>A batch in the middle of the stream\<close>

lemma migrate_batches_append:
  "migrate_batches D C tm cols final k (xs @ ys) =
     (case migrate_batches D C tm cols final k xs of
        (Inl e, C') \<Rightarrow> (Inl e, C')
      | (Inr k', C') \<Rightarrow> migrate_batches D C' tm cols final k' ys)"
proof (induction xs arbitrary: C k)
  case Nil
  show ?case by simp
next
  case (Cons x xs)
  show ?case
    by (simp add: Cons.IH split: sum.splits prod.splits)
qed

lemma migrate_batches_at:
  assumes "j < length bs"
    and "migrate_batches D C tm cols final 0 (take j bs) = (Inr k, Cj)"
  shows "migrate_batches D C tm cols final 0 bs =
     migrate_batches D Cj tm cols final k (bs ! j # drop (Suc j) bs)"
proof -
  have "bs = take j bs @ bs ! j # drop (Suc j) bs"
    using assms(1) by (simp add: id_take_nth_drop [symmetric])
  then have "migrate_batches D C tm cols final 0 bs =
      migrate_batches D C tm cols final 0 (take j bs @ bs ! j # drop (Suc j) bs)"
    by simp
  also have "\<dots> = migrate_batches D Cj tm cols final k (bs ! j # drop (Suc j) bs)"
    unfolding migrate_batches_append using assms(2) by simp
  finally show ?thesis .
qed

subsection \<open>Failures of the streaming, from the statement or query that fails\<close>

lemma create_table_accepted:
  assumes "flds \<noteq> []"
    and "fst (execute C (CreateTable
             \<lparr>cs_table = t, cs_field_definitions = map field_definition flds,
              cs_order_by = fst (hd flds), cs_table_comment = cm\<rparr>)) = Inr u"
  shows "create_table C t flds cm =
     (Inr (), snd (execute C (CreateTable
             \<lparr>cs_table = t, cs_field_definitions = map field_definition flds,
              cs_order_by = fst (hd flds), cs_table_comment = cm\<rparr>)))"
  using assms(2) by (auto simp: create_table_nonempty [OF assms(1)] split: prod.splits sum.splits)

lemma stream_table_batch_rejected:
  assumes cnt: "count_rows (mysql_client D) (mysql_table tm) = Inr n"
    and sel: "select_rows (mysql_client D) (mysql_table tm) = Inr rows"
    and j: "j < length (fetch_batches (batch_size D) rows)"
    and pre: "migrate_batches D C1 tm cols final 0 (take j (fetch_batches (batch_size D) rows)) =
        (Inr k, Cj)"
    and mp: "map_rows final cols (fetch_batches (batch_size D) rows ! j) = Inr batch"
    and rej: "fst (execute Cj (InsertRows (clickhouse_table tm) (mapped_names final cols)
            (process_rows (lib D) (mapped_names final cols) (mapped_types final cols) batch))) = Inl e"
  shows "stream_table D C1 tm cols final =
     (Inl (PyExn Exception (msg_insert_failed @ msg_insert_failed @ exn_msg e)),
      snd (insert_batch (lib D) Cj (clickhouse_table tm) (mapped_names final cols) batch
             (mapped_types final cols)))"
proof -
  have g: "get_table_data (mysql_client D) (mysql_table tm) (batch_size D) =
      (fetch_batches (batch_size D) rows, None)"
    by (simp add: get_table_data_def cnt sel)
  have "migrate_batches D C1 tm cols final 0 (fetch_batches (batch_size D) rows) =
     (Inl (PyExn Exception (msg_insert_failed @ msg_insert_failed @ exn_msg e)),
      snd (insert_batch (lib D) Cj (clickhouse_table tm) (mapped_names final cols) batch
             (mapped_types final cols)))"
    unfolding migrate_batches_at [OF j pre] by (rule migrate_batches_rejected [OF mp rej])
  then show ?thesis by (simp add: stream_table_def g)
qed

lemma stream_table_read_failed:
  assumes cnt: "count_rows (mysql_client D) (mysql_table tm) = Inr n"
    and sel: "select_rows (mysql_client D) (mysql_table tm) = Inl e"
  shows "stream_table D C1 tm cols final = (Inl (PyExn Exception (msg_read_failed @ exn_msg e)), C1)"
  by (simp add: stream_table_def get_table_data_def cnt sel)

lemma migrate_table_stream_failed:
  assumes p: "load_csv_mapping (csv_loader D) f = Inr tm"
      "count_rows (mysql_client D) (mysql_table tm) = Inr n" "n \<noteq> 0"
      "\<not> (fst (table_exists C (clickhouse_table tm)) \<and> skip_existing D)"
    and c: "column_rows (mysql_client D) (mysql_table tm) = Inr cols"
    and ne: "fst (build_fields (lib D) (field_mappings tm) cols) \<noteq> []"
    and cr: "fst (execute (prepared_state D C tm) (CreateTable
             \<lparr>cs_table = clickhouse_table tm,
              cs_field_definitions =
                map field_definition (fst (build_fields (lib D) (field_mappings tm) cols)),
              cs_order_by = fst (hd (fst (build_fields (lib D) (field_mappings tm) cols))),
              cs_table_comment = get_table_comment (mysql_client D) (mysql_table tm)\<rparr>)) = Inr u"
    and st: "stream_table D
        (snd (execute (prepared_state D C tm) (CreateTable
             \<lparr>cs_table = clickhouse_table tm,
              cs_field_definitions =
                map field_definition (fst (build_fields (lib D) (field_mappings tm) cols)),
              cs_order_by = fst (hd (fst (build_fields (lib D) (field_mappings tm) cols))),
              cs_table_comment = get_table_comment (mysql_client D) (mysql_table tm)\<rparr>)))
        tm cols (snd (build_fields (lib D) (field_mappings tm) cols)) = (Inl e, C2)"
  shows "migrate_table D C f = (failed_result (Some tm) e, C2)"
proof -
  note cr' = create_table_accepted [OF ne cr]
  have "migrate_prepared D (prepared_state D C tm) tm n = (Inl e, C2)"
    by (rule migrate_prepared_stream_failed [OF c cr' st])
  then show ?thesis by (simp add: migrate_table_prepared [OF p])
qed

subsection \<open>The loop over the mapping files\<close>

lemma nth_migrate_files:
  "i < length fs \<Longrightarrow>
     fst (migrate_files D C dir fs) ! i =
       fst (migrate_table D (snd (migrate_files D C dir (take i fs))) (path_join dir (fs ! i)))"
proof (induction fs arbitrary: C i)
  case Nil
  then show ?case by simp
next
  case (Cons f fs)
  obtain r C' where m: "migrate_table D C (path_join dir f) = (r, C')"
    by (cases "migrate_table D C (path_join dir f)")
  show ?case
  proof (cases i)
    case 0
    with m show ?thesis by (auto split: prod.splits)
  next
    case (Suc i')
    with Cons.prems have "i' < length fs" by simp
    from Cons.IH [OF this, of C'] Suc m show ?thesis by (auto split: prod.splits)
  qed
qed

lemma migrate_all_tables_files:
  assumes "listdir (csv_loader D) dir = Inr listing"
  shows "migrate_all_tables D C dir =
     (Inr (fst (migrate_files D C dir (filter (\<lambda>x. endswith x (asc ''.csv'')) listing))),
      snd (migrate_files D C dir (filter (\<lambda>x. endswith x (asc ''.csv'')) listing)))"
  using assms by (simp add: migrate_all_tables_def Let_def split: prod.splits)

lemma migrate_table_count_failed:
  assumes "load_csv_mapping (csv_loader D) f = Inr tm"
    and "count_rows (mysql_client D) (mysql_table tm) = Inl e"
  shows "migrate_table D C f =
     (\<lparr>table_mapping = Some tm, success = False, mysql_rows = 0, clickhouse_rows = 0,
       error_message = msg_absent_or_empty\<rparr>, C)"
  using assms(2)
  by (intro migrate_table_empty_source [OF assms(1)]) (simp add: mysql_get_table_row_count_def)

text \<open>
  Claim C9. When the row count of the source table is 0, \<open>migrate_table\<close> returns a failed
  result whose message says that the MySQL table does not exist or is empty, and leaves
  the target as it was: no statement is sent, no table is created, no row is inserted.
\<close>

theorem empty_source_fails:
  assumes "load_csv_mapping (csv_loader D) f = Inr tm"
    and "mysql_get_table_row_count (mysql_client D) (mysql_table tm) = Inr 0"
  shows "migrate_table D C f =
     (\<lparr>table_mapping = Some tm, success = False, mysql_rows = 0, clickhouse_rows = 0,
       error_message = msg_absent_or_empty\<rparr>, C)"
  using assms by (rule migrate_table_empty_source)

text \<open>
  Claim C8. With at least one field, \<open>create_table\<close> sends one create statement, whose
  \<open>ORDER BY\<close> column is the name of the first field; with no field it raises the
  creation error and sends nothing. The fields \<open>migrate_table\<close> passes are the mapped
  columns in the order of the source columns: with no mapped column the migration of
  the table raises that error without a statement, and with a mapped column its first
  statement is the create statement ordered by the first mapped column.
\<close>

theorem create_table_orders_by_first_field:
  "(flds \<noteq> [] \<longrightarrow>
      ch_log (snd (create_table C t flds cm)) =
        ch_log C @ [CreateTable
           \<lparr>cs_table = t, cs_field_definitions = map field_definition flds,
            cs_order_by = fst (hd flds), cs_table_comment = cm\<rparr>])
   \<and> (flds = [] \<longrightarrow>
        create_table C t flds cm = (Inl (PyExn Exception (msg_create_failed @ msg_no_fields)), C))
   \<and> fst (build_fields L fm cols) =
        concat (map (\<lambda>col. case map_of fm (fst col) of
                              None \<Rightarrow> []
                            | Some (n, ty) \<Rightarrow>
                                [(n, map_mysql_type_to_clickhouse L (fst (snd col)), snd (snd col))])
                  cols)
   \<and> (column_rows (mysql_client D) (mysql_table tm) = Inr cols
        \<and> fst (build_fields (lib D) (field_mappings tm) cols) = [] \<longrightarrow>
        migrate_prepared D C tm k =
          (Inl (PyExn Exception (msg_create_failed @ msg_no_fields)), C))
   \<and> (column_rows (mysql_client D) (mysql_table tm) = Inr cols
        \<and> fst (build_fields (lib D) (field_mappings tm) cols) \<noteq> [] \<longrightarrow>
        (\<exists>m. ch_log (snd (migrate_prepared D C tm k)) =
           ch_log C @ CreateTable
             \<lparr>cs_table = clickhouse_table tm,
              cs_field_definitions =
                map field_definition (fst (build_fields (lib D) (field_mappings tm) cols)),
              cs_order_by = fst (hd (fst (build_fields (lib D) (field_mappings tm) cols))),
              cs_table_comment = get_table_comment (mysql_client D) (mysql_table tm)\<rparr> # m))"
proof -
  have "migrate_prepared D C tm k = (Inl (PyExn Exception (msg_create_failed @ msg_no_fields)), C)"
    if c: "column_rows (mysql_client D) (mysql_table tm) = Inr cols"
      and b: "fst (build_fields (lib D) (field_mappings tm) cols) = []"
  proof -
    have "create_table C (clickhouse_table tm) (fst (build_fields (lib D) (field_mappings tm) cols))
        (get_table_comment (mysql_client D) (mysql_table tm)) =
        (Inl (PyExn Exception (msg_create_failed @ msg_no_fields)), C)"
      unfolding b by (rule create_table_empty)
    with c show ?thesis by (rule migrate_prepared_create_failed)
  qed
  then show ?thesis
    using create_table_log [of flds C t cm] create_table_empty [of C t cm]
      build_fields_fst [of L fm cols] migrate_prepared_log [of D tm cols C k]
    by simp
qed

text \<open>
  Claim C6. When the server rejects the bulk insert of a batch, \<open>insert_batch\<close> raises the
  insert error, whose message carries the message of the server. Before that it inserts
  the first five rows of the batch one at a time, in their order, until the server
  rejects one. With \<open>a\<close> the number of rows the server accepts before it rejects a row or
  the five rows are through (there is such a number for every batch), the target is
  left exactly so: the bulk statement and the single-row statements are in the log, each
  accepted row is reported with its number, and the rejected row is reported with its
  number, the error and the row. In \<open>migrate_table\<close> the error ends the migration of the
  table, whichever batch it is: the result is a failure with the message of the insert
  error, and the target stays as \<open>insert_batch\<close> left it, so that no later batch is sent.
\<close>

theorem rejected_batch_is_retried_and_raised:
  fixes L C t names batch types D tm cols rows
  defines "P \<equiv> process_rows L names types batch"
  defines "R \<equiv> insert_batch L C t names batch types"
  defines "F \<equiv> build_fields (lib D) (field_mappings tm) cols"
  defines "bs \<equiv> fetch_batches (batch_size D) rows"
  defines "cs \<equiv> CreateTable
     \<lparr>cs_table = clickhouse_table tm, cs_field_definitions = map field_definition (fst F),
      cs_order_by = fst (hd (fst F)),
      cs_table_comment = get_table_comment (mysql_client D) (mysql_table tm)\<rparr>"
  assumes "fst (execute C (InsertRows t names P)) = Inl e"
  shows "fst R = Inl (PyExn Exception (msg_insert_failed @ msg_insert_failed @ exn_msg e))
     \<and> (\<exists>a\<le>length (take 5 P).
          (\<forall>k<a. \<not> isl (fst (execute (after_retries C t names P k) (InsertRows t names [P ! k]))))
          \<and> (a < length (take 5 P) \<longrightarrow>
               isl (fst (execute (after_retries C t names P a) (InsertRows t names [P ! a])))))
     \<and> (a \<le> length (take 5 P)
          \<and> (\<forall>k<a. \<not> isl (fst (execute (after_retries C t names P k) (InsertRows t names [P ! k]))))
          \<and> (a < length (take 5 P) \<longrightarrow>
               fst (execute (after_retries C t names P a) (InsertRows t names [P ! a])) = Inl e')
        \<longrightarrow> snd R = retry_outcome C t names P a (if a < length (take 5 P) then Some e' else None))
     \<and> (load_csv_mapping (csv_loader D) f = Inr tm
          \<and> count_rows (mysql_client D) (mysql_table tm) = Inr n \<and> n \<noteq> 0
          \<and> \<not> (fst (table_exists C0 (clickhouse_table tm)) \<and> skip_existing D)
          \<and> column_rows (mysql_client D) (mysql_table tm) = Inr cols \<and> fst F \<noteq> []
          \<and> fst (execute (prepared_state D C0 tm) cs) = Inr u
          \<and> select_rows (mysql_client D) (mysql_table tm) = Inr rows
          \<and> j < length bs
          \<and> migrate_batches D (snd (execute (prepared_state D C0 tm) cs)) tm cols (snd F) 0
               (take j bs) = (Inr k, C)
          \<and> map_rows (snd F) cols (bs ! j) = Inr batch
          \<and> lib D = L \<and> clickhouse_table tm = t
          \<and> mapped_names (snd F) cols = names \<and> mapped_types (snd F) cols = types
        \<longrightarrow> migrate_table D C0 f =
             (\<lparr>table_mapping = Some tm, success = False, mysql_rows = 0, clickhouse_rows = 0,
               error_message = msg_insert_failed @ msg_insert_failed @ exn_msg e\<rparr>, snd R))"
proof -
  have rej: "fst (execute C (InsertRows t names (process_rows L names types batch))) = Inl e"
    using assms(6) by (simp add: P_def)
  have 1: "fst R = Inl (PyExn Exception (msg_insert_failed @ msg_insert_failed @ exn_msg e))"
    by (simp add: R_def insert_batch_rejected_eq [OF rej])
  have 2: "\<exists>a\<le>length (take 5 P).
          (\<forall>k<a. \<not> isl (fst (execute (after_retries C t names P k) (InsertRows t names [P ! k]))))
          \<and> (a < length (take 5 P) \<longrightarrow>
               isl (fst (execute (after_retries C t names P a) (InsertRows t names [P ! a]))))"
    by (rule first_rejected_exists)
  have 3: "snd R = retry_outcome C t names P a (if a < length (take 5 P) then Some e' else None)"
    if "a \<le> length (take 5 P)"
      "\<forall>k<a. \<not> isl (fst (execute (after_retries C t names P k) (InsertRows t names [P ! k])))"
      "a < length (take 5 P) \<longrightarrow>
         fst (execute (after_retries C t names P a) (InsertRows t names [P ! a])) = Inl e'"
    using insert_batch_rejected_exact [OF rej that [unfolded P_def]]
    by (simp add: R_def P_def)
  have 4: "migrate_table D C0 f =
             (\<lparr>table_mapping = Some tm, success = False, mysql_rows = 0, clickhouse_rows = 0,
               error_message = msg_insert_failed @ msg_insert_failed @ exn_msg e\<rparr>, snd R)"
    if p: "load_csv_mapping (csv_loader D) f = Inr tm"
      "count_rows (mysql_client D) (mysql_table tm) = Inr n" "n \<noteq> 0"
      "\<not> (fst (table_exists C0 (clickhouse_table tm)) \<and> skip_existing D)"
      and c: "column_rows (mysql_client D) (mysql_table tm) = Inr cols"
      and ne: "fst F \<noteq> []"
      and cr: "fst (execute (prepared_state D C0 tm) cs) = Inr u"
      and sel: "select_rows (mysql_client D) (mysql_table tm) = Inr rows"
      and j: "j < length bs"
      and pre: "migrate_batches D (snd (execute (prepared_state D C0 tm) cs)) tm cols (snd F) 0
               (take j bs) = (Inr k, C)"
      and mp: "map_rows (snd F) cols (bs ! j) = Inr batch"
      and eqs: "lib D = L" "clickhouse_table tm = t" "mapped_names (snd F) cols = names"
        "mapped_types (snd F) cols = types"
  proof -
    have rej': "fst (execute C (InsertRows (clickhouse_table tm) (mapped_names (snd F) cols)
            (process_rows (lib D) (mapped_names (snd F) cols) (mapped_types (snd F) cols) batch)))
         = Inl e"
      using rej by (simp add: eqs)
    note st = stream_table_batch_rejected [OF p(2) sel j [unfolded bs_def] pre [unfolded bs_def]
        mp [unfolded bs_def] rej']
    note m = migrate_table_stream_failed [OF p c ne [unfolded F_def] cr [unfolded cs_def F_def]
        st [unfolded cs_def F_def]]
    show ?thesis
      unfolding m using eqs by (simp add: failed_result_def R_def F_def)
  qed
  from 1 2 3 4 show ?thesis by blast
qed

text \<open>
  Claim C10, as the code has it. The single-row inserts after a rejected batch change
  the target: when the batch is rejected and the table exists, the first five rows of
  the batch that come before the first row the server rejects on its own are in the
  table after the error is raised, behind the rows it held before, and no other row of
  the batch is. The rows after the first rejected row are not tried.
\<close>

theorem rejected_batch_leaves_retried_rows:
  fixes L C t names batch types
  defines "P \<equiv> process_rows L names types batch"
  defines "R \<equiv> insert_batch L C t names batch types"
  assumes "fst (execute C (InsertRows t names P)) = Inl e" and "ch_tables C t = Some old"
  shows "isl (fst R)
     \<and> (\<exists>a\<le>length (take 5 P).
          (\<forall>k<a. \<not> isl (fst (execute (after_retries C t names P k) (InsertRows t names [P ! k]))))
          \<and> (a < length (take 5 P) \<longrightarrow>
               isl (fst (execute (after_retries C t names P a) (InsertRows t names [P ! a])))))
     \<and> (a \<le> length (take 5 P)
          \<and> (\<forall>k<a. \<not> isl (fst (execute (after_retries C t names P k) (InsertRows t names [P ! k]))))
          \<and> (a < length (take 5 P) \<longrightarrow>
               isl (fst (execute (after_retries C t names P a) (InsertRows t names [P ! a]))))
        \<longrightarrow> ch_tables (snd R) = (ch_tables C)(t \<mapsto> old @ take a P))"
proof -
  have rej: "fst (execute C (InsertRows t names (process_rows L names types batch))) = Inl e"
    using assms(3) by (simp add: P_def)
  have 1: "isl (fst R)" by (simp add: R_def insert_batch_rejected_eq [OF rej])
  have 2: "\<exists>a\<le>length (take 5 P).
          (\<forall>k<a. \<not> isl (fst (execute (after_retries C t names P k) (InsertRows t names [P ! k]))))
          \<and> (a < length (take 5 P) \<longrightarrow>
               isl (fst (execute (after_retries C t names P a) (InsertRows t names [P ! a]))))"
    by (rule first_rejected_exists)
  have 3: "ch_tables (snd R) = (ch_tables C)(t \<mapsto> old @ take a P)"
    if a: "a \<le> length (take 5 P)"
      and acc: "\<forall>k<a. \<not> isl (fst (execute (after_retries C t names P k) (InsertRows t names [P ! k])))"
      and stop: "a < length (take 5 P) \<longrightarrow>
         isl (fst (execute (after_retries C t names P a) (InsertRows t names [P ! a])))"
  proof -
    obtain e' where e': "a < length (take 5 P) \<longrightarrow>
         fst (execute (after_retries C t names P a) (InsertRows t names [P ! a])) = Inl e'"
      using stop by (cases "a < length (take 5 P)") (auto simp: isl_def)
    have "snd R = retry_outcome C t names P a (if a < length (take 5 P) then Some e' else None)"
      using insert_batch_rejected_exact [OF rej a [unfolded P_def] acc [unfolded P_def]
          e' [unfolded P_def]]
      by (simp add: R_def P_def)
    then show ?thesis
      using assms(4) by (simp add: retry_outcome_def after_retries_def)
  qed
  from 1 2 3 show ?thesis by blast
qed

text \<open>
  Claim C3, as the code has it. Reading the row count of the source table never fails:
  when the query raises, because the table does not exist or for any other reason, the
  result is 0, as for a table with no rows; otherwise it is the count of the query.
\<close>

theorem row_count_never_fails:
  "(\<exists>n. mysql_get_table_row_count M t = Inr n)
   \<and> (isl (count_rows M t) \<longrightarrow> mysql_get_table_row_count M t = Inr 0)
   \<and> (count_rows M t = Inr k \<longrightarrow> mysql_get_table_row_count M t = Inr k)"
  by (auto simp: mysql_get_table_row_count_def split: sum.splits)

text \<open>
  Claim C4. When the mapping is loaded, the source has rows, the table is not skipped,
  the target table is created and the streaming ends without an exception, the result is
  a success that holds the row count of the source and the row count the target reports
  after the streaming; the two counts are not compared. The count statement is the last
  one sent.
\<close>

theorem completed_stream_is_verified:
  fixes D C f tm n cols
  defines "F \<equiv> build_fields (lib D) (field_mappings tm) cols"
  defines "cm \<equiv> get_table_comment (mysql_client D) (mysql_table tm)"
  defines "C1 \<equiv> snd (create_table (prepared_state D C tm) (clickhouse_table tm) (fst F) cm)"
  defines "C2 \<equiv> snd (stream_table D C1 tm cols (snd F))"
  assumes "load_csv_mapping (csv_loader D) f = Inr tm"
    and "count_rows (mysql_client D) (mysql_table tm) = Inr n" and "n \<noteq> 0"
    and "\<not> (fst (table_exists C (clickhouse_table tm)) \<and> skip_existing D)"
    and "column_rows (mysql_client D) (mysql_table tm) = Inr cols"
    and "fst (create_table (prepared_state D C tm) (clickhouse_table tm) (fst F) cm) = Inr u"
    and "fst (stream_table D C1 tm cols (snd F)) = Inr k"
  shows "fst (migrate_table D C f) =
       \<lparr>table_mapping = Some tm, success = True, mysql_rows = n,
        clickhouse_rows = fst (ch_get_table_row_count C2 (clickhouse_table tm)),
        error_message = []\<rparr>
     \<and> snd (migrate_table D C f) = snd (ch_get_table_row_count C2 (clickhouse_table tm))
     \<and> ch_log (snd (migrate_table D C f)) = ch_log C2 @ [CountRows (clickhouse_table tm)]"
proof -
  have c: "create_table (prepared_state D C tm) (clickhouse_table tm)
      (fst (build_fields (lib D) (field_mappings tm) cols))
      (get_table_comment (mysql_client D) (mysql_table tm)) = (Inr u, C1)"
    using assms(10) unfolding C1_def F_def cm_def by (metis prod.collapse)
  have s: "stream_table D C1 tm cols (snd (build_fields (lib D) (field_mappings tm) cols)) = (Inr k, C2)"
    using assms(11) unfolding C2_def F_def by (metis prod.collapse)
  have m: "migrate_table D C f =
      (\<lparr>table_mapping = Some tm, success = True, mysql_rows = n,
        clickhouse_rows = fst (ch_get_table_row_count C2 (clickhouse_table tm)),
        error_message = []\<rparr>, snd (ch_get_table_row_count C2 (clickhouse_table tm)))"
    by (simp add: migrate_table_prepared [OF assms(5-8)]
        migrate_prepared_streamed [OF assms(9) c s])
  have "ch_log (snd (ch_get_table_row_count C2 (clickhouse_table tm))) =
      ch_log C2 @ [CountRows (clickhouse_table tm)]"
    using execute_log [of C2 "CountRows (clickhouse_table tm)"]
    by (auto simp: ch_get_table_row_count_def split: prod.splits sum.splits)
  with m show ?thesis by simp
qed

text \<open>
  Claim C5, as the code has it. \<open>migrate_table\<close> returns a result for every mapping file
  and never raises, and the loop over the files yields one result for each file, in
  their order: the result of \<open>migrate_table\<close> for that file, on the target as the files
  before it left it. An exception of the loader, of the query for the columns, of the
  creation of the table, of the query for the rows and of the insert of a batch becomes
  a failed result with the message of the exception, which ends with the message of the
  error underneath. The queries for the row count and for the comment of the source
  table do not raise: a failed count reads as 0 and gives the failed result of a table
  that is absent or empty, without the message of the error, and a failed comment reads
  as the empty comment.
\<close>

theorem table_errors_become_failed_results:
  fixes D C f tm n cols rows
  defines "C0 \<equiv> prepared_state D C tm"
  defines "F \<equiv> build_fields (lib D) (field_mappings tm) cols"
  defines "cm \<equiv> get_table_comment (mysql_client D) (mysql_table tm)"
  defines "cs \<equiv> CreateTable
     \<lparr>cs_table = clickhouse_table tm, cs_field_definitions = map field_definition (fst F),
      cs_order_by = fst (hd (fst F)), cs_table_comment = cm\<rparr>"
  defines "C1 \<equiv> snd (execute C0 cs)"
  defines "bs \<equiv> fetch_batches (batch_size D) rows"
  defines "names \<equiv> mapped_names (snd F) cols"
  defines "types \<equiv> mapped_types (snd F) cols"
  shows "length (fst (migrate_files D C dir fs)) = length fs
    \<and> (\<forall>i<length fs.
         fst (migrate_files D C dir fs) ! i =
           fst (migrate_table D (snd (migrate_files D C dir (take i fs))) (path_join dir (fs ! i))))
    \<and> (listdir (csv_loader D) dir = Inr listing \<longrightarrow>
         migrate_all_tables D C dir =
           (Inr (fst (migrate_files D C dir (filter (\<lambda>x. endswith x (asc ''.csv'')) listing))),
            snd (migrate_files D C dir (filter (\<lambda>x. endswith x (asc ''.csv'')) listing))))
    \<and> (load_body (csv_loader D) f = Inl e \<longrightarrow>
         migrate_table D C f =
           (\<lparr>table_mapping = None, success = False, mysql_rows = 0, clickhouse_rows = 0,
             error_message = msg_load_failed @ f @ [58, 32] @ exn_msg e\<rparr>, C))
    \<and> (load_csv_mapping (csv_loader D) f = Inr tm
        \<and> count_rows (mysql_client D) (mysql_table tm) = Inl e \<longrightarrow>
         migrate_table D C f =
           (\<lparr>table_mapping = Some tm, success = False, mysql_rows = 0, clickhouse_rows = 0,
             error_message = msg_absent_or_empty\<rparr>, C))
    \<and> (comment_row (mysql_client D) (mysql_table tm) = Inl e \<longrightarrow> cm = [])
    \<and> (load_csv_mapping (csv_loader D) f = Inr tm
        \<and> count_rows (mysql_client D) (mysql_table tm) = Inr n \<and> n \<noteq> 0
        \<and> \<not> (fst (table_exists C (clickhouse_table tm)) \<and> skip_existing D) \<longrightarrow>
         (column_rows (mysql_client D) (mysql_table tm) = Inl e \<longrightarrow>
            migrate_table D C f =
              (\<lparr>table_mapping = Some tm, success = False, mysql_rows = 0, clickhouse_rows = 0,
                error_message = msg_structure_failed @ exn_msg e\<rparr>, C0))
         \<and> (column_rows (mysql_client D) (mysql_table tm) = Inr cols \<and> fst F = [] \<longrightarrow>
            migrate_table D C f =
              (\<lparr>table_mapping = Some tm, success = False, mysql_rows = 0, clickhouse_rows = 0,
                error_message = msg_create_failed @ msg_no_fields\<rparr>, C0))
         \<and> (column_rows (mysql_client D) (mysql_table tm) = Inr cols \<and> fst F \<noteq> []
             \<and> fst (execute C0 cs) = Inl e \<longrightarrow>
            migrate_table D C f =
              (\<lparr>table_mapping = Some tm, success = False, mysql_rows = 0, clickhouse_rows = 0,
                error_message = msg_create_failed @ exn_msg e\<rparr>, C1))
         \<and> (column_rows (mysql_client D) (mysql_table tm) = Inr cols \<and> fst F \<noteq> []
             \<and> fst (execute C0 cs) = Inr u
             \<and> select_rows (mysql_client D) (mysql_table tm) = Inl e \<longrightarrow>
            migrate_table D C f =
              (\<lparr>table_mapping = Some tm, success = False, mysql_rows = 0, clickhouse_rows = 0,
                error_message = msg_read_failed @ exn_msg e\<rparr>, C1))
         \<and> (column_rows (mysql_client D) (mysql_table tm) = Inr cols \<and> fst F \<noteq> []
             \<and> fst (execute C0 cs) = Inr u
             \<and> select_rows (mysql_client D) (mysql_table tm) = Inr rows
             \<and> j < length bs
             \<and> migrate_batches D C1 tm cols (snd F) 0 (take j bs) = (Inr k, Cj)
             \<and> map_rows (snd F) cols (bs ! j) = Inr batch
             \<and> fst (execute Cj (InsertRows (clickhouse_table tm) names
                   (process_rows (lib D) names types batch))) = Inl e \<longrightarrow>
            fst (migrate_table D C f) =
              \<lparr>table_mapping = Some tm, success = False, mysql_rows = 0, clickhouse_rows = 0,
               error_message = msg_insert_failed @ msg_insert_failed @ exn_msg e\<rparr>))"
proof -
  have 1: "length (fst (migrate_files D C dir fs)) = length fs"
    by (rule length_migrate_files)
  have 2: "\<forall>i<length fs.
         fst (migrate_files D C dir fs) ! i =
           fst (migrate_table D (snd (migrate_files D C dir (take i fs))) (path_join dir (fs ! i)))"
    by (simp add: nth_migrate_files)
  have 3: "migrate_all_tables D C dir =
           (Inr (fst (migrate_files D C dir (filter (\<lambda>x. endswith x (asc ''.csv'')) listing))),
            snd (migrate_files D C dir (filter (\<lambda>x. endswith x (asc ''.csv'')) listing)))"
    if "listdir (csv_loader D) dir = Inr listing"
    using that by (rule migrate_all_tables_files)
  have 4: "migrate_table D C f =
           (\<lparr>table_mapping = None, success = False, mysql_rows = 0, clickhouse_rows = 0,
             error_message = msg_load_failed @ f @ [58, 32] @ exn_msg e\<rparr>, C)"
    if "load_body (csv_loader D) f = Inl e"
    using that by (simp add: migrate_table_load_failed load_failure_message failed_result_def)
  have 5: "migrate_table D C f =
           (\<lparr>table_mapping = Some tm, success = False, mysql_rows = 0, clickhouse_rows = 0,
             error_message = msg_absent_or_empty\<rparr>, C)"
    if "load_csv_mapping (csv_loader D) f = Inr tm"
      "count_rows (mysql_client D) (mysql_table tm) = Inl e"
    using that by (rule migrate_table_count_failed)
  have 6: "cm = []" if "comment_row (mysql_client D) (mysql_table tm) = Inl e"
    using that by (simp add: cm_def get_table_comment_def)
  have 7: "migrate_table D C f =
              (\<lparr>table_mapping = Some tm, success = False, mysql_rows = 0, clickhouse_rows = 0,
                error_message = msg_structure_failed @ exn_msg e\<rparr>, C0)"
    if p: "load_csv_mapping (csv_loader D) f = Inr tm"
      "count_rows (mysql_client D) (mysql_table tm) = Inr n" "n \<noteq> 0"
      "\<not> (fst (table_exists C (clickhouse_table tm)) \<and> skip_existing D)"
      and c: "column_rows (mysql_client D) (mysql_table tm) = Inl e"
    by (simp add: migrate_table_prepared [OF p] migrate_prepared_structure_failed [OF c]
        failed_result_def C0_def)
  have 8: "migrate_table D C f =
              (\<lparr>table_mapping = Some tm, success = False, mysql_rows = 0, clickhouse_rows = 0,
                error_message = msg_create_failed @ msg_no_fields\<rparr>, C0)"
    if p: "load_csv_mapping (csv_loader D) f = Inr tm"
      "count_rows (mysql_client D) (mysql_table tm) = Inr n" "n \<noteq> 0"
      "\<not> (fst (table_exists C (clickhouse_table tm)) \<and> skip_existing D)"
      and c: "column_rows (mysql_client D) (mysql_table tm) = Inr cols"
      and b: "fst F = []"
  proof -
    have "create_table C0 (clickhouse_table tm) (fst (build_fields (lib D) (field_mappings tm) cols))
        (get_table_comment (mysql_client D) (mysql_table tm)) =
        (Inl (PyExn Exception (msg_create_failed @ msg_no_fields)), C0)"
      unfolding b [unfolded F_def] by (rule create_table_empty)
    with c have "migrate_prepared D C0 tm n =
        (Inl (PyExn Exception (msg_create_failed @ msg_no_fields)), C0)"
      by (rule migrate_prepared_create_failed)
    then show ?thesis
      by (simp add: migrate_table_prepared [OF p] C0_def [symmetric] failed_result_def)
  qed
  have 9: "migrate_table D C f =
              (\<lparr>table_mapping = Some tm, success = False, mysql_rows = 0, clickhouse_rows = 0,
                error_message = msg_create_failed @ exn_msg e\<rparr>, C1)"
    if p: "load_csv_mapping (csv_loader D) f = Inr tm"
      "count_rows (mysql_client D) (mysql_table tm) = Inr n" "n \<noteq> 0"
      "\<not> (fst (table_exists C (clickhouse_table tm)) \<and> skip_existing D)"
      and c: "column_rows (mysql_client D) (mysql_table tm) = Inr cols"
      and ne: "fst F \<noteq> []"
      and x: "fst (execute C0 cs) = Inl e"
  proof -
    have ex: "execute C0 cs = (Inl e, C1)"
      using x unfolding C1_def by (metis prod.collapse)
    have "create_table C0 (clickhouse_table tm) (fst F) cm =
        (Inl (PyExn Exception (msg_create_failed @ exn_msg e)), C1)"
      using ex by (simp add: create_table_nonempty [OF ne] cs_def)
    then have "migrate_prepared D C0 tm n =
        (Inl (PyExn Exception (msg_create_failed @ exn_msg e)), C1)"
      unfolding F_def cm_def by (rule migrate_prepared_create_failed [OF c])
    then show ?thesis
      by (simp add: migrate_table_prepared [OF p] C0_def [symmetric] failed_result_def)
  qed
  have 10: "migrate_table D C f =
              (\<lparr>table_mapping = Some tm, success = False, mysql_rows = 0, clickhouse_rows = 0,
                error_message = msg_read_failed @ exn_msg e\<rparr>, C1)"
    if p: "load_csv_mapping (csv_loader D) f = Inr tm"
      "count_rows (mysql_client D) (mysql_table tm) = Inr n" "n \<noteq> 0"
      "\<not> (fst (table_exists C (clickhouse_table tm)) \<and> skip_existing D)"
      and c: "column_rows (mysql_client D) (mysql_table tm) = Inr cols"
      and ne: "fst F \<noteq> []"
      and x: "fst (execute C0 cs) = Inr u"
      and sel: "select_rows (mysql_client D) (mysql_table tm) = Inl e"
  proof -
    note st = stream_table_read_failed [OF p(2) sel, of C1 cols "snd F"]
    note m = migrate_table_stream_failed [OF p c ne [unfolded F_def]
        x [unfolded cs_def C0_def F_def cm_def]
        st [unfolded C1_def cs_def C0_def F_def cm_def]]
    show ?thesis
      unfolding m by (simp add: failed_result_def C1_def cs_def C0_def F_def cm_def)
  qed
  have 11: "fst (migrate_table D C f) =
              \<lparr>table_mapping = Some tm, success = False, mysql_rows = 0, clickhouse_rows = 0,
               error_message = msg_insert_failed @ msg_insert_failed @ exn_msg e\<rparr>"
    if p: "load_csv_mapping (csv_loader D) f = Inr tm"
      "count_rows (mysql_client D) (mysql_table tm) = Inr n" "n \<noteq> 0"
      "\<not> (fst (table_exists C (clickhouse_table tm)) \<and> skip_existing D)"
      and c: "column_rows (mysql_client D) (mysql_table tm) = Inr cols"
      and ne: "fst F \<noteq> []"
      and x: "fst (execute C0 cs) = Inr u"
      and sel: "select_rows (mysql_client D) (mysql_table tm) = Inr rows"
      and j: "j < length bs"
      and pre: "migrate_batches D C1 tm cols (snd F) 0 (take j bs) = (Inr k, Cj)"
      and mp: "map_rows (snd F) cols (bs ! j) = Inr batch"
      and rej: "fst (execute Cj (InsertRows (clickhouse_table tm) names
                   (process_rows (lib D) names types batch))) = Inl e"
  proof -
    note st = stream_table_batch_rejected [OF p(2) sel j [unfolded bs_def] pre [unfolded bs_def]
        mp [unfolded bs_def] rej [unfolded names_def types_def]]
    note m = migrate_table_stream_failed [OF p c ne [unfolded F_def]
        x [unfolded cs_def C0_def F_def cm_def]
        st [unfolded C1_def cs_def C0_def F_def cm_def]]
    show ?thesis
      unfolding m by (simp add: failed_result_def)
  qed
  from 1 2 3 4 5 6 7 8 9 10 11 show ?thesis by blast
qed

lemmas str_defs = asc_def startswith_def strip_def isspace_def basename_def path_join_def
  endswith_def py_index_def index_error_def dict_has_def any_in_def

lemmas lib_defs = ascii_lib_def ascii_upper_def ascii_lower_def

lemmas conv_defs = convert_value_for_clickhouse_def convert_body_def get_default_value_for_type_def
  clean_string_value_def keep_char_def replaced_chars_def remove_char_def utf8_encodable_def
  default_date_def default_datetime_def

lemma demo_migrator_fields:
  "lib demo_migrator = ascii_lib" "mysql_client demo_migrator = demo_mysql"
  "csv_loader demo_migrator = demo_files" "batch_size demo_migrator = 2"
  "auto_recreate demo_migrator = True" "skip_existing demo_migrator = False"
  by (simp_all add: demo_migrator_def)

lemma demo_mapping_fields:
  "mysql_table demo_mapping = asc ''users''" "clickhouse_table demo_mapping = asc ''users''"
  by (simp_all add: demo_mapping_def)

lemma demo_mysql_users:
  "count_rows demo_mysql (asc ''users'') = Inr 3"
  "column_rows demo_mysql (asc ''users'') = Inr demo_cols"
  "select_rows demo_mysql (asc ''users'') = Inr demo_rows"
  "get_table_comment demo_mysql (asc ''users'') = asc ''accounts''"
  by (simp_all add: demo_mysql_def get_table_comment_def)

lemma demo_load:
  "load_csv_mapping demo_files (asc ''maps/users-users.csv'') = Inr demo_mapping"
  by (simp add: load_csv_mapping_def load_body_def csv_cell_def str_defs demo_files_def demo_csv_def
      demo_mapping_def)

lemma demo_map_types:
  "map_mysql_type_to_clickhouse ascii_lib (asc ''int'') = asc ''Int32''"
  "map_mysql_type_to_clickhouse ascii_lib (asc ''varchar'') = asc ''String''"
  "map_mysql_type_to_clickhouse ascii_lib (asc ''timestamp'') = asc ''DateTime64(6)''"
  by (simp_all add: map_mysql_type_to_clickhouse_def lib_defs str_defs dict_get_def TYPE_MAPPING_def)

lemma demo_build:
  "build_fields ascii_lib (field_mappings demo_mapping) demo_cols = (demo_fields, demo_final)"
  by (simp add: build_fields_def field_step_def demo_map_types demo_mapping_def Let_def demo_cols_def)
    (simp add: asc_def demo_fields_def demo_final_def)

lemma demo_mapped:
  "mapped_names demo_final demo_cols = demo_names"
  "mapped_types demo_final demo_cols = demo_types"
  by (simp_all add: mapped_names_def mapped_types_def demo_final_def demo_cols_def demo_names_def
      demo_types_def asc_def)

lemma demo_map_rows:
  "map_rows demo_final demo_cols rows = Inr rows" if "\<forall>r \<in> set rows. length r = 3"
  using that
proof (induction rows)
  case Nil
  show ?case by simp
next
  case (Cons r rows)
  then obtain a b c where r: "r = [a, b, c]"
    by (cases r; cases "tl r"; cases "tl (tl r)") auto
  have "map_row demo_final (enumerate 0 demo_cols) r = Inr r"
    unfolding r by (simp add: demo_final_def demo_cols_def str_defs)
  with Cons show ?case by simp
qed

lemma demo_process:
  "process_rows ascii_lib demo_names demo_types demo_rows = demo_processed"
  by (simp add: process_rows_def process_cell_def field_type_at_def field_name_at_def
      demo_names_def demo_types_def demo_rows_def demo_processed_def conv_defs lib_defs str_defs
      Let_def)

lemma process_rows_take:
  "process_rows L names types (take k rows) = take k (process_rows L names types rows)"
  "process_rows L names types (drop k rows) = drop k (process_rows L names types rows)"
  by (simp_all add: process_rows_def take_map drop_map)

lemma demo_batches:
  "fetch_batches 2 demo_rows = [take 2 demo_rows, drop 2 demo_rows]"
  "fetch_batches 5 demo_rows = [demo_rows]"
  by (simp_all add: fetch_batches.simps [of 2] fetch_batches.simps [of 5] fetch_size_def
      demo_rows_def)

lemma demo_exists:
  assumes "F [] (ExistsTable (asc ''users'')) = None"
  shows "table_exists (empty_clickhouse\<lparr>ch_fault := F\<rparr>) (asc ''users'') =
     (False, empty_clickhouse\<lparr>ch_log := [ExistsTable (asc ''users'')], ch_fault := F\<rparr>)"
  using assms by (simp add: table_exists_def execute_def run_stmt_def empty_clickhouse_def)

lemma demo_prepared:
  assumes "F [] (ExistsTable (asc ''users'')) = None"
  shows "prepared_state D (empty_clickhouse\<lparr>ch_fault := F\<rparr>) demo_mapping =
     empty_clickhouse\<lparr>ch_log := [ExistsTable (asc ''users'')], ch_fault := F\<rparr>"
  using assms by (simp add: prepared_state_def demo_mapping_fields demo_exists)

lemma demo_fields_hd: "demo_fields \<noteq> []" "fst (hd demo_fields) = asc ''id''"
  by (simp_all add: demo_fields_def)

lemma demo_created:
  assumes "F [ExistsTable (asc ''users'')] demo_create = None"
  shows "create_table (empty_clickhouse\<lparr>ch_log := [ExistsTable (asc ''users'')], ch_fault := F\<rparr>)
       (asc ''users'') demo_fields (asc ''accounts'') =
     (Inr (), empty_clickhouse\<lparr>ch_tables := [asc ''users'' \<mapsto> []],
                ch_log := [ExistsTable (asc ''users''), demo_create], ch_fault := F\<rparr>)"
  unfolding create_table_nonempty [OF demo_fields_hd(1)] demo_fields_hd(2) demo_create_def [symmetric]
  using assms by (simp add: execute_def run_stmt_def empty_clickhouse_def demo_create_def)

lemma demo_map_rows_all:
  "map_rows demo_final demo_cols demo_rows = Inr demo_rows"
  "map_rows demo_final demo_cols (take 2 demo_rows) = Inr (take 2 demo_rows)"
  "map_rows demo_final demo_cols (drop 2 demo_rows) = Inr (drop 2 demo_rows)"
  by (rule demo_map_rows, simp add: demo_rows_def)+

lemma demo_streamed:
  assumes "lib D = ascii_lib" "mysql_client D = M"
    and "count_rows M (asc ''users'') = Inr n"
    and "select_rows M (asc ''users'') = Inr demo_rows" "batch_size D = 2"
  shows "stream_table D
      (empty_clickhouse\<lparr>ch_tables := [asc ''users'' \<mapsto> []],
                ch_log := [ExistsTable (asc ''users''), demo_create]\<rparr>)
      demo_mapping demo_cols demo_final =
    (Inr 3, empty_clickhouse\<lparr>ch_tables := [asc ''users'' \<mapsto> demo_processed],
                ch_log := [ExistsTable (asc ''users''), demo_create,
                  InsertRows (asc ''users'') demo_names (take 2 demo_processed),
                  InsertRows (asc ''users'') demo_names (drop 2 demo_processed)]\<rparr>)"
proof -
  have l: "length demo_rows = 3"
    by (simp add: demo_rows_def)
  show ?thesis
    unfolding stream_table_def get_table_data_def assms demo_mapping_fields
    by (simp add: demo_batches demo_map_rows_all demo_mapped insert_batch_def assms
        demo_mapping_fields process_rows_take demo_process l execute_def run_stmt_def
        empty_clickhouse_def Let_def)
qed

lemma demo_counted:
  "ch_get_table_row_count
      (empty_clickhouse\<lparr>ch_tables := [asc ''users'' \<mapsto> demo_processed], ch_log := sent\<rparr>)
      (asc ''users'') =
    (3, empty_clickhouse\<lparr>ch_tables := [asc ''users'' \<mapsto> demo_processed],
          ch_log := sent @ [CountRows (asc ''users'')]\<rparr>)"
  by (simp add: ch_get_table_row_count_def execute_def run_stmt_def empty_clickhouse_def
      demo_processed_def)

text \<open>The server that rejects the third row of the scenario.\<close>

lemma demo_bad_row: "demo_processed ! 2 \<in> set demo_processed"
  "demo_processed ! 2 \<notin> set (take 2 demo_processed)"
  "take 5 demo_processed = demo_processed"
  by (simp_all add: demo_processed_def asc_def)

lemma demo_rejected:
  assumes "ch_fault C = rejects_row (demo_processed ! 2)"
  shows "fst (execute C (InsertRows t names demo_processed)) = Inl (server_error ''Cannot parse input'')"
  using assms demo_bad_row(1)
  by (simp add: execute_def rejects_row_def Let_def)

lemma no_fault: "empty_clickhouse\<lparr>ch_fault := (\<lambda>sent stmt. None)\<rparr> = empty_clickhouse"
  "X\<lparr>ch_fault := ch_fault empty_clickhouse\<rparr> = X\<lparr>ch_fault := (\<lambda>sent stmt. None)\<rparr>"
  by (simp_all add: empty_clickhouse_def)

lemma demo_prepared0:
  "prepared_state D empty_clickhouse demo_mapping =
     empty_clickhouse\<lparr>ch_log := [ExistsTable (asc ''users'')]\<rparr>"
  using demo_prepared [of "\<lambda>sent stmt. None" D] by (simp add: empty_clickhouse_def)

lemma demo_exists0: "fst (table_exists empty_clickhouse (asc ''users'')) = False"
  using demo_exists [of "\<lambda>sent stmt. None"] by (simp add: empty_clickhouse_def)

lemma demo_created0:
  "create_table (empty_clickhouse\<lparr>ch_log := [ExistsTable (asc ''users'')]\<rparr>)
       (asc ''users'') demo_fields (asc ''accounts'') =
     (Inr (), empty_clickhouse\<lparr>ch_tables := [asc ''users'' \<mapsto> []],
                ch_log := [ExistsTable (asc ''users''), demo_create]\<rparr>)"
  using demo_created [of "\<lambda>sent stmt. None"] by (simp add: empty_clickhouse_def)

theorem row_count_never_fails_witness:
  "isl (count_rows demo_mysql (asc ''orders''))
   \<and> mysql_get_table_row_count demo_mysql (asc ''orders'') = Inr 0
   \<and> count_rows demo_mysql (asc ''users'') = Inr 3
   \<and> mysql_get_table_row_count demo_mysql (asc ''users'') = Inr 3"
proof -
  have a: "isl (count_rows demo_mysql (asc ''orders''))"
    by (simp add: demo_mysql_def asc_def)
  from row_count_never_fails [of demo_mysql "asc ''orders''" 0] a
    row_count_never_fails [of demo_mysql "asc ''users''" 3] demo_mysql_users(1)
  show ?thesis by simp
qed

text \<open>
  The claim as stated fails: for a table that does not exist the count query raises, and
  the row count returned is 0 and no error, as for a table without rows.
\<close>

theorem row_count_failure_counterexample:
  "count_rows demo_mysql (asc ''orders'') = Inl (server_error ''no such table'')
   \<and> mysql_get_table_row_count demo_mysql (asc ''orders'') = Inr 0
   \<and> count_rows (demo_mysql\<lparr>count_rows := (\<lambda>t. Inr 0)\<rparr>) (asc ''orders'') = Inr 0
   \<and> mysql_get_table_row_count (demo_mysql\<lparr>count_rows := (\<lambda>t. Inr 0)\<rparr>) (asc ''orders'') = Inr 0"
  by (simp add: mysql_get_table_row_count_def demo_mysql_def asc_def)

theorem empty_source_fails_witness:
  "migrate_table (demo_migrator\<lparr>mysql_client := demo_mysql\<lparr>count_rows := (\<lambda>t. Inr 0)\<rparr>\<rparr>)
      empty_clickhouse (asc ''maps/users-users.csv'') =
     (\<lparr>table_mapping = Some demo_mapping, success = False, mysql_rows = 0, clickhouse_rows = 0,
       error_message = msg_absent_or_empty\<rparr>, empty_clickhouse)
   \<and> migrate_table
      (demo_migrator\<lparr>mysql_client :=
         demo_mysql\<lparr>count_rows := (\<lambda>t. Inl (server_error ''no such table''))\<rparr>\<rparr>)
      empty_clickhouse (asc ''maps/users-users.csv'') =
     (\<lparr>table_mapping = Some demo_mapping, success = False, mysql_rows = 0, clickhouse_rows = 0,
       error_message = msg_absent_or_empty\<rparr>, empty_clickhouse)"
proof -
  let ?D0 = "demo_migrator\<lparr>mysql_client := demo_mysql\<lparr>count_rows := (\<lambda>t. Inr 0)\<rparr>\<rparr>"
  let ?Dx = "demo_migrator\<lparr>mysql_client :=
         demo_mysql\<lparr>count_rows := (\<lambda>t. Inl (server_error ''no such table''))\<rparr>\<rparr>"
  have l0: "load_csv_mapping (csv_loader ?D0) (asc ''maps/users-users.csv'') = Inr demo_mapping"
    and lx: "load_csv_mapping (csv_loader ?Dx) (asc ''maps/users-users.csv'') = Inr demo_mapping"
    by (simp_all add: demo_migrator_fields demo_load)
  have c0: "mysql_get_table_row_count (mysql_client ?D0) (mysql_table demo_mapping) = Inr 0"
    and cx: "mysql_get_table_row_count (mysql_client ?Dx) (mysql_table demo_mapping) = Inr 0"
    by (simp_all add: mysql_get_table_row_count_def)
  from empty_source_fails [OF l0 c0, of empty_clickhouse]
    empty_source_fails [OF lx cx, of empty_clickhouse]
  show ?thesis by simp
qed

theorem create_table_orders_by_first_field_witness:
  "ch_log (snd (create_table empty_clickhouse (asc ''users'') demo_fields (asc ''accounts'')))
     = [demo_create]
   \<and> create_table empty_clickhouse (asc ''users'') [] (asc ''accounts'')
     = (Inl (PyExn Exception (msg_create_failed @ msg_no_fields)), empty_clickhouse)
   \<and> fst (build_fields ascii_lib (field_mappings demo_mapping)
            ((asc ''secret'', asc ''int'', []) # demo_cols)) = demo_fields
   \<and> migrate_prepared
        (demo_migrator\<lparr>mysql_client :=
           demo_mysql\<lparr>column_rows := (\<lambda>t. Inr [(asc ''secret'', asc ''int'', [])])\<rparr>\<rparr>)
        empty_clickhouse demo_mapping 3
     = (Inl (PyExn Exception (msg_create_failed @ msg_no_fields)), empty_clickhouse)
   \<and> (\<exists>m. ch_log (snd (migrate_prepared demo_migrator empty_clickhouse demo_mapping 3))
          = demo_create # m)"
proof -
  let ?D = "demo_migrator\<lparr>mysql_client :=
           demo_mysql\<lparr>column_rows := (\<lambda>t. Inr [(asc ''secret'', asc ''int'', [])])\<rparr>\<rparr>"
  have c: "column_rows (mysql_client ?D) (mysql_table demo_mapping) = Inr [(asc ''secret'', asc ''int'', [])]"
    by simp
  have b: "fst (build_fields (lib ?D) (field_mappings demo_mapping) [(asc ''secret'', asc ''int'', [])]) = []"
    by (simp add: build_fields_def field_step_def demo_mapping_def asc_def)
  have e: "ch_log empty_clickhouse = []" by (simp add: empty_clickhouse_def)
  have m: "concat (map (\<lambda>col. case map_of (field_mappings demo_mapping) (fst col) of
                              None \<Rightarrow> []
                            | Some (n, ty) \<Rightarrow>
                                [(n, map_mysql_type_to_clickhouse ascii_lib (fst (snd col)), snd (snd col))])
                  ((asc ''secret'', asc ''int'', []) # demo_cols)) = demo_fields"
    by (simp add: demo_cols_def demo_mapping_def demo_map_types) (simp add: asc_def demo_fields_def)
  note T1 = create_table_orders_by_first_field [of demo_fields empty_clickhouse "asc ''users''"
      "asc ''accounts''" ascii_lib "field_mappings demo_mapping"
      "(asc ''secret'', asc ''int'', []) # demo_cols" ?D demo_mapping 3]
  note T2 = create_table_orders_by_first_field [of "[]" empty_clickhouse "asc ''users''"
      "asc ''accounts''" "lib ?D" "field_mappings demo_mapping"
      "[(asc ''secret'', asc ''int'', [])]" ?D demo_mapping 3]
  from T1 demo_fields_hd have 1: "ch_log (snd (create_table empty_clickhouse (asc ''users'')
      demo_fields (asc ''accounts''))) = [demo_create]"
    by (simp add: e demo_create_def)
  from T1 m have 3: "fst (build_fields ascii_lib (field_mappings demo_mapping)
            ((asc ''secret'', asc ''int'', []) # demo_cols)) = demo_fields"
    by simp
  from T2 have 2: "create_table empty_clickhouse (asc ''users'') [] (asc ''accounts'')
     = (Inl (PyExn Exception (msg_create_failed @ msg_no_fields)), empty_clickhouse)"
    by simp
  from T2 c b have 4: "migrate_prepared ?D empty_clickhouse demo_mapping 3
     = (Inl (PyExn Exception (msg_create_failed @ msg_no_fields)), empty_clickhouse)"
    by blast
  note T3 = create_table_orders_by_first_field [of "[]" empty_clickhouse "asc ''users''"
      "asc ''accounts''" ascii_lib "field_mappings demo_mapping" demo_cols demo_migrator
      demo_mapping 3]
  have c5: "column_rows (mysql_client demo_migrator) (mysql_table demo_mapping) = Inr demo_cols
      \<and> fst (build_fields (lib demo_migrator) (field_mappings demo_mapping) demo_cols) \<noteq> []"
    by (simp add: demo_migrator_fields demo_mapping_fields demo_mysql_users demo_build
        demo_fields_def)
  from T3 c5 have "\<exists>m. ch_log (snd (migrate_prepared demo_migrator empty_clickhouse demo_mapping 3)) =
       ch_log empty_clickhouse @ CreateTable
         \<lparr>cs_table = clickhouse_table demo_mapping,
          cs_field_definitions = map field_definition
            (fst (build_fields (lib demo_migrator) (field_mappings demo_mapping) demo_cols)),
          cs_order_by = fst (hd (fst (build_fields (lib demo_migrator)
            (field_mappings demo_mapping) demo_cols))),
          cs_table_comment = get_table_comment (mysql_client demo_migrator)
            (mysql_table demo_mapping)\<rparr> # m"
    by blast
  then have 5: "\<exists>m. ch_log (snd (migrate_prepared demo_migrator empty_clickhouse demo_mapping 3))
      = demo_create # m"
    by (simp add: e demo_migrator_fields demo_mapping_fields demo_mysql_users demo_build
        demo_fields_hd demo_create_def)
  from 1 2 3 4 5 show ?thesis by blast
qed

theorem completed_stream_is_verified_witness:
  "fst (migrate_table (demo_migrator\<lparr>mysql_client := demo_mysql\<lparr>count_rows := (\<lambda>t. Inr 5)\<rparr>\<rparr>)
         empty_clickhouse (asc ''maps/users-users.csv'')) =
     \<lparr>table_mapping = Some demo_mapping, success = True, mysql_rows = 5, clickhouse_rows = 3,
      error_message = []\<rparr>
   \<and> ch_log (snd (migrate_table
         (demo_migrator\<lparr>mysql_client := demo_mysql\<lparr>count_rows := (\<lambda>t. Inr 5)\<rparr>\<rparr>)
         empty_clickhouse (asc ''maps/users-users.csv''))) =
     [ExistsTable (asc ''users''), demo_create,
      InsertRows (asc ''users'') demo_names (take 2 demo_processed),
      InsertRows (asc ''users'') demo_names (drop 2 demo_processed),
      CountRows (asc ''users'')]"
proof -
  let ?M = "demo_mysql\<lparr>count_rows := (\<lambda>t. Inr 5)\<rparr>"
  let ?D = "demo_migrator\<lparr>mysql_client := ?M\<rparr>"
  let ?f = "asc ''maps/users-users.csv''"
  let ?S0 = "empty_clickhouse\<lparr>ch_log := [ExistsTable (asc ''users'')]\<rparr>"
  let ?S1 = "empty_clickhouse\<lparr>ch_tables := [asc ''users'' \<mapsto> []],
                ch_log := [ExistsTable (asc ''users''), demo_create]\<rparr>"
  let ?S2 = "empty_clickhouse\<lparr>ch_tables := [asc ''users'' \<mapsto> demo_processed],
                ch_log := [ExistsTable (asc ''users''), demo_create,
                  InsertRows (asc ''users'') demo_names (take 2 demo_processed),
                  InsertRows (asc ''users'') demo_names (drop 2 demo_processed)]\<rparr>"
  have D: "lib ?D = ascii_lib" "mysql_client ?D = ?M" "csv_loader ?D = demo_files"
    "batch_size ?D = 2" "skip_existing ?D = False"
    by (simp_all add: demo_migrator_fields)
  have M: "count_rows ?M (asc ''users'') = Inr 5" "column_rows ?M (asc ''users'') = Inr demo_cols"
    "select_rows ?M (asc ''users'') = Inr demo_rows"
    "get_table_comment ?M (asc ''users'') = asc ''accounts''"
    using demo_mysql_users by (simp_all add: get_table_comment_def)
  have h1: "load_csv_mapping (csv_loader ?D) ?f = Inr demo_mapping"
    by (simp add: D demo_load)
  have h2: "count_rows (mysql_client ?D) (mysql_table demo_mapping) = Inr 5"
    by (simp only: D demo_mapping_fields M)
  have h3: "(5::int) \<noteq> 0" by simp
  have h4: "\<not> (fst (table_exists empty_clickhouse (clickhouse_table demo_mapping)) \<and> skip_existing ?D)"
    by (simp add: D)
  have h5: "column_rows (mysql_client ?D) (mysql_table demo_mapping) = Inr demo_cols"
    by (simp only: D demo_mapping_fields M)
  have cr: "create_table (prepared_state ?D empty_clickhouse demo_mapping)
        (clickhouse_table demo_mapping)
        (fst (build_fields (lib ?D) (field_mappings demo_mapping) demo_cols))
        (get_table_comment (mysql_client ?D) (mysql_table demo_mapping)) = (Inr (), ?S1)"
    by (simp only: D demo_mapping_fields M demo_prepared0 demo_build fst_conv demo_created0)
  have st: "stream_table ?D ?S1 demo_mapping demo_cols
        (snd (build_fields (lib ?D) (field_mappings demo_mapping) demo_cols)) = (Inr 3, ?S2)"
    unfolding D(1) demo_build snd_conv
    by (rule demo_streamed [OF D(1) D(2) M(1) M(3) D(4)])
  have h6: "fst (create_table (prepared_state ?D empty_clickhouse demo_mapping)
        (clickhouse_table demo_mapping)
        (fst (build_fields (lib ?D) (field_mappings demo_mapping) demo_cols))
        (get_table_comment (mysql_client ?D) (mysql_table demo_mapping))) = Inr ()"
    by (simp only: cr fst_conv)
  have h7: "fst (stream_table ?D
        (snd (create_table (prepared_state ?D empty_clickhouse demo_mapping)
          (clickhouse_table demo_mapping)
          (fst (build_fields (lib ?D) (field_mappings demo_mapping) demo_cols))
          (get_table_comment (mysql_client ?D) (mysql_table demo_mapping))))
        demo_mapping demo_cols
        (snd (build_fields (lib ?D) (field_mappings demo_mapping) demo_cols))) = Inr 3"
    by (simp only: cr snd_conv st fst_conv)
  note T = completed_stream_is_verified [OF h1 h2 h3 h4 h5 h6 h7]
  have cnt: "fst (ch_get_table_row_count ?S2 (asc ''users'')) = 3"
    by (simp only: demo_counted fst_conv)
  have lg: "ch_log ?S2 = [ExistsTable (asc ''users''), demo_create,
      InsertRows (asc ''users'') demo_names (take 2 demo_processed),
      InsertRows (asc ''users'') demo_names (drop 2 demo_processed)]"
    by simp
  note T' = T [unfolded cr, unfolded snd_conv, unfolded st, unfolded snd_conv demo_mapping_fields,
      unfolded cnt lg]
  from T' show ?thesis by (simp add: demo_counted)
qed

text \<open>
  The scenario of a rejected batch: the table \<open>users\<close> holds one row, and the server
  rejects every insert that holds a given row of the batch.
\<close>

lemma after_retries_fault: "ch_fault (after_retries C t names P k) = ch_fault C"
  by (simp add: after_retries_def)

lemma after_retries_table:
  "ch_tables C t = Some old \<Longrightarrow> ch_tables (after_retries C t names P k) t = Some (old @ take k P)"
  by (simp add: after_retries_def)

lemma rejects_row_single:
  assumes "ch_fault X = rejects_row bad" "ch_tables X t = Some old"
  shows "fst (execute X (InsertRows t names [r])) =
     (if r = bad then Inl (server_error ''Cannot parse input'') else Inr 0)"
  using assms by (simp add: execute_def run_stmt_def rejects_row_def Let_def)

lemma rejects_row_retry:
  assumes "ch_fault C = rejects_row bad" "ch_tables C t = Some old"
  shows "fst (execute (after_retries C t names P k) (InsertRows t names [r])) =
     (if r = bad then Inl (server_error ''Cannot parse input'') else Inr 0)"
  by (rule rejects_row_single [OF _ after_retries_table [OF assms(2)]])
    (simp add: after_retries_fault assms(1))

lemma demo_processed_rows:
  "length demo_processed = 3"
  "demo_processed ! 0 \<noteq> demo_processed ! 2" "demo_processed ! 1 \<noteq> demo_processed ! 2"
  "demo_processed ! 1 \<noteq> demo_processed ! 0"
  "demo_processed ! 1 \<in> set demo_processed" "demo_processed ! 0 \<in> set demo_processed"
  "demo_processed ! Suc 0 \<noteq> demo_processed ! 2" "demo_processed ! Suc 0 \<noteq> demo_processed ! 0"
  by (simp_all add: demo_processed_def asc_def)

lemma less_two: "(\<forall>k<2. Q k) \<longleftrightarrow> Q 0 \<and> Q (1::nat)"
  by (auto simp: numeral_2_eq_2 less_Suc_eq)

theorem rejected_batch_leaves_retried_rows_witness:
  "fst (execute
      (empty_clickhouse\<lparr>ch_tables := [asc ''users'' \<mapsto> [[PyInt 0]]],
         ch_fault := rejects_row (demo_processed ! 2)\<rparr>)
      (InsertRows (asc ''users'') demo_names
         (process_rows ascii_lib demo_names demo_types demo_rows))) =
     Inl (server_error ''Cannot parse input'')
   \<and> ch_tables
      (empty_clickhouse\<lparr>ch_tables := [asc ''users'' \<mapsto> [[PyInt 0]]],
         ch_fault := rejects_row (demo_processed ! 2)\<rparr>) (asc ''users'') = Some [[PyInt 0]]
   \<and> isl (fst (insert_batch ascii_lib
      (empty_clickhouse\<lparr>ch_tables := [asc ''users'' \<mapsto> [[PyInt 0]]],
         ch_fault := rejects_row (demo_processed ! 2)\<rparr>)
      (asc ''users'') demo_names demo_rows demo_types))
   \<and> ch_tables (snd (insert_batch ascii_lib
      (empty_clickhouse\<lparr>ch_tables := [asc ''users'' \<mapsto> [[PyInt 0]]],
         ch_fault := rejects_row (demo_processed ! 2)\<rparr>)
      (asc ''users'') demo_names demo_rows demo_types)) (asc ''users'') =
     Some ([PyInt 0] # take 2 demo_processed)"
proof -
  let ?C = "empty_clickhouse\<lparr>ch_tables := [asc ''users'' \<mapsto> [[PyInt 0]]],
         ch_fault := rejects_row (demo_processed ! 2)\<rparr>"
  have f: "ch_fault ?C = rejects_row (demo_processed ! 2)"
    and t: "ch_tables ?C (asc ''users'') = Some [[PyInt 0]]"
    by simp_all
  have h: "fst (execute ?C (InsertRows (asc ''users'') demo_names
            (process_rows ascii_lib demo_names demo_types demo_rows))) =
          Inl (server_error ''Cannot parse input'')"
    unfolding demo_process by (rule demo_rejected [OF f])
  note T = rejected_batch_leaves_retried_rows [OF h t, where a = 2,
      unfolded demo_process demo_bad_row(3)]
  have a: "2 \<le> length demo_processed" by (simp add: demo_processed_rows)
  have acc: "\<forall>k<2. \<not> isl (fst (execute (after_retries ?C (asc ''users'') demo_names demo_processed k)
      (InsertRows (asc ''users'') demo_names [demo_processed ! k])))"
    unfolding less_two by (simp add: rejects_row_retry [OF f t] demo_processed_rows)
  have stop: "2 < length demo_processed \<longrightarrow>
      isl (fst (execute (after_retries ?C (asc ''users'') demo_names demo_processed 2)
      (InsertRows (asc ''users'') demo_names [demo_processed ! 2])))"
    by (simp add: rejects_row_retry [OF f t])
  from T a acc stop have "ch_tables (snd (insert_batch ascii_lib ?C (asc ''users'') demo_names
      demo_rows demo_types)) = (ch_tables ?C)(asc ''users'' \<mapsto> [[PyInt 0]] @ take 2 demo_processed)"
    by blast
  then have 1: "ch_tables (snd (insert_batch ascii_lib ?C (asc ''users'') demo_names
      demo_rows demo_types)) (asc ''users'') = Some ([PyInt 0] # take 2 demo_processed)"
    by simp
  from T have 2: "isl (fst (insert_batch ascii_lib ?C (asc ''users'') demo_names demo_rows demo_types))"
    by blast
  from h t 1 2 show ?thesis by blast
qed

text \<open>
  The claim as stated fails: when the server rejects the first row of the batch, the
  second row, which the server accepts on its own before and after the call, is not
  tried, and the table holds no row of the batch after the error.
\<close>

theorem retry_stops_at_rejected_row_counterexample:
  "isl (fst (insert_batch ascii_lib
      (empty_clickhouse\<lparr>ch_tables := [asc ''users'' \<mapsto> [[PyInt 0]]],
         ch_fault := rejects_row (demo_processed ! 0)\<rparr>)
      (asc ''users'') demo_names demo_rows demo_types))
   \<and> process_rows ascii_lib demo_names demo_types demo_rows ! 1 = demo_processed ! 1
   \<and> fst (execute
      (empty_clickhouse\<lparr>ch_tables := [asc ''users'' \<mapsto> [[PyInt 0]]],
         ch_fault := rejects_row (demo_processed ! 0)\<rparr>)
      (InsertRows (asc ''users'') demo_names [demo_processed ! 1])) = Inr 0
   \<and> fst (execute
      (snd (insert_batch ascii_lib
        (empty_clickhouse\<lparr>ch_tables := [asc ''users'' \<mapsto> [[PyInt 0]]],
           ch_fault := rejects_row (demo_processed ! 0)\<rparr>)
        (asc ''users'') demo_names demo_rows demo_types))
      (InsertRows (asc ''users'') demo_names [demo_processed ! 1])) = Inr 0
   \<and> ch_tables (snd (insert_batch ascii_lib
      (empty_clickhouse\<lparr>ch_tables := [asc ''users'' \<mapsto> [[PyInt 0]]],
         ch_fault := rejects_row (demo_processed ! 0)\<rparr>)
      (asc ''users'') demo_names demo_rows demo_types)) (asc ''users'') = Some [[PyInt 0]]"
proof -
  let ?C = "empty_clickhouse\<lparr>ch_tables := [asc ''users'' \<mapsto> [[PyInt 0]]],
         ch_fault := rejects_row (demo_processed ! 0)\<rparr>"
  let ?R = "insert_batch ascii_lib ?C (asc ''users'') demo_names demo_rows demo_types"
  have f: "ch_fault ?C = rejects_row (demo_processed ! 0)"
    and t: "ch_tables ?C (asc ''users'') = Some [[PyInt 0]]"
    by simp_all
  have h: "fst (execute ?C (InsertRows (asc ''users'') demo_names
            (process_rows ascii_lib demo_names demo_types demo_rows))) =
          Inl (server_error ''Cannot parse input'')"
    unfolding demo_process using demo_processed_rows(6)
    by (simp add: execute_def rejects_row_def Let_def)
  have stop: "0 < length (take 5 (process_rows ascii_lib demo_names demo_types demo_rows)) \<longrightarrow>
      fst (execute (after_retries ?C (asc ''users'') demo_names
             (process_rows ascii_lib demo_names demo_types demo_rows) 0)
        (InsertRows (asc ''users'') demo_names
           [process_rows ascii_lib demo_names demo_types demo_rows ! 0])) =
      Inl (server_error ''Cannot parse input'')"
    unfolding demo_process by (simp add: rejects_row_retry [OF f t])
  have R: "?R = (Inl (PyExn Exception (msg_insert_failed @ msg_insert_failed
        @ exn_msg (server_error ''Cannot parse input''))),
      retry_outcome ?C (asc ''users'') demo_names demo_processed 0
        (Some (server_error ''Cannot parse input'')))"
    using insert_batch_rejected_exact [OF h _ _ stop]
    by (simp add: demo_process demo_bad_row(3) demo_processed_rows)
  have 1: "isl (fst ?R)" unfolding R by simp
  have 2: "fst (execute ?C (InsertRows (asc ''users'') demo_names [demo_processed ! 1])) = Inr 0"
    by (simp add: rejects_row_single [OF f t] demo_processed_rows)
  have f': "ch_fault (snd ?R) = rejects_row (demo_processed ! 0)"
    and t': "ch_tables (snd ?R) (asc ''users'') = Some [[PyInt 0]]"
    unfolding R by (simp_all add: retry_outcome_def after_retries_def)
  have 3: "fst (execute (snd ?R) (InsertRows (asc ''users'') demo_names [demo_processed ! 1])) = Inr 0"
    by (simp add: rejects_row_single [OF f' t'] demo_processed_rows)
  from 1 2 3 t' show ?thesis by (simp add: demo_process)
qed

text \<open>
  The scenario of a rejected batch in a migration: the source table \<open>users\<close> is read in
  one batch, and the server rejects every insert that holds the third row.
\<close>

lemma demo_create_executed:
  assumes "F [ExistsTable (asc ''users'')] demo_create = None"
  shows "execute (empty_clickhouse\<lparr>ch_log := [ExistsTable (asc ''users'')], ch_fault := F\<rparr>) demo_create =
     (Inr 0, empty_clickhouse\<lparr>ch_tables := [asc ''users'' \<mapsto> []],
                ch_log := [ExistsTable (asc ''users''), demo_create], ch_fault := F\<rparr>)"
  using assms by (simp add: execute_def run_stmt_def empty_clickhouse_def demo_create_def)

lemma demo_create_statement:
  "CreateTable
     \<lparr>cs_table = asc ''users'', cs_field_definitions = map field_definition demo_fields,
      cs_order_by = asc ''id'', cs_table_comment = asc ''accounts''\<rparr> = demo_create"
  by (simp add: demo_create_def)

theorem rejected_batch_is_retried_and_raised_witness:
  "fst (execute
      (empty_clickhouse\<lparr>ch_tables := [asc ''users'' \<mapsto> []],
         ch_log := [ExistsTable (asc ''users''), demo_create],
         ch_fault := rejects_row (demo_processed ! 2)\<rparr>)
      (InsertRows (asc ''users'') demo_names
         (process_rows ascii_lib demo_names demo_types demo_rows))) =
     Inl (server_error ''Cannot parse input'')
   \<and> fst (insert_batch ascii_lib
      (empty_clickhouse\<lparr>ch_tables := [asc ''users'' \<mapsto> []],
         ch_log := [ExistsTable (asc ''users''), demo_create],
         ch_fault := rejects_row (demo_processed ! 2)\<rparr>)
      (asc ''users'') demo_names demo_rows demo_types) =
     Inl (PyExn Exception (msg_insert_failed @ msg_insert_failed @ asc ''Cannot parse input''))
   \<and> ch_log (snd (insert_batch ascii_lib
      (empty_clickhouse\<lparr>ch_tables := [asc ''users'' \<mapsto> []],
         ch_log := [ExistsTable (asc ''users''), demo_create],
         ch_fault := rejects_row (demo_processed ! 2)\<rparr>)
      (asc ''users'') demo_names demo_rows demo_types)) =
     [ExistsTable (asc ''users''), demo_create,
      InsertRows (asc ''users'') demo_names demo_processed,
      InsertRows (asc ''users'') demo_names [demo_processed ! 0],
      InsertRows (asc ''users'') demo_names [demo_processed ! 1],
      InsertRows (asc ''users'') demo_names [demo_processed ! 2]]
   \<and> ch_console (snd (insert_batch ascii_lib
      (empty_clickhouse\<lparr>ch_tables := [asc ''users'' \<mapsto> []],
         ch_log := [ExistsTable (asc ''users''), demo_create],
         ch_fault := rejects_row (demo_processed ! 2)\<rparr>)
      (asc ''users'') demo_names demo_rows demo_types)) =
     [RowInserted 1, RowInserted 2,
      RowRejected 3 (server_error ''Cannot parse input'') (demo_processed ! 2)]
   \<and> migrate_table (demo_migrator\<lparr>batch_size := 5\<rparr>)
        (empty_clickhouse\<lparr>ch_fault := rejects_row (demo_processed ! 2)\<rparr>)
        (asc ''maps/users-users.csv'') =
       (\<lparr>table_mapping = Some demo_mapping, success = False, mysql_rows = 0, clickhouse_rows = 0,
         error_message = msg_insert_failed @ msg_insert_failed @ asc ''Cannot parse input''\<rparr>,
        snd (insert_batch ascii_lib
          (empty_clickhouse\<lparr>ch_tables := [asc ''users'' \<mapsto> []],
             ch_log := [ExistsTable (asc ''users''), demo_create],
             ch_fault := rejects_row (demo_processed ! 2)\<rparr>)
          (asc ''users'') demo_names demo_rows demo_types))"
proof -
  let ?D = "demo_migrator\<lparr>batch_size := 5\<rparr>"
  let ?C0 = "empty_clickhouse\<lparr>ch_fault := rejects_row (demo_processed ! 2)\<rparr>"
  let ?C1 = "empty_clickhouse\<lparr>ch_tables := [asc ''users'' \<mapsto> []],
      ch_log := [ExistsTable (asc ''users''), demo_create],
      ch_fault := rejects_row (demo_processed ! 2)\<rparr>"
  let ?f = "asc ''maps/users-users.csv''"
  let ?Fb = "build_fields (lib ?D) (field_mappings demo_mapping) demo_cols"
  let ?cs = "CreateTable
     \<lparr>cs_table = clickhouse_table demo_mapping,
      cs_field_definitions = map field_definition (fst ?Fb),
      cs_order_by = fst (hd (fst ?Fb)),
      cs_table_comment = get_table_comment (mysql_client ?D) (mysql_table demo_mapping)\<rparr>"
  let ?bs = "fetch_batches (batch_size ?D) demo_rows"
  let ?P = "process_rows ascii_lib demo_names demo_types demo_rows"
  let ?R = "insert_batch ascii_lib ?C1 (asc ''users'') demo_names demo_rows demo_types"
  let ?e = "server_error ''Cannot parse input''"
  have f: "ch_fault ?C1 = rejects_row (demo_processed ! 2)"
    and t: "ch_tables ?C1 (asc ''users'') = Some []"
    by simp_all
  have h: "fst (execute ?C1 (InsertRows (asc ''users'') demo_names ?P)) = Inl ?e"
    unfolding demo_process by (rule demo_rejected [OF f])
  note T = rejected_batch_is_retried_and_raised [OF h, where a = 2 and e' = ?e and D = ?D
      and tm = demo_mapping and cols = demo_cols and rows = demo_rows and f = ?f and n = 3
      and ?C0.0 = ?C0 and u = 0 and j = 0 and k = 0]
  have D: "lib ?D = ascii_lib" "mysql_client ?D = demo_mysql" "csv_loader ?D = demo_files"
    "batch_size ?D = 5" "skip_existing ?D = False"
    by (simp_all add: demo_migrator_fields)
  have Fb: "?Fb = (demo_fields, demo_final)" by (simp only: D demo_build)
  have cs: "?cs = demo_create"
    by (simp only: D demo_build fst_conv demo_mapping_fields demo_mysql_users demo_fields_hd
        demo_create_statement)
  have prep: "prepared_state ?D ?C0 demo_mapping =
      empty_clickhouse\<lparr>ch_log := [ExistsTable (asc ''users'')],
        ch_fault := rejects_row (demo_processed ! 2)\<rparr>"
    by (rule demo_prepared) (simp add: rejects_row_def)
  have ex: "execute (prepared_state ?D ?C0 demo_mapping) ?cs = (Inr 0, ?C1)"
    unfolding prep cs by (rule demo_create_executed) (simp add: rejects_row_def demo_create_def)
  have bs: "?bs = [demo_rows]" by (simp only: D demo_batches)
  have p1: "load_csv_mapping (csv_loader ?D) ?f = Inr demo_mapping"
    by (simp only: D demo_load)
  have p2: "count_rows (mysql_client ?D) (mysql_table demo_mapping) = Inr 3"
    by (simp only: D demo_mapping_fields demo_mysql_users)
  have p3: "(3::int) \<noteq> 0" by simp
  have p4: "\<not> (fst (table_exists ?C0 (clickhouse_table demo_mapping)) \<and> skip_existing ?D)"
    by (simp add: D)
  have p5: "column_rows (mysql_client ?D) (mysql_table demo_mapping) = Inr demo_cols"
    by (simp only: D demo_mapping_fields demo_mysql_users)
  have p6: "fst ?Fb \<noteq> []" by (simp add: demo_migrator_fields demo_build demo_fields_hd)
  have p7: "fst (execute (prepared_state ?D ?C0 demo_mapping) ?cs) = Inr 0"
    by (simp only: ex fst_conv)
  have p8: "select_rows (mysql_client ?D) (mysql_table demo_mapping) = Inr demo_rows"
    by (simp only: D demo_mapping_fields demo_mysql_users)
  have p9: "0 < length ?bs" by (simp only: bs) simp
  have p10: "migrate_batches ?D (snd (execute (prepared_state ?D ?C0 demo_mapping) ?cs))
      demo_mapping demo_cols (snd ?Fb) 0 (take 0 ?bs) = (Inr 0, ?C1)"
    by (simp only: ex snd_conv take_0 migrate_batches.simps)
  have p11: "map_rows (snd ?Fb) demo_cols (?bs ! 0) = Inr demo_rows"
    by (simp only: D demo_batches demo_build snd_conv nth_Cons_0 demo_map_rows_all)
  have p12: "lib ?D = ascii_lib" "clickhouse_table demo_mapping = asc ''users''"
    "mapped_names (snd ?Fb) demo_cols = demo_names" "mapped_types (snd ?Fb) demo_cols = demo_types"
    by (simp_all only: D demo_build snd_conv demo_mapping_fields demo_mapped)
  have a1: "2 \<le> length (take 5 ?P)"
    by (simp add: demo_process demo_processed_rows)
  have a2: "\<forall>k<2. \<not> isl (fst (execute (after_retries ?C1 (asc ''users'') demo_names ?P k)
      (InsertRows (asc ''users'') demo_names [?P ! k])))"
    unfolding less_two demo_process
    by (simp add: rejects_row_retry [OF f t] demo_processed_rows)
  have a3: "2 < length (take 5 ?P) \<longrightarrow>
      fst (execute (after_retries ?C1 (asc ''users'') demo_names ?P 2)
        (InsertRows (asc ''users'') demo_names [?P ! 2])) = Inl ?e"
    unfolding demo_process by (simp add: rejects_row_retry [OF f t])
  have m: "exn_msg ?e = asc ''Cannot parse input''" by (simp add: server_error_def)
  from T have "fst ?R = Inl (PyExn Exception (msg_insert_failed @ msg_insert_failed @ exn_msg ?e))"
    by blast
  then have 1: "fst ?R =
      Inl (PyExn Exception (msg_insert_failed @ msg_insert_failed @ asc ''Cannot parse input''))"
    by (simp only: m)
  from T a1 a2 a3 have "snd ?R = retry_outcome ?C1 (asc ''users'') demo_names ?P 2
      (if 2 < length (take 5 ?P) then Some ?e else None)"
    by blast
  then have s: "snd ?R = retry_outcome ?C1 (asc ''users'') demo_names demo_processed 2 (Some ?e)"
    by (simp add: demo_process demo_processed_rows)
  have tk: "take 2 demo_processed = [demo_processed ! 0, demo_processed ! 1]"
    by (simp add: demo_processed_def)
  have 2: "ch_log (snd ?R) =
     [ExistsTable (asc ''users''), demo_create,
      InsertRows (asc ''users'') demo_names demo_processed,
      InsertRows (asc ''users'') demo_names [demo_processed ! 0],
      InsertRows (asc ''users'') demo_names [demo_processed ! 1],
      InsertRows (asc ''users'') demo_names [demo_processed ! 2]]"
    unfolding s by (simp add: retry_outcome_def after_retries_def tk)
  have 3: "ch_console (snd ?R) =
     [RowInserted 1, RowInserted 2, RowRejected 3 ?e (demo_processed ! 2)]"
    unfolding s by (simp add: retry_outcome_def after_retries_def numeral_2_eq_2 empty_clickhouse_def)
  from T p1 p2 p3 p4 p5 p6 p7 p8 p9 p10 p11 p12
  have "migrate_table ?D ?C0 ?f =
       (\<lparr>table_mapping = Some demo_mapping, success = False, mysql_rows = 0, clickhouse_rows = 0,
         error_message = msg_insert_failed @ msg_insert_failed @ exn_msg ?e\<rparr>, snd ?R)"
    by blast
  then have 4: "migrate_table ?D ?C0 ?f =
       (\<lparr>table_mapping = Some demo_mapping, success = False, mysql_rows = 0, clickhouse_rows = 0,
         error_message = msg_insert_failed @ msg_insert_failed @ asc ''Cannot parse input''\<rparr>,
        snd ?R)"
    by (simp only: m)
  from h 1 2 3 4 show ?thesis by blast
qed

text \<open>The scenario of the mapping files: a file name without \<open>-\<close>, and complete runs.\<close>

lemma demo_bad_filename:
  "load_body demo_files (asc ''maps/users.csv'') =
     Inl (PyExn ValueError (msg_bad_filename @ asc ''users.csv''))"
  by (simp add: load_body_def basename_def asc_def)

lemma demo_listing:
  "listdir demo_files (asc ''maps'') = Inr [asc ''users-users.csv'', asc ''notes.txt'']"
  "filter (\<lambda>x. endswith x (asc ''.csv'')) [asc ''users-users.csv'', asc ''notes.txt'']
     = [asc ''users-users.csv'']"
  by (simp_all add: demo_files_def endswith_def asc_def)

lemma demo_paths:
  "path_join (asc ''maps'') (asc ''users.csv'') = asc ''maps/users.csv''"
  "path_join (asc ''maps'') (asc ''users-users.csv'') = asc ''maps/users-users.csv''"
  by (simp_all add: path_join_def startswith_def asc_def)

lemma rejects_create_execute:
  "ch_fault X = rejects_create \<Longrightarrow>
     fst (execute X (CreateTable cs)) = Inl (server_error ''Unknown data type'')"
  by (simp add: execute_def rejects_create_def Let_def)

lemma demo_created_any:
  "create_table (empty_clickhouse\<lparr>ch_log := [ExistsTable (asc ''users'')]\<rparr>)
       (asc ''users'') demo_fields cm =
     (Inr (), empty_clickhouse\<lparr>ch_tables := [asc ''users'' \<mapsto> []],
                ch_log := [ExistsTable (asc ''users''), CreateTable
                  \<lparr>cs_table = asc ''users'', cs_field_definitions = map field_definition demo_fields,
                   cs_order_by = asc ''id'', cs_table_comment = cm\<rparr>]\<rparr>)"
  unfolding create_table_nonempty [OF demo_fields_hd(1)] demo_fields_hd(2)
  by (simp add: execute_def run_stmt_def empty_clickhouse_def)

lemma demo_streamed_any:
  assumes "lib D = ascii_lib" "mysql_client D = M"
    and "count_rows M (asc ''users'') = Inr n"
    and "select_rows M (asc ''users'') = Inr demo_rows" "batch_size D = 2"
  shows "stream_table D
      (empty_clickhouse\<lparr>ch_tables := [asc ''users'' \<mapsto> []], ch_log := sent\<rparr>)
      demo_mapping demo_cols demo_final =
    (Inr 3, empty_clickhouse\<lparr>ch_tables := [asc ''users'' \<mapsto> demo_processed],
                ch_log := sent @
                  [InsertRows (asc ''users'') demo_names (take 2 demo_processed),
                   InsertRows (asc ''users'') demo_names (drop 2 demo_processed)]\<rparr>)"
proof -
  have l: "length demo_rows = 3"
    by (simp add: demo_rows_def)
  show ?thesis
    unfolding stream_table_def get_table_data_def assms demo_mapping_fields
    by (simp add: demo_batches demo_map_rows_all demo_mapped insert_batch_def assms
        demo_mapping_fields process_rows_take demo_process l execute_def run_stmt_def
        empty_clickhouse_def Let_def)
qed

lemma demo_run_any:
  assumes D: "lib D = ascii_lib" "mysql_client D = M" "csv_loader D = demo_files"
      "batch_size D = 2" "skip_existing D = False"
    and M: "count_rows M (asc ''users'') = Inr n" "n \<noteq> 0"
      "column_rows M (asc ''users'') = Inr demo_cols" "select_rows M (asc ''users'') = Inr demo_rows"
  shows "fst (migrate_table D empty_clickhouse (asc ''maps/users-users.csv'')) =
     \<lparr>table_mapping = Some demo_mapping, success = True, mysql_rows = n, clickhouse_rows = 3,
      error_message = []\<rparr>"
proof -
  let ?f = "asc ''maps/users-users.csv''"
  let ?cm = "get_table_comment M (asc ''users'')"
  let ?sent = "[ExistsTable (asc ''users''), CreateTable
       \<lparr>cs_table = asc ''users'', cs_field_definitions = map field_definition demo_fields,
        cs_order_by = asc ''id'', cs_table_comment = ?cm\<rparr>]"
  let ?S1 = "empty_clickhouse\<lparr>ch_tables := [asc ''users'' \<mapsto> []], ch_log := ?sent\<rparr>"
  let ?S2 = "empty_clickhouse\<lparr>ch_tables := [asc ''users'' \<mapsto> demo_processed],
      ch_log := ?sent @
        [InsertRows (asc ''users'') demo_names (take 2 demo_processed),
         InsertRows (asc ''users'') demo_names (drop 2 demo_processed)]\<rparr>"
  have p: "load_csv_mapping (csv_loader D) ?f = Inr demo_mapping"
    "count_rows (mysql_client D) (mysql_table demo_mapping) = Inr n" "n \<noteq> 0"
    "\<not> (fst (table_exists empty_clickhouse (clickhouse_table demo_mapping)) \<and> skip_existing D)"
    by (simp_all add: D M demo_load demo_mapping_fields)
  have c: "column_rows (mysql_client D) (mysql_table demo_mapping) = Inr demo_cols"
    by (simp add: D M demo_mapping_fields)
  have cr: "create_table (prepared_state D empty_clickhouse demo_mapping)
        (clickhouse_table demo_mapping)
        (fst (build_fields (lib D) (field_mappings demo_mapping) demo_cols))
        (get_table_comment (mysql_client D) (mysql_table demo_mapping)) = (Inr (), ?S1)"
    by (simp only: D demo_mapping_fields demo_prepared0 demo_build fst_conv demo_created_any)
  have st: "stream_table D ?S1 demo_mapping demo_cols
        (snd (build_fields (lib D) (field_mappings demo_mapping) demo_cols)) = (Inr 3, ?S2)"
    unfolding D(1) demo_build snd_conv
    by (rule demo_streamed_any [OF D(1) D(2) M(1) M(4) D(4)])
  show ?thesis
    by (simp add: migrate_table_prepared [OF p] migrate_prepared_streamed [OF c cr st]
        demo_mapping_fields demo_counted)
qed


text \<open>
  A run over two mapping files, the first with a bad name; the listing of the directory;
  and one scenario for each failure: of the loader, of the count, comment and column
  queries, of a mapping without a column of the table, of a rejected create statement,
  of the query for the rows and of a rejected batch.
\<close>

theorem table_errors_become_failed_results_witness:
  "length (fst (migrate_files demo_migrator empty_clickhouse (asc ''maps'')
      [asc ''users.csv'', asc ''users-users.csv''])) = 2
   \<and> fst (migrate_files demo_migrator empty_clickhouse (asc ''maps'')
        [asc ''users.csv'', asc ''users-users.csv'']) ! 0 =
       \<lparr>table_mapping = None, success = False, mysql_rows = 0, clickhouse_rows = 0,
        error_message = msg_load_failed @ asc ''maps/users.csv'' @ [58, 32]
          @ msg_bad_filename @ asc ''users.csv''\<rparr>
   \<and> fst (migrate_files demo_migrator empty_clickhouse (asc ''maps'')
        [asc ''users.csv'', asc ''users-users.csv'']) ! 1 =
       \<lparr>table_mapping = Some demo_mapping, success = True, mysql_rows = 3, clickhouse_rows = 3,
        error_message = []\<rparr>
   \<and> fst (migrate_all_tables demo_migrator empty_clickhouse (asc ''maps'')) =
       Inr [\<lparr>table_mapping = Some demo_mapping, success = True, mysql_rows = 3,
             clickhouse_rows = 3, error_message = []\<rparr>]
   \<and> migrate_table demo_migrator empty_clickhouse (asc ''maps/users.csv'') =
       (\<lparr>table_mapping = None, success = False, mysql_rows = 0, clickhouse_rows = 0,
         error_message = msg_load_failed @ asc ''maps/users.csv'' @ [58, 32]
           @ msg_bad_filename @ asc ''users.csv''\<rparr>, empty_clickhouse)
   \<and> migrate_table
        (demo_migrator\<lparr>mysql_client :=
           demo_mysql\<lparr>count_rows := (\<lambda>t. Inl (server_error ''Access denied''))\<rparr>\<rparr>)
        empty_clickhouse (asc ''maps/users-users.csv'') =
       (\<lparr>table_mapping = Some demo_mapping, success = False, mysql_rows = 0, clickhouse_rows = 0,
         error_message = msg_absent_or_empty\<rparr>, empty_clickhouse)
   \<and> get_table_comment (demo_mysql\<lparr>comment_row := (\<lambda>t. Inl (server_error ''Access denied''))\<rparr>)
        (asc ''users'') = []
   \<and> fst (migrate_table
        (demo_migrator\<lparr>mysql_client :=
           demo_mysql\<lparr>column_rows := (\<lambda>t. Inl (server_error ''Access denied''))\<rparr>\<rparr>)
        empty_clickhouse (asc ''maps/users-users.csv'')) =
       \<lparr>table_mapping = Some demo_mapping, success = False, mysql_rows = 0, clickhouse_rows = 0,
        error_message = msg_structure_failed @ asc ''Access denied''\<rparr>
   \<and> fst (migrate_table
        (demo_migrator\<lparr>mysql_client :=
           demo_mysql\<lparr>column_rows := (\<lambda>t. Inr [(asc ''secret'', asc ''int'', [])])\<rparr>\<rparr>)
        empty_clickhouse (asc ''maps/users-users.csv'')) =
       \<lparr>table_mapping = Some demo_mapping, success = False, mysql_rows = 0, clickhouse_rows = 0,
        error_message = msg_create_failed @ msg_no_fields\<rparr>
   \<and> fst (migrate_table demo_migrator (empty_clickhouse\<lparr>ch_fault := rejects_create\<rparr>)
        (asc ''maps/users-users.csv'')) =
       \<lparr>table_mapping = Some demo_mapping, success = False, mysql_rows = 0, clickhouse_rows = 0,
        error_message = msg_create_failed @ asc ''Unknown data type''\<rparr>
   \<and> fst (migrate_table
        (demo_migrator\<lparr>mysql_client :=
           demo_mysql\<lparr>select_rows := (\<lambda>t. Inl (server_error ''Lost connection''))\<rparr>\<rparr>)
        empty_clickhouse (asc ''maps/users-users.csv'')) =
       \<lparr>table_mapping = Some demo_mapping, success = False, mysql_rows = 0, clickhouse_rows = 0,
        error_message = msg_read_failed @ asc ''Lost connection''\<rparr>
   \<and> fst (migrate_table (demo_migrator\<lparr>batch_size := 5\<rparr>)
        (empty_clickhouse\<lparr>ch_fault := rejects_row (demo_processed ! 2)\<rparr>)
        (asc ''maps/users-users.csv'')) =
       \<lparr>table_mapping = Some demo_mapping, success = False, mysql_rows = 0, clickhouse_rows = 0,
        error_message = msg_insert_failed @ msg_insert_failed @ asc ''Cannot parse input''\<rparr>"
proof -
  let ?f = "asc ''maps/users-users.csv''"
  let ?g = "asc ''maps/users.csv''"
  let ?fs = "[asc ''users.csv'', asc ''users-users.csv'']"
  let ?ls = "[asc ''users-users.csv'', asc ''notes.txt'']"
  let ?bad = "PyExn ValueError (msg_bad_filename @ asc ''users.csv'')"
  let ?ok = "\<lparr>table_mapping = Some demo_mapping, success = True, mysql_rows = 3,
      clickhouse_rows = 3, error_message = []\<rparr>"
  have msg: "exn_msg (server_error m) = asc m" for m by (simp add: server_error_def)
  have run: "fst (migrate_table demo_migrator empty_clickhouse ?f) = ?ok"
    by (rule demo_run_any [OF demo_migrator_fields(1) demo_migrator_fields(2)
          demo_migrator_fields(3) demo_migrator_fields(4) demo_migrator_fields(6)
          demo_mysql_users(1) _ demo_mysql_users(2) demo_mysql_users(3)]) simp
  note TA = table_errors_become_failed_results [where D = demo_migrator and C = empty_clickhouse and f = ?g and tm = demo_mapping
      and n = 3 and cols = demo_cols and rows = demo_rows and dir = "asc ''maps''" and fs = ?fs
      and listing = ?ls and e = ?bad and u = 0 and j = 0 and k = 0
      and Cj = empty_clickhouse and batch = "[]"]
  have b: "load_body (csv_loader demo_migrator) ?g = Inl ?bad"
    by (simp add: demo_migrator_fields demo_bad_filename)
  from TA b have "migrate_table demo_migrator empty_clickhouse ?g =
       (\<lparr>table_mapping = None, success = False, mysql_rows = 0, clickhouse_rows = 0,
         error_message = msg_load_failed @ ?g @ [58, 32] @ exn_msg ?bad\<rparr>, empty_clickhouse)"
    by blast
  then have 5: "migrate_table demo_migrator empty_clickhouse ?g =
       (\<lparr>table_mapping = None, success = False, mysql_rows = 0, clickhouse_rows = 0,
         error_message = msg_load_failed @ ?g @ [58, 32] @ msg_bad_filename @ asc ''users.csv''\<rparr>,
        empty_clickhouse)"
    by (simp only: pyexn.sel)
  from TA have "length (fst (migrate_files demo_migrator empty_clickhouse (asc ''maps'') ?fs)) =
      length ?fs"
    by blast
  then have 1: "length (fst (migrate_files demo_migrator empty_clickhouse (asc ''maps'') ?fs)) = 2"
    by (simp only: list.size)
  from TA have nth: "\<forall>i<length ?fs.
       fst (migrate_files demo_migrator empty_clickhouse (asc ''maps'') ?fs) ! i =
       fst (migrate_table demo_migrator
             (snd (migrate_files demo_migrator empty_clickhouse (asc ''maps'') (take i ?fs)))
             (path_join (asc ''maps'') (?fs ! i)))"
    by blast
  have first: "snd (migrate_files demo_migrator empty_clickhouse (asc ''maps'') (take (Suc 0) ?fs)) =
      empty_clickhouse"
    by (simp add: demo_paths 5)
  from nth have "fst (migrate_files demo_migrator empty_clickhouse (asc ''maps'') ?fs) ! 0 =
       fst (migrate_table demo_migrator
             (snd (migrate_files demo_migrator empty_clickhouse (asc ''maps'') (take 0 ?fs)))
             (path_join (asc ''maps'') (?fs ! 0)))"
    by (rule allE [of _ 0]) simp
  then have 2: "fst (migrate_files demo_migrator empty_clickhouse (asc ''maps'') ?fs) ! 0 =
       \<lparr>table_mapping = None, success = False, mysql_rows = 0, clickhouse_rows = 0,
        error_message = msg_load_failed @ ?g @ [58, 32] @ msg_bad_filename @ asc ''users.csv''\<rparr>"
    by (simp only: take_0 migrate_files.simps snd_conv nth_Cons_0 demo_paths 5 fst_conv)
  from nth have "fst (migrate_files demo_migrator empty_clickhouse (asc ''maps'') ?fs) ! 1 =
       fst (migrate_table demo_migrator
             (snd (migrate_files demo_migrator empty_clickhouse (asc ''maps'') (take 1 ?fs)))
             (path_join (asc ''maps'') (?fs ! 1)))"
    by (rule allE [of _ 1]) simp
  then have 3: "fst (migrate_files demo_migrator empty_clickhouse (asc ''maps'') ?fs) ! 1 = ?ok"
    by (simp only: One_nat_def nth_Cons_Suc nth_Cons_0 demo_paths first run)
  have l: "listdir (csv_loader demo_migrator) (asc ''maps'') = Inr ?ls"
    by (simp add: demo_migrator_fields demo_listing)
  from TA l have "migrate_all_tables demo_migrator empty_clickhouse (asc ''maps'') =
       (Inr (fst (migrate_files demo_migrator empty_clickhouse (asc ''maps'')
               (filter (\<lambda>x. endswith x (asc ''.csv'')) ?ls))),
        snd (migrate_files demo_migrator empty_clickhouse (asc ''maps'')
               (filter (\<lambda>x. endswith x (asc ''.csv'')) ?ls)))"
    by blast
  moreover have "fst (migrate_files demo_migrator empty_clickhouse (asc ''maps'')
      [asc ''users-users.csv'']) = [fst (migrate_table demo_migrator empty_clickhouse ?f)]"
    by (simp add: demo_paths split: prod.splits)
  ultimately have 4: "fst (migrate_all_tables demo_migrator empty_clickhouse (asc ''maps'')) = Inr [?ok]"
    by (simp only: demo_listing(2) fst_conv run)
  have 6: "migrate_table
        (demo_migrator\<lparr>mysql_client :=
           demo_mysql\<lparr>count_rows := (\<lambda>t. Inl (server_error ''Access denied''))\<rparr>\<rparr>)
        empty_clickhouse ?f =
       (\<lparr>table_mapping = Some demo_mapping, success = False, mysql_rows = 0, clickhouse_rows = 0,
         error_message = msg_absent_or_empty\<rparr>, empty_clickhouse)"
  proof -
    let ?D = "demo_migrator\<lparr>mysql_client :=
           demo_mysql\<lparr>count_rows := (\<lambda>t. Inl (server_error ''Access denied''))\<rparr>\<rparr>"
    note T = table_errors_become_failed_results [where D = ?D and C = empty_clickhouse and f = ?f and tm = demo_mapping
      and n = 3 and cols = demo_cols and rows = demo_rows and dir = "[]" and fs = "[]"
      and listing = "[]" and e = "server_error ''Access denied''" and u = 0 and j = 0 and k = 0
      and Cj = empty_clickhouse and batch = "[]"]
    have h: "load_csv_mapping (csv_loader ?D) ?f = Inr demo_mapping
        \<and> count_rows (mysql_client ?D) (mysql_table demo_mapping) = Inl (server_error ''Access denied'')"
      by (simp add: demo_migrator_fields demo_load)
    from T h show ?thesis by blast
  qed
  have 7: "get_table_comment (demo_mysql\<lparr>comment_row := (\<lambda>t. Inl (server_error ''Access denied''))\<rparr>)
        (asc ''users'') = []"
  proof -
    let ?D = "demo_migrator\<lparr>mysql_client :=
           demo_mysql\<lparr>comment_row := (\<lambda>t. Inl (server_error ''Access denied''))\<rparr>\<rparr>"
    note T = table_errors_become_failed_results [where D = ?D and C = empty_clickhouse and f = ?f and tm = demo_mapping
      and n = 3 and cols = demo_cols and rows = demo_rows and dir = "[]" and fs = "[]"
      and listing = "[]" and e = "server_error ''Access denied''" and u = 0 and j = 0 and k = 0
      and Cj = empty_clickhouse and batch = "[]"]
    have h: "comment_row (mysql_client ?D) (mysql_table demo_mapping) =
        Inl (server_error ''Access denied'')"
      by simp
    from T h have "get_table_comment (mysql_client ?D) (mysql_table demo_mapping) = []"
      by blast
    then show ?thesis by (simp add: demo_mapping_fields)
  qed
  have 8: "fst (migrate_table
        (demo_migrator\<lparr>mysql_client :=
           demo_mysql\<lparr>column_rows := (\<lambda>t. Inl (server_error ''Access denied''))\<rparr>\<rparr>)
        empty_clickhouse ?f) =
       \<lparr>table_mapping = Some demo_mapping, success = False, mysql_rows = 0, clickhouse_rows = 0,
        error_message = msg_structure_failed @ asc ''Access denied''\<rparr>"
  proof -
    let ?D = "demo_migrator\<lparr>mysql_client :=
           demo_mysql\<lparr>column_rows := (\<lambda>t. Inl (server_error ''Access denied''))\<rparr>\<rparr>"
    note T = table_errors_become_failed_results [where D = ?D and C = empty_clickhouse and f = ?f and tm = demo_mapping
      and n = 3 and cols = demo_cols and rows = demo_rows and dir = "[]" and fs = "[]"
      and listing = "[]" and e = "server_error ''Access denied''" and u = 0 and j = 0 and k = 0
      and Cj = empty_clickhouse and batch = "[]"]
    have p: "load_csv_mapping (csv_loader ?D) ?f = Inr demo_mapping
        \<and> count_rows (mysql_client ?D) (mysql_table demo_mapping) = Inr 3 \<and> (3::int) \<noteq> 0
        \<and> \<not> (fst (table_exists empty_clickhouse (clickhouse_table demo_mapping)) \<and> skip_existing ?D)"
      using demo_mysql_users(1) by (simp add: demo_migrator_fields demo_load demo_mapping_fields)
    have c: "column_rows (mysql_client ?D) (mysql_table demo_mapping) =
        Inl (server_error ''Access denied'')"
      by simp
    from T p c have "migrate_table ?D empty_clickhouse ?f =
       (\<lparr>table_mapping = Some demo_mapping, success = False, mysql_rows = 0, clickhouse_rows = 0,
        error_message = msg_structure_failed @ exn_msg (server_error ''Access denied'')\<rparr>,
        prepared_state ?D empty_clickhouse demo_mapping)"
      by blast
    then show ?thesis by (simp only: msg fst_conv)
  qed
  have 9: "fst (migrate_table
        (demo_migrator\<lparr>mysql_client :=
           demo_mysql\<lparr>column_rows := (\<lambda>t. Inr [(asc ''secret'', asc ''int'', [])])\<rparr>\<rparr>)
        empty_clickhouse ?f) =
       \<lparr>table_mapping = Some demo_mapping, success = False, mysql_rows = 0, clickhouse_rows = 0,
        error_message = msg_create_failed @ msg_no_fields\<rparr>"
  proof -
    let ?D = "demo_migrator\<lparr>mysql_client :=
           demo_mysql\<lparr>column_rows := (\<lambda>t. Inr [(asc ''secret'', asc ''int'', [])])\<rparr>\<rparr>"
    note T = table_errors_become_failed_results [where D = ?D and C = empty_clickhouse and f = ?f and tm = demo_mapping
      and n = 3 and cols = "[(asc ''secret'', asc ''int'', [])]" and rows = demo_rows and dir = "[]" and fs = "[]"
      and listing = "[]" and e = "server_error []" and u = 0 and j = 0 and k = 0
      and Cj = empty_clickhouse and batch = "[]"]
    have p: "load_csv_mapping (csv_loader ?D) ?f = Inr demo_mapping
        \<and> count_rows (mysql_client ?D) (mysql_table demo_mapping) = Inr 3 \<and> (3::int) \<noteq> 0
        \<and> \<not> (fst (table_exists empty_clickhouse (clickhouse_table demo_mapping)) \<and> skip_existing ?D)"
      using demo_mysql_users(1) by (simp add: demo_migrator_fields demo_load demo_mapping_fields)
    have c: "column_rows (mysql_client ?D) (mysql_table demo_mapping) =
          Inr [(asc ''secret'', asc ''int'', [])]
        \<and> fst (build_fields (lib ?D) (field_mappings demo_mapping) [(asc ''secret'', asc ''int'', [])]) = []"
      by (simp add: build_fields_def field_step_def demo_mapping_def asc_def)
    from T p c have "migrate_table ?D empty_clickhouse ?f =
       (\<lparr>table_mapping = Some demo_mapping, success = False, mysql_rows = 0, clickhouse_rows = 0,
        error_message = msg_create_failed @ msg_no_fields\<rparr>,
        prepared_state ?D empty_clickhouse demo_mapping)"
      by blast
    then show ?thesis by (simp only: fst_conv)
  qed
  have 10: "fst (migrate_table demo_migrator (empty_clickhouse\<lparr>ch_fault := rejects_create\<rparr>) ?f) =
       \<lparr>table_mapping = Some demo_mapping, success = False, mysql_rows = 0, clickhouse_rows = 0,
        error_message = msg_create_failed @ asc ''Unknown data type''\<rparr>"
  proof -
    let ?C = "empty_clickhouse\<lparr>ch_fault := rejects_create\<rparr>"
    note T = table_errors_become_failed_results [where D = demo_migrator and C = ?C and f = ?f and tm = demo_mapping
      and n = 3 and cols = demo_cols and rows = demo_rows and dir = "[]" and fs = "[]"
      and listing = "[]" and e = "server_error ''Unknown data type''" and u = 0 and j = 0 and k = 0
      and Cj = empty_clickhouse and batch = "[]"]
    have p: "load_csv_mapping (csv_loader demo_migrator) ?f = Inr demo_mapping
        \<and> count_rows (mysql_client demo_migrator) (mysql_table demo_mapping) = Inr 3 \<and> (3::int) \<noteq> 0
        \<and> \<not> (fst (table_exists ?C (clickhouse_table demo_mapping)) \<and> skip_existing demo_migrator)"
      by (simp add: demo_migrator_fields demo_load demo_mapping_fields demo_mysql_users)
    have fc: "ch_fault (prepared_state demo_migrator ?C demo_mapping) = rejects_create"
      by (subst demo_prepared) (simp_all add: rejects_create_def)
    have c: "column_rows (mysql_client demo_migrator) (mysql_table demo_mapping) = Inr demo_cols
        \<and> fst (build_fields (lib demo_migrator) (field_mappings demo_mapping) demo_cols) \<noteq> []
        \<and> fst (execute (prepared_state demo_migrator ?C demo_mapping) (CreateTable
             \<lparr>cs_table = clickhouse_table demo_mapping,
              cs_field_definitions = map field_definition (fst (build_fields (lib demo_migrator) (field_mappings demo_mapping) demo_cols)),
              cs_order_by = fst (hd (fst (build_fields (lib demo_migrator) (field_mappings demo_mapping) demo_cols))),
              cs_table_comment = get_table_comment (mysql_client demo_migrator) (mysql_table demo_mapping)\<rparr>))
          = Inl (server_error ''Unknown data type'')"
      by (simp add: demo_migrator_fields demo_mapping_fields demo_mysql_users demo_build
          demo_fields_hd rejects_create_execute [OF fc])
    from T p c have "fst (migrate_table demo_migrator ?C ?f) =
       \<lparr>table_mapping = Some demo_mapping, success = False, mysql_rows = 0, clickhouse_rows = 0,
        error_message = msg_create_failed @ exn_msg (server_error ''Unknown data type'')\<rparr>"
      by (metis fst_conv)
    then show ?thesis by (simp only: msg)
  qed
  have 11: "fst (migrate_table
        (demo_migrator\<lparr>mysql_client :=
           demo_mysql\<lparr>select_rows := (\<lambda>t. Inl (server_error ''Lost connection''))\<rparr>\<rparr>)
        empty_clickhouse ?f) =
       \<lparr>table_mapping = Some demo_mapping, success = False, mysql_rows = 0, clickhouse_rows = 0,
        error_message = msg_read_failed @ asc ''Lost connection''\<rparr>"
  proof -
    let ?M = "demo_mysql\<lparr>select_rows := (\<lambda>t. Inl (server_error ''Lost connection''))\<rparr>"
    let ?D = "demo_migrator\<lparr>mysql_client := ?M\<rparr>"
    note T = table_errors_become_failed_results [where D = ?D and C = empty_clickhouse and f = ?f and tm = demo_mapping
      and n = 3 and cols = demo_cols and rows = demo_rows and dir = "[]" and fs = "[]"
      and listing = "[]" and e = "server_error ''Lost connection''" and u = 0 and j = 0 and k = 0
      and Cj = empty_clickhouse and batch = "[]"]
    have M: "count_rows ?M (asc ''users'') = Inr 3" "column_rows ?M (asc ''users'') = Inr demo_cols"
      "get_table_comment ?M (asc ''users'') = asc ''accounts''"
      using demo_mysql_users by (simp_all add: get_table_comment_def)
    have p: "load_csv_mapping (csv_loader ?D) ?f = Inr demo_mapping
        \<and> count_rows (mysql_client ?D) (mysql_table demo_mapping) = Inr 3 \<and> (3::int) \<noteq> 0
        \<and> \<not> (fst (table_exists empty_clickhouse (clickhouse_table demo_mapping)) \<and> skip_existing ?D)"
      by (simp add: demo_migrator_fields demo_load demo_mapping_fields M demo_mysql_users)
    have x: "fst (execute (empty_clickhouse\<lparr>ch_log := [ExistsTable (asc ''users'')]\<rparr>) demo_create)
        = Inr 0"
      by (simp add: execute_def run_stmt_def empty_clickhouse_def demo_create_def)
    have c: "column_rows (mysql_client ?D) (mysql_table demo_mapping) = Inr demo_cols
        \<and> fst (build_fields (lib ?D) (field_mappings demo_mapping) demo_cols) \<noteq> []
        \<and> fst (execute (prepared_state ?D empty_clickhouse demo_mapping) (CreateTable
             \<lparr>cs_table = clickhouse_table demo_mapping,
              cs_field_definitions = map field_definition (fst (build_fields (lib ?D) (field_mappings demo_mapping) demo_cols)),
              cs_order_by = fst (hd (fst (build_fields (lib ?D) (field_mappings demo_mapping) demo_cols))),
              cs_table_comment = get_table_comment (mysql_client ?D) (mysql_table demo_mapping)\<rparr>))
          = Inr 0
        \<and> select_rows (mysql_client ?D) (mysql_table demo_mapping) =
            Inl (server_error ''Lost connection'')"
      by (simp add: demo_migrator_fields demo_mapping_fields M demo_mysql_users demo_build
          demo_fields_hd demo_prepared0 demo_create_statement x)
    from T p c have "fst (migrate_table ?D empty_clickhouse ?f) =
       \<lparr>table_mapping = Some demo_mapping, success = False, mysql_rows = 0, clickhouse_rows = 0,
        error_message = msg_read_failed @ exn_msg (server_error ''Lost connection'')\<rparr>"
      by (metis fst_conv)
    then show ?thesis by (simp only: msg)
  qed
  have 12: "fst (migrate_table (demo_migrator\<lparr>batch_size := 5\<rparr>)
        (empty_clickhouse\<lparr>ch_fault := rejects_row (demo_processed ! 2)\<rparr>) ?f) =
       \<lparr>table_mapping = Some demo_mapping, success = False, mysql_rows = 0, clickhouse_rows = 0,
        error_message = msg_insert_failed @ msg_insert_failed @ asc ''Cannot parse input''\<rparr>"
  proof -
    let ?D = "demo_migrator\<lparr>batch_size := 5\<rparr>"
    let ?C = "empty_clickhouse\<lparr>ch_fault := rejects_row (demo_processed ! 2)\<rparr>"
    let ?C1 = "empty_clickhouse\<lparr>ch_tables := [asc ''users'' \<mapsto> []],
        ch_log := [ExistsTable (asc ''users''), demo_create],
        ch_fault := rejects_row (demo_processed ! 2)\<rparr>"
    let ?Fb = "build_fields (lib ?D) (field_mappings demo_mapping) demo_cols"
    let ?cs = "(CreateTable
             \<lparr>cs_table = clickhouse_table demo_mapping,
              cs_field_definitions = map field_definition (fst (build_fields (lib ?D) (field_mappings demo_mapping) demo_cols)),
              cs_order_by = fst (hd (fst (build_fields (lib ?D) (field_mappings demo_mapping) demo_cols))),
              cs_table_comment = get_table_comment (mysql_client ?D) (mysql_table demo_mapping)\<rparr>)"
    let ?bs = "fetch_batches (batch_size ?D) demo_rows"
    note T = table_errors_become_failed_results [where D = ?D and C = ?C and f = ?f and tm = demo_mapping
      and n = 3 and cols = demo_cols and rows = demo_rows and dir = "[]" and fs = "[]"
      and listing = "[]" and e = "server_error ''Cannot parse input''" and u = 0 and j = 0 and k = 0
      and Cj = ?C1 and batch = demo_rows]
    have D: "lib ?D = ascii_lib" "mysql_client ?D = demo_mysql" "csv_loader ?D = demo_files"
      "batch_size ?D = 5" "skip_existing ?D = False"
      by (simp_all add: demo_migrator_fields)
    have p: "load_csv_mapping (csv_loader ?D) ?f = Inr demo_mapping
        \<and> count_rows (mysql_client ?D) (mysql_table demo_mapping) = Inr 3 \<and> (3::int) \<noteq> 0
        \<and> \<not> (fst (table_exists ?C (clickhouse_table demo_mapping)) \<and> skip_existing ?D)"
      by (simp add: D demo_load demo_mapping_fields demo_mysql_users)
    have cs: "?cs = demo_create"
      by (simp only: D demo_build fst_conv demo_mapping_fields demo_mysql_users demo_fields_hd
          demo_create_statement)
    have prep: "prepared_state ?D ?C demo_mapping =
        empty_clickhouse\<lparr>ch_log := [ExistsTable (asc ''users'')],
          ch_fault := rejects_row (demo_processed ! 2)\<rparr>"
      by (rule demo_prepared) (simp add: rejects_row_def)
    have ex: "execute (prepared_state ?D ?C demo_mapping) ?cs = (Inr 0, ?C1)"
      unfolding prep cs by (rule demo_create_executed) (simp add: rejects_row_def demo_create_def)
    have f1: "ch_fault ?C1 = rejects_row (demo_processed ! 2)" by simp
    have c1: "column_rows (mysql_client ?D) (mysql_table demo_mapping) = Inr demo_cols"
      by (simp only: D demo_mapping_fields demo_mysql_users)
    have c2: "fst ?Fb \<noteq> []" by (simp add: demo_migrator_fields demo_build demo_fields_hd)
    have c3: "fst (execute (prepared_state ?D ?C demo_mapping) ?cs) = Inr 0"
      by (simp only: ex fst_conv)
    have c4: "select_rows (mysql_client ?D) (mysql_table demo_mapping) = Inr demo_rows"
      by (simp only: D demo_mapping_fields demo_mysql_users)
    have c5: "0 < length ?bs" by (simp add: demo_migrator_fields demo_batches)
    have c6: "migrate_batches ?D (snd (execute (prepared_state ?D ?C demo_mapping) ?cs))
        demo_mapping demo_cols (snd ?Fb) 0 (take 0 ?bs) = (Inr 0, ?C1)"
      by (simp only: ex snd_conv take_0 migrate_batches.simps)
    have c7: "map_rows (snd ?Fb) demo_cols (?bs ! 0) = Inr demo_rows"
      by (simp only: D demo_batches demo_build snd_conv nth_Cons_0 demo_map_rows_all)
    have c8: "fst (execute ?C1 (InsertRows (clickhouse_table demo_mapping)
          (mapped_names (snd ?Fb) demo_cols)
          (process_rows (lib ?D) (mapped_names (snd ?Fb) demo_cols)
             (mapped_types (snd ?Fb) demo_cols) demo_rows))) =
        Inl (server_error ''Cannot parse input'')"
      unfolding D demo_build snd_conv demo_mapped demo_process by (rule demo_rejected [OF f1])
    from T p c1 c2 c3 c4 c5 c6 c7 c8 have "fst (migrate_table ?D ?C ?f) =
       \<lparr>table_mapping = Some demo_mapping, success = False, mysql_rows = 0, clickhouse_rows = 0,
        error_message = msg_insert_failed @ msg_insert_failed
          @ exn_msg (server_error ''Cannot parse input'')\<rparr>"
      by blast
    then show ?thesis by (simp only: msg)
  qed
  from 1 2 3 4 5 6 7 8 9 10 11 12 show ?thesis by blast
qed

text \<open>
  The claim as stated fails: when the count query of the source table fails, the result
  is a failure whose message is the fixed text of an absent or empty table, and the
  message of the error is not in it; and when the query for the comment of the table
  fails, the migration succeeds.
\<close>

theorem failed_count_query_counterexample:
  "count_rows (demo_mysql\<lparr>count_rows := (\<lambda>t. Inl (server_error ''Access denied''))\<rparr>)
      (asc ''users'') = Inl (server_error ''Access denied'')
   \<and> migrate_table
        (demo_migrator\<lparr>mysql_client :=
           demo_mysql\<lparr>count_rows := (\<lambda>t. Inl (server_error ''Access denied''))\<rparr>\<rparr>)
        empty_clickhouse (asc ''maps/users-users.csv'') =
       (\<lparr>table_mapping = Some demo_mapping, success = False, mysql_rows = 0, clickhouse_rows = 0,
         error_message = msg_absent_or_empty\<rparr>, empty_clickhouse)
   \<and> \<not> contains msg_absent_or_empty (asc ''Access denied'')
   \<and> comment_row (demo_mysql\<lparr>comment_row := (\<lambda>t. Inl (server_error ''Access denied''))\<rparr>)
      (asc ''users'') = Inl (server_error ''Access denied'')
   \<and> fst (migrate_table
        (demo_migrator\<lparr>mysql_client :=
           demo_mysql\<lparr>comment_row := (\<lambda>t. Inl (server_error ''Access denied''))\<rparr>\<rparr>)
        empty_clickhouse (asc ''maps/users-users.csv'')) =
       \<lparr>table_mapping = Some demo_mapping, success = True, mysql_rows = 3, clickhouse_rows = 3,
        error_message = []\<rparr>"
proof -
  let ?f = "asc ''maps/users-users.csv''"
  let ?Dn = "demo_migrator\<lparr>mysql_client :=
           demo_mysql\<lparr>count_rows := (\<lambda>t. Inl (server_error ''Access denied''))\<rparr>\<rparr>"
  let ?Mc = "demo_mysql\<lparr>comment_row := (\<lambda>t. Inl (server_error ''Access denied''))\<rparr>"
  let ?Dc = "demo_migrator\<lparr>mysql_client := ?Mc\<rparr>"
  have 1: "migrate_table ?Dn empty_clickhouse ?f =
       (\<lparr>table_mapping = Some demo_mapping, success = False, mysql_rows = 0, clickhouse_rows = 0,
         error_message = msg_absent_or_empty\<rparr>, empty_clickhouse)"
    by (rule migrate_table_count_failed [where e = "server_error ''Access denied''"])
      (simp_all add: demo_migrator_fields demo_load)
  have 2: "\<not> contains msg_absent_or_empty (asc ''Access denied'')"
    by (simp add: msg_absent_or_empty_def asc_def startswith_def)
  have M: "count_rows ?Mc (asc ''users'') = Inr 3" "column_rows ?Mc (asc ''users'') = Inr demo_cols"
    "select_rows ?Mc (asc ''users'') = Inr demo_rows"
    using demo_mysql_users by simp_all
  have D: "lib ?Dc = ascii_lib" "mysql_client ?Dc = ?Mc" "csv_loader ?Dc = demo_files"
    "batch_size ?Dc = 2" "skip_existing ?Dc = False"
    by (simp_all add: demo_migrator_fields)
  have 3: "fst (migrate_table ?Dc empty_clickhouse ?f) =
       \<lparr>table_mapping = Some demo_mapping, success = True, mysql_rows = 3, clickhouse_rows = 3,
        error_message = []\<rparr>"
    by (rule demo_run_any [OF D M(1) _ M(2) M(3)]) simp
  from 1 2 3 show ?thesis by simp
qed

end
